(* ===== verification/Prelude.thy ===== *)
theory Prelude
  imports Main "HOL-Library.Word"
begin

text \<open>
  Shared vocabulary of the development: the C types the sources use
  (descriptors and exit statuses are C \<open>int\<close>s, paths are strings), the named
  theorem collections the component theories feed, and generic lemmas on lists
  and options that the descriptor-table and pipe proofs share.
\<close>

section \<open>Types and constants of the C sources\<close>

type_synonym fd = int
type_synonym status = int
type_synonym path = string

abbreviation STDIN_FILENO :: fd where "STDIN_FILENO \<equiv> 0"
abbreviation STDOUT_FILENO :: fd where "STDOUT_FILENO \<equiv> 1"
abbreviation EXIT_FAILURE :: status where "EXIT_FAILURE \<equiv> 1"

section \<open>Collections\<close>

named_theorems posix_simps "evaluation rules of the system-call model"
named_theorems shell_simps "evaluation rules of the shell's operations"

section \<open>Generic lemmas\<close>

lemma takeWhile_not_None_nth:
  assumes "i < length (takeWhile (\<lambda>x. x \<noteq> None) xs)"
  shows "xs ! i \<noteq> None"
proof -
  have "takeWhile (\<lambda>x. x \<noteq> None) xs ! i \<in> set (takeWhile (\<lambda>x. x \<noteq> None) xs)"
    using assms by (rule nth_mem)
  then have "takeWhile (\<lambda>x. x \<noteq> None) xs ! i \<noteq> None"
    by (blast dest: set_takeWhileD)
  with assms show ?thesis by (simp add: takeWhile_nth)
qed

lemma takeWhile_not_None_stop:
  "length (takeWhile (\<lambda>x. x \<noteq> None) xs) < length xs \<Longrightarrow>
   xs ! length (takeWhile (\<lambda>x. x \<noteq> None) xs) = None"
  using nth_length_takeWhile by fastforce

lemma takeWhile_not_None_ge:
  assumes "\<forall>i<n. i < length xs \<and> xs ! i \<noteq> None"
  shows "n \<le> length (takeWhile (\<lambda>x. x \<noteq> None) xs)"
proof (rule ccontr)
  assume "\<not> n \<le> length (takeWhile (\<lambda>x. x \<noteq> None) xs)"
  then have lt: "length (takeWhile (\<lambda>x. x \<noteq> None) xs) < n" by simp
  with assms have "length (takeWhile (\<lambda>x. x \<noteq> None) xs) < length xs" by blast
  then have "xs ! length (takeWhile (\<lambda>x. x \<noteq> None) xs) = None"
    by (rule takeWhile_not_None_stop)
  with assms lt show False by blast
qed

end
