(* ===== verification/Posix.thy ===== *)
theory Posix
  imports Prelude
begin

text \<open>
  The part of the POSIX kernel the shell's code calls: per-process descriptor
  tables, \<open>open\<close>, \<open>close\<close>, \<open>dup\<close>, \<open>dup2\<close>, \<open>pipe\<close>, process creation limits,
  and what an executed program reads from descriptor 0 and writes to
  descriptor 1. This is the environment of \<open>src/lab2/src/shell.c\<close>, not code of
  the repository: it is written after the POSIX manual pages so that the
  shell's own code can be translated call by call.

  A descriptor table is a list indexed by descriptor number; a free slot is
  \<open>None\<close>; new descriptors take the lowest free slot, as POSIX requires.
  Processes do not run concurrently in the shell (each child is waited for
  before the next one is created), so a running program is a function from
  the world to the world; the descriptor tables of the processes blocked in
  \<open>wait\<close> above it (\<open>live\<close>) decide whether a pipe read sees end-of-file
  and whether a pipe write has a reader. \<open>None\<close> as a result means that the
  process blocks for ever.
\<close>

section \<open>Open file descriptions and descriptor tables\<close>

datatype ofile = Tty | RdFile path | WrFile path | PipeRd nat | PipeWr nat

type_synonym fdtab = "ofile option list"

definition fd_get :: "fdtab \<Rightarrow> fd \<Rightarrow> ofile option" where
  "fd_get t i = (if 0 \<le> i \<and> nat i < length t then t ! nat i else None)"

definition fd_put :: "fdtab \<Rightarrow> nat \<Rightarrow> ofile option \<Rightarrow> fdtab" where
  "fd_put t n v =
     (if n < length t then t[n := v] else t @ replicate (n - length t) None @ [v])"

text \<open>The lowest free descriptor (POSIX: \<open>open\<close>, \<open>pipe\<close> and \<open>dup\<close> return it).\<close>

definition alloc_fd :: "fdtab \<Rightarrow> nat" where
  "alloc_fd t = length (takeWhile (\<lambda>x. x \<noteq> None) t)"

section \<open>Programs, the static environment and the world\<close>

text \<open>
  An external program is a black box: whether it reads its standard input, and
  the output and exit status it produces from its argument vector and the
  whole input.
\<close>

record program =
  reads_stdin :: bool
  behaviour :: "string list \<Rightarrow> string \<Rightarrow> string \<times> status"

record env =
  progs :: "string \<rightharpoonup> program"     \<comment> \<open>executables found on \<open>PATH\<close>\<close>
  unwritable :: "path list"            \<comment> \<open>paths \<open>open(O_WRONLY|O_CREAT)\<close> refuses\<close>
  pipe_cap :: nat                      \<comment> \<open>pipe buffer capacity in bytes\<close>
  fd_limit :: nat                      \<comment> \<open>\<open>RLIMIT_NOFILE\<close>\<close>
  proc_limit :: nat                    \<comment> \<open>\<open>RLIMIT_NPROC\<close>\<close>

record world =
  files :: "path \<rightharpoonup> string"
  tty_in :: string
  tty_out :: string
  errs :: "string list"                \<comment> \<open>what \<open>perror\<close> printed, by tag\<close>
  pipes :: "string list"               \<comment> \<open>buffer of pipe \<open>k\<close> at index \<open>k\<close>\<close>
  nprocs :: nat                        \<comment> \<open>live processes\<close>

definition perror :: "string \<Rightarrow> world \<Rightarrow> world" where
  "perror s w = w\<lparr>errs := errs w @ [s]\<rparr>"

section \<open>System calls on descriptor tables\<close>

definition sys_close :: "fd \<Rightarrow> fdtab \<Rightarrow> fdtab" where
  "sys_close i t = (if fd_get t i = None then t else fd_put t (nat i) None)"

text \<open>\<open>dup2\<close> fails on a closed or negative \<open>old\<close> and leaves the table alone.\<close>

definition sys_dup2 :: "fd \<Rightarrow> fd \<Rightarrow> fdtab \<Rightarrow> fdtab" where
  "sys_dup2 old new t =
     (if fd_get t old = None \<or> new < 0 \<or> old = new then t
      else fd_put t (nat new) (fd_get t old))"

definition sys_dup :: "env \<Rightarrow> fd \<Rightarrow> fdtab \<Rightarrow> fd \<times> fdtab" where
  "sys_dup E old t =
     (let n = alloc_fd t in
      if fd_get t old = None \<or> fd_limit E \<le> n then (-1, t)
      else (int n, fd_put t n (fd_get t old)))"

definition sys_open_rd :: "env \<Rightarrow> path \<Rightarrow> fdtab \<Rightarrow> world \<Rightarrow> fd \<times> fdtab" where
  "sys_open_rd E p t w =
     (let n = alloc_fd t in
      if files w p = None \<or> fd_limit E \<le> n then (-1, t)
      else (int n, fd_put t n (Some (RdFile p))))"

text \<open>\<open>open(p, O_WRONLY | O_CREAT | O_TRUNC, 0644)\<close>: creates or empties the file.\<close>

definition sys_open_wr :: "env \<Rightarrow> path \<Rightarrow> fdtab \<Rightarrow> world \<Rightarrow> fd \<times> fdtab \<times> world" where
  "sys_open_wr E p t w =
     (let n = alloc_fd t in
      if p \<in> set (unwritable E) \<or> fd_limit E \<le> n then (-1, t, w)
      else (int n, fd_put t n (Some (WrFile p)), w\<lparr>files := (files w)(p \<mapsto> [])\<rparr>))"

text \<open>\<open>pipe\<close>: \<open>None\<close> is the \<open>-1\<close> return (descriptor table full).\<close>

definition sys_pipe :: "env \<Rightarrow> fdtab \<Rightarrow> world \<Rightarrow> (fd \<times> fd \<times> fdtab \<times> world) option" where
  "sys_pipe E t w =
     (let k = length (pipes w); r = alloc_fd t; t1 = fd_put t r (Some (PipeRd k));
          wr = alloc_fd t1
      in if fd_limit E \<le> r \<or> fd_limit E \<le> wr then None
         else Some (int r, int wr, fd_put t1 wr (Some (PipeWr k)), w\<lparr>pipes := pipes w @ [[]]\<rparr>))"

section \<open>Reading and writing the standard streams\<close>

definition has_writer :: "fdtab list \<Rightarrow> nat \<Rightarrow> bool" where
  "has_writer live k = (\<exists>t\<in>set live. Some (PipeWr k) \<in> set t)"

definition has_reader :: "fdtab list \<Rightarrow> nat \<Rightarrow> bool" where
  "has_reader live k = (\<exists>t\<in>set live. Some (PipeRd k) \<in> set t)"

definition pipe_buf :: "world \<Rightarrow> nat \<Rightarrow> string" where
  "pipe_buf w k = (if k < length (pipes w) then pipes w ! k else [])"

text \<open>
  Reading standard input to end-of-file. A pipe delivers end-of-file only when no
  live process holds its write end; otherwise the reader blocks for ever, since
  no writer runs while the reader does. A closed or write-only descriptor reads
  nothing (\<open>EBADF\<close>).
\<close>

definition read_stdin :: "fdtab list \<Rightarrow> fdtab \<Rightarrow> world \<Rightarrow> (string \<times> world) option" where
  "read_stdin live t w =
     (case fd_get t STDIN_FILENO of
        Some Tty \<Rightarrow> Some (tty_in w, w\<lparr>tty_in := []\<rparr>)
      | Some (RdFile p) \<Rightarrow> Some (case files w p of Some s \<Rightarrow> s | None \<Rightarrow> [], w)
      | Some (PipeRd k) \<Rightarrow>
          (if has_writer live k then None
           else Some (pipe_buf w k, w\<lparr>pipes := (pipes w)[k := []]\<rparr>))
      | _ \<Rightarrow> Some ([], w))"

text \<open>
  Writing the whole output to standard output. A pipe with no reader kills the
  writer (\<open>SIGPIPE\<close>, the flag \<open>True\<close>); a pipe whose buffer would exceed its
  capacity blocks the writer for ever, since its reader runs only later.
\<close>

definition write_stdout ::
  "env \<Rightarrow> fdtab list \<Rightarrow> fdtab \<Rightarrow> string \<Rightarrow> world \<Rightarrow> (world \<times> bool) option" where
  "write_stdout E live t s w =
     (if s = [] then Some (w, False) else
      case fd_get t STDOUT_FILENO of
        Some Tty \<Rightarrow> Some (w\<lparr>tty_out := tty_out w @ s\<rparr>, False)
      | Some (WrFile p) \<Rightarrow>
          Some (w\<lparr>files := (files w)(p \<mapsto> (case files w p of Some c \<Rightarrow> c | None \<Rightarrow> []) @ s)\<rparr>, False)
      | Some (PipeWr k) \<Rightarrow>
          (if \<not> has_reader live k then Some (w, True)
           else if pipe_cap E < length (pipe_buf w k @ s) then None
           else Some (w\<lparr>pipes := (pipes w)[k := pipe_buf w k @ s]\<rparr>, False))
      | _ \<Rightarrow> Some (w, False))"

section \<open>Results of the shell's own process\<close>

text \<open>
  An operation run in the shell's process returns to the caller with a new
  descriptor table, world and status (\<open>Ret\<close>), ends the whole shell by
  \<open>exit\<close> (\<open>ShExit\<close>), or blocks for ever (\<open>Hang\<close>).
\<close>

datatype sh_res = Ret fdtab world status | ShExit world status | Hang

section \<open>Executing a program image\<close>

definition exec_lookup :: "env \<Rightarrow> string list \<Rightarrow> program option" where
  "exec_lookup E argv = (case argv of [] \<Rightarrow> None | a # _ \<Rightarrow> progs E a)"

text \<open>A process whose image is \<open>pr\<close> runs to its exit; 141 is death by \<open>SIGPIPE\<close>.\<close>

definition exec_prog ::
  "env \<Rightarrow> fdtab list \<Rightarrow> fdtab \<Rightarrow> program \<Rightarrow> string list \<Rightarrow> world \<Rightarrow> (world \<times> status) option" where
  "exec_prog E live t pr argv w =
     (case (if reads_stdin pr then read_stdin live t w else Some ([], w)) of
        None \<Rightarrow> None
      | Some (inp, w1) \<Rightarrow>
          (case behaviour pr argv inp of (out, st) \<Rightarrow>
            (case write_stdout E live t out w1 of
               None \<Rightarrow> None
             | Some (w2, killed) \<Rightarrow> Some (w2, if killed then 141 else st))))"

section \<open>Streams seen through open file descriptions\<close>

text \<open>
  What a program reads from a source description and how a sink description
  takes its output, for the terminal and pipes; \<open>src_ok\<close> and \<open>snk_ok\<close>
  say when reading sees end-of-file and writing has a reader, \<open>snk_fits\<close>
  when a pipe's buffer takes the whole output.
\<close>

definition src_input :: "ofile \<Rightarrow> world \<Rightarrow> string" where
  "src_input src w = (case src of Tty \<Rightarrow> tty_in w | PipeRd k \<Rightarrow> pipe_buf w k | _ \<Rightarrow> [])"

definition src_consume :: "ofile \<Rightarrow> world \<Rightarrow> world" where
  "src_consume src w =
     (case src of Tty \<Rightarrow> w\<lparr>tty_in := []\<rparr> | PipeRd k \<Rightarrow> w\<lparr>pipes := (pipes w)[k := []]\<rparr> | _ \<Rightarrow> w)"

definition snk_write :: "ofile \<Rightarrow> string \<Rightarrow> world \<Rightarrow> world" where
  "snk_write snk s w =
     (case snk of Tty \<Rightarrow> w\<lparr>tty_out := tty_out w @ s\<rparr>
      | PipeWr k \<Rightarrow> w\<lparr>pipes := (pipes w)[k := pipe_buf w k @ s]\<rparr> | _ \<Rightarrow> w)"

definition src_ok :: "fdtab list \<Rightarrow> ofile \<Rightarrow> bool" where
  "src_ok live src \<longleftrightarrow> src = Tty \<or> (\<exists>k. src = PipeRd k \<and> \<not> has_writer live k)"

definition snk_ok :: "env \<Rightarrow> fdtab list \<Rightarrow> ofile \<Rightarrow> world \<Rightarrow> bool" where
  "snk_ok E live snk w \<longleftrightarrow> snk = Tty \<or>
     (\<exists>k. snk = PipeWr k \<and> has_reader live k \<and> k < length (pipes w) \<and> length (pipe_buf w k) \<le> pipe_cap E)"

definition snk_fits :: "env \<Rightarrow> ofile \<Rightarrow> string \<Rightarrow> world \<Rightarrow> bool" where
  "snk_fits E snk s w \<longleftrightarrow> (case snk of PipeWr k \<Rightarrow> length (pipe_buf w k @ s) \<le> pipe_cap E | _ \<Rightarrow> True)"

text \<open>A table holding the terminal on descriptors \<open>0 .. n-1\<close> and nothing else.\<close>

definition tty_table :: "fdtab \<Rightarrow> bool" where
  "tty_table t \<longleftrightarrow> 2 \<le> length t \<and> list_all (\<lambda>x. x = Some Tty) t"

definition tty_fds :: "nat \<Rightarrow> fd \<Rightarrow> ofile option" where
  "tty_fds a i = (if 0 \<le> i \<and> i < int a then Some Tty else None)"

section \<open>Descriptor-table lemmas\<close>

text \<open>Tables are compared by \<open>fd_get\<close>: trailing free slots are invisible to a process.\<close>

lemma fd_get_fd_put [posix_simps]:
  "fd_get (fd_put t n v) i = (if i = int n then v else fd_get t i)"
  by (auto simp: fd_get_def fd_put_def nth_append nth_list_update)

lemma fd_get_close [posix_simps]:
  "fd_get (sys_close j t) i = (if i = j then None else fd_get t i)"
  by (auto simp: sys_close_def fd_get_fd_put) (auto simp: fd_get_def)

lemma fd_get_dup2 [posix_simps]:
  "fd_get (sys_dup2 old new t) i =
     (if i = new \<and> 0 \<le> new \<and> fd_get t old \<noteq> None then fd_get t old else fd_get t i)"
  by (auto simp: sys_dup2_def fd_get_fd_put)

lemma alloc_fd_free [posix_simps]: "fd_get t (int (alloc_fd t)) = None"
  unfolding fd_get_def alloc_fd_def using takeWhile_not_None_stop [of t] by auto

lemma alloc_fd_lowest:
  assumes "i < alloc_fd t"
  shows "fd_get t (int i) \<noteq> None"
proof -
  have "i < length t" using assms length_takeWhile_le [of _ t]
    unfolding alloc_fd_def by (metis order.strict_trans2)
  with assms show ?thesis
    by (simp add: fd_get_def alloc_fd_def takeWhile_not_None_nth)
qed

lemma alloc_fd_ge2:
  "fd_get t 0 \<noteq> None \<Longrightarrow> fd_get t 1 \<noteq> None \<Longrightarrow> 2 \<le> alloc_fd t"
proof (rule ccontr)
  assume "fd_get t 0 \<noteq> None" "fd_get t 1 \<noteq> None" "\<not> 2 \<le> alloc_fd t"
  moreover have "fd_get t (int (alloc_fd t)) = None" by (rule alloc_fd_free)
  moreover from \<open>\<not> 2 \<le> alloc_fd t\<close> have "alloc_fd t = 0 \<or> alloc_fd t = 1" by arith
  ultimately show False by auto
qed

lemma alloc_fd_unique:
  assumes "fd_get t (int n) = None" and "\<forall>i<n. fd_get t (int i) \<noteq> None"
  shows "alloc_fd t = n"
proof (rule linorder_cases [of "alloc_fd t" n])
  assume "alloc_fd t < n"
  with assms(2) alloc_fd_free [of t] show ?thesis by blast
next
  assume "n < alloc_fd t"
  with assms(1) alloc_fd_lowest show ?thesis by blast
qed

lemma alloc_fd_cong: "fd_get t = fd_get t' \<Longrightarrow> alloc_fd t = alloc_fd t'"
  by (rule alloc_fd_unique) (auto simp: alloc_fd_free alloc_fd_lowest dest: fun_cong)

section \<open>Reading and writing terminals and files\<close>

lemma read_stdin_tty [posix_simps]:
  "fd_get t STDIN_FILENO = Some Tty \<Longrightarrow> read_stdin live t w = Some (tty_in w, w\<lparr>tty_in := []\<rparr>)"
  by (simp add: read_stdin_def)

lemma read_stdin_file [posix_simps]:
  "fd_get t STDIN_FILENO = Some (RdFile x) \<Longrightarrow> files w x = Some c \<Longrightarrow> read_stdin live t w = Some (c, w)"
  by (simp add: read_stdin_def)

lemma write_stdout_tty [posix_simps]:
  "fd_get t STDOUT_FILENO = Some Tty \<Longrightarrow>
   write_stdout E live t s w = Some (w\<lparr>tty_out := tty_out w @ s\<rparr>, False)"
  by (simp add: write_stdout_def)

lemma write_stdout_file [posix_simps]:
  "fd_get t STDOUT_FILENO = Some (WrFile x) \<Longrightarrow> files w x = Some c \<Longrightarrow>
   write_stdout E live t s w = Some (w\<lparr>files := (files w)(x \<mapsto> c @ s)\<rparr>, False)"
  by (cases "s = []") (auto simp: write_stdout_def map_upd_triv)

lemma alloc_fd_open_cong:
  "(\<And>i. (fd_get t i = None) = (fd_get t' i = None)) \<Longrightarrow> alloc_fd t = alloc_fd t'"
  by (rule alloc_fd_unique) (auto simp: alloc_fd_free alloc_fd_lowest)

section \<open>Function-level descriptor lemmas\<close>

lemma set_fd_get: "Some x \<in> set t \<longleftrightarrow> (\<exists>i. fd_get t i = Some x)"
proof
  assume "Some x \<in> set t"
  then obtain n where "n < length t" "t ! n = Some x" by (auto simp: in_set_conv_nth)
  then have "fd_get t (int n) = Some x" by (simp add: fd_get_def)
  then show "\<exists>i. fd_get t i = Some x" ..
next
  assume "\<exists>i. fd_get t i = Some x"
  then obtain i where i: "fd_get t i = Some x" ..
  then have "nat i < length t" "t ! nat i = Some x" by (auto simp: fd_get_def split: if_splits)
  then show "Some x \<in> set t" by (metis nth_mem)
qed

lemma has_writer_fd_get: "has_writer live k \<longleftrightarrow> (\<exists>t\<in>set live. \<exists>i. fd_get t i = Some (PipeWr k))"
  by (simp add: has_writer_def set_fd_get)

lemma has_reader_fd_get: "has_reader live k \<longleftrightarrow> (\<exists>t\<in>set live. \<exists>i. fd_get t i = Some (PipeRd k))"
  by (simp add: has_reader_def set_fd_get)

lemma fd_get_close_fun: "fd_get (sys_close j t) = (fd_get t)(j := None)"
  by (rule ext) (simp add: fd_get_close)

lemma fd_get_dup2_fun:
  "fd_get (sys_dup2 old new t) =
     (if 0 \<le> new \<and> fd_get t old \<noteq> None then (fd_get t)(new := fd_get t old) else fd_get t)"
  by (rule ext) (auto simp: fd_get_dup2)

lemma fd_get_put_fun: "fd_get (fd_put t n v) = (fd_get t)(int n := v)"
  by (rule ext) (simp add: fd_get_fd_put)

lemmas fds_simps = fd_get_close_fun fd_get_dup2_fun fd_get_put_fun

lemma sys_pipe_ok:
  assumes "alloc_fd t < fd_limit E" "alloc_fd (fd_put t (alloc_fd t) (Some (PipeRd (length (pipes w))))) < fd_limit E"
  shows "sys_pipe E t w = Some (int (alloc_fd t), int (alloc_fd (fd_put t (alloc_fd t) (Some (PipeRd (length (pipes w)))))),
     fd_put (fd_put t (alloc_fd t) (Some (PipeRd (length (pipes w)))))
            (alloc_fd (fd_put t (alloc_fd t) (Some (PipeRd (length (pipes w)))))) (Some (PipeWr (length (pipes w)))),
     w\<lparr>pipes := pipes w @ [[]]\<rparr>)"
  using assms by (simp add: sys_pipe_def Let_def)

section \<open>Programs on terminal and pipe streams\<close>

lemma tty_table_fds: "tty_table t \<Longrightarrow> fd_get t = tty_fds (length t)"
  by (rule ext) (auto simp: tty_table_def tty_fds_def fd_get_def list_all_length)

lemma alloc_tty: "fd_get t = tty_fds a \<Longrightarrow> alloc_fd t = a"
  by (rule alloc_fd_unique) (auto simp: tty_fds_def)

lemma read_stdin_src:
  "fd_get t STDIN_FILENO = Some src \<Longrightarrow> src_ok live src \<Longrightarrow>
   read_stdin live t w = Some (src_input src w, src_consume src w)"
  by (auto simp: src_ok_def read_stdin_def src_input_def src_consume_def)

lemma write_stdout_snk:
  "fd_get t STDOUT_FILENO = Some snk \<Longrightarrow> snk_ok E live snk w \<Longrightarrow>
   write_stdout E live t s w = (if snk_fits E snk s w then Some (snk_write snk s w, False) else None)"
  by (auto simp: snk_ok_def snk_fits_def write_stdout_def snk_write_def pipe_buf_def)

lemma exec_prog_stage:
  assumes "fd_get t STDIN_FILENO = Some src" "fd_get t STDOUT_FILENO = Some snk" "src_ok live src"
    "snk_ok E live snk (if reads_stdin pr then src_consume src w else w)"
  shows "exec_prog E live t pr argv w =
    (let inp = (if reads_stdin pr then src_input src w else []);
         w1 = (if reads_stdin pr then src_consume src w else w);
         r = behaviour pr argv inp
     in if snk_fits E snk (fst r) w1 then Some (snk_write snk (fst r) w1, snd r) else None)"
  using assms by (auto simp: exec_prog_def read_stdin_src write_stdout_snk Let_def split: prod.splits)

lemma stage_nprocs [simp]:
  "src_input src (w\<lparr>nprocs := n\<rparr>) = src_input src w"
  "src_consume src (w\<lparr>nprocs := n\<rparr>) = (src_consume src w)\<lparr>nprocs := n\<rparr>"
  "snk_write snk s (w\<lparr>nprocs := n\<rparr>) = (snk_write snk s w)\<lparr>nprocs := n\<rparr>"
  "snk_ok E live snk (w\<lparr>nprocs := n\<rparr>) = snk_ok E live snk w"
  "snk_fits E snk s (w\<lparr>nprocs := n\<rparr>) = snk_fits E snk s w"
  "nprocs (src_consume src w) = nprocs w"
  "nprocs (snk_write snk s w) = nprocs w"
  "pipe_buf (w\<lparr>nprocs := n\<rparr>) k = pipe_buf w k"
  "length (pipes (src_consume src w)) = length (pipes w)"
  by (auto simp: src_input_def src_consume_def snk_write_def snk_ok_def snk_fits_def pipe_buf_def
      split: ofile.splits)

end
