(* ===== verification/Redirect.thy ===== *)
theory Redirect
  imports Posix
begin

text \<open>
  The command node of a pipeline (\<open>struct cmd_node\<close> of \<open>include/command.h\<close>,
  which the repository does not ship: modelled from the spec's data model) and
  the Redirector, \<open>redirection\<close> of \<open>src/lab2/src/shell.c\<close>. Its abstract
  contract \<open>redir_spec\<close> says which stream each standard descriptor names
  afterwards; \<open>redirection_refines\<close> shows the code meets it whenever descriptors
  0 and 1 are open, and the error lemmas cover every \<open>exit(EXIT_FAILURE)\<close>.
\<close>

section \<open>Command nodes\<close>

text \<open>
  The \<open>next\<close> pointer of the C node is not a field: a pipeline is the HOL list of
  its nodes, in order.
\<close>

record cmd_node =
  args :: "string list"
  in_file :: "path option"
  out_file :: "path option"

section \<open>The Redirector\<close>

text \<open>
  A process result \<open>Inl (w, st)\<close> is the process calling \<open>exit(st)\<close> in world
  \<open>w\<close>; \<open>Inr (t, w)\<close> is the process going on with table \<open>t\<close>.
  The two blocks of \<open>redirection\<close>, input first:
\<close>

definition redirect_in ::
  "env \<Rightarrow> cmd_node \<Rightarrow> fdtab \<Rightarrow> world \<Rightarrow> (world \<times> status) + (fdtab \<times> world)" where
  "redirect_in E p t w =
     (case in_file p of
        None \<Rightarrow> Inr (t, w)
      | Some f \<Rightarrow>
          (case sys_open_rd E f t w of (fd, t1) \<Rightarrow>
             if fd = -1 then Inl (perror ''open'' w, EXIT_FAILURE)
             else Inr (sys_close fd (sys_dup2 fd STDIN_FILENO t1), w)))"

definition redirect_out ::
  "env \<Rightarrow> cmd_node \<Rightarrow> fdtab \<Rightarrow> world \<Rightarrow> (world \<times> status) + (fdtab \<times> world)" where
  "redirect_out E p t w =
     (case out_file p of
        None \<Rightarrow> Inr (t, w)
      | Some f \<Rightarrow>
          (case sys_open_wr E f t w of (fd, t1, w1) \<Rightarrow>
             if fd = -1 then Inl (perror ''open'' w1, EXIT_FAILURE)
             else Inr (sys_close fd (sys_dup2 fd STDOUT_FILENO t1), w1)))"

definition redirection ::
  "env \<Rightarrow> cmd_node \<Rightarrow> fdtab \<Rightarrow> world \<Rightarrow> (world \<times> status) + (fdtab \<times> world)" where
  "redirection E p t w =
     (case redirect_in E p t w of
        Inl e \<Rightarrow> Inl e
      | Inr (t1, w1) \<Rightarrow> redirect_out E p t1 w1)"

section \<open>Abstract contract\<close>

text \<open>What the descriptors name after a successful redirection, and the world.\<close>

definition redir_spec :: "cmd_node \<Rightarrow> (fd \<Rightarrow> ofile option) \<Rightarrow> (fd \<Rightarrow> ofile option)" where
  "redir_spec p f =
     f(STDIN_FILENO := (case in_file p of None \<Rightarrow> f STDIN_FILENO | Some x \<Rightarrow> Some (RdFile x)),
       STDOUT_FILENO := (case out_file p of None \<Rightarrow> f STDOUT_FILENO | Some x \<Rightarrow> Some (WrFile x)))"

definition redir_world :: "cmd_node \<Rightarrow> world \<Rightarrow> world" where
  "redir_world p w =
     (case out_file p of None \<Rightarrow> w | Some x \<Rightarrow> w\<lparr>files := (files w)(x \<mapsto> [])\<rparr>)"

definition std_open :: "fdtab \<Rightarrow> bool" where
  "std_open t \<longleftrightarrow> fd_get t STDIN_FILENO \<noteq> None \<and> fd_get t STDOUT_FILENO \<noteq> None"

definition redir_ok :: "env \<Rightarrow> cmd_node \<Rightarrow> world \<Rightarrow> bool" where
  "redir_ok E p w \<longleftrightarrow>
     (case in_file p of None \<Rightarrow> True | Some x \<Rightarrow> files w x \<noteq> None) \<and>
     (case out_file p of None \<Rightarrow> True | Some x \<Rightarrow> x \<notin> set (unwritable E))"

section \<open>Properties of the Redirector\<close>

lemma open_rd_ok:
  assumes "alloc_fd t < fd_limit E" "files w f \<noteq> None"
  shows "sys_open_rd E f t w = (int (alloc_fd t), fd_put t (alloc_fd t) (Some (RdFile f)))"
  using assms by (simp add: sys_open_rd_def Let_def)

lemma open_wr_ok:
  assumes "alloc_fd t < fd_limit E" "f \<notin> set (unwritable E)"
  shows "sys_open_wr E f t w =
           (int (alloc_fd t), fd_put t (alloc_fd t) (Some (WrFile f)), w\<lparr>files := (files w)(f \<mapsto> [])\<rparr>)"
  using assms by (simp add: sys_open_wr_def Let_def)

text \<open>Moving a fresh descriptor onto a standard one and closing it.\<close>

lemma fd_get_move:
  assumes "2 \<le> n" "fd_get t (int n) = None" "s \<in> {0, 1}"
  shows "fd_get (sys_close (int n) (sys_dup2 (int n) s (fd_put t n (Some v)))) = (fd_get t)(s := Some v)"
  using assms by (intro ext) (auto simp: posix_simps)

lemma redirect_in_ok:
  assumes "std_open t" "alloc_fd t < fd_limit E" "in_file p = Some f" "files w f \<noteq> None"
  shows "\<exists>t'. redirect_in E p t w = Inr (t', w) \<and>
              fd_get t' = (fd_get t)(STDIN_FILENO := Some (RdFile f))"
proof -
  have "2 \<le> alloc_fd t" using assms(1) by (simp add: std_open_def alloc_fd_ge2)
  then show ?thesis using assms
    by (auto simp: redirect_in_def open_rd_ok fd_get_move alloc_fd_free)
qed

lemma std_open_upd:
  "std_open t \<Longrightarrow> fd_get t' = (fd_get t)(s := Some v) \<Longrightarrow> s \<in> {0, 1} \<Longrightarrow> std_open t'"
  by (auto simp: std_open_def)

lemma alloc_fd_upd:
  "std_open t \<Longrightarrow> fd_get t' = (fd_get t)(s := Some v) \<Longrightarrow> s \<in> {0, 1} \<Longrightarrow>
   alloc_fd t' = alloc_fd t"
  by (rule alloc_fd_open_cong) (auto simp: std_open_def)

lemma redirect_out_ok:
  assumes "std_open t" "alloc_fd t < fd_limit E" "out_file p = Some f" "f \<notin> set (unwritable E)"
  shows "\<exists>t'. redirect_out E p t w = Inr (t', w\<lparr>files := (files w)(f \<mapsto> [])\<rparr>) \<and>
              fd_get t' = (fd_get t)(STDOUT_FILENO := Some (WrFile f))"
proof -
  have "2 \<le> alloc_fd t" using assms(1) by (simp add: std_open_def alloc_fd_ge2)
  then show ?thesis using assms
    by (auto simp: redirect_out_def open_wr_ok fd_get_move alloc_fd_free)
qed

lemma redirect_in_none: "in_file p = None \<Longrightarrow> redirect_in E p t w = Inr (t, w)"
  by (simp add: redirect_in_def)

lemma redirect_out_none: "out_file p = None \<Longrightarrow> redirect_out E p t w = Inr (t, w)"
  by (simp add: redirect_out_def)

lemma redirect_in_result:
  assumes "std_open t" "alloc_fd t < fd_limit E"
    "case in_file p of None \<Rightarrow> True | Some x \<Rightarrow> files w x \<noteq> None"
  shows "\<exists>t'. redirect_in E p t w = Inr (t', w) \<and>
     fd_get t' = (fd_get t)(STDIN_FILENO := (case in_file p of None \<Rightarrow> fd_get t STDIN_FILENO
                                                | Some x \<Rightarrow> Some (RdFile x)))"
  using assms redirect_in_ok [of t E p _ w] by (cases "in_file p") (auto simp: redirect_in_none)

lemma redirect_out_result:
  assumes "std_open t" "alloc_fd t < fd_limit E"
    "case out_file p of None \<Rightarrow> True | Some x \<Rightarrow> x \<notin> set (unwritable E)"
  shows "\<exists>t'. redirect_out E p t w = Inr (t', redir_world p w) \<and>
     fd_get t' = (fd_get t)(STDOUT_FILENO := (case out_file p of None \<Rightarrow> fd_get t STDOUT_FILENO
                                                | Some x \<Rightarrow> Some (WrFile x)))"
  using assms redirect_out_ok [of t E p _ w]
  by (cases "out_file p") (auto simp: redirect_out_none redir_world_def)

text \<open>C4: the Redirector meets its contract. With descriptors 0 and 1 open, a
  free descriptor below the limit, an existing input file and a writable output
  file, \<open>redirection\<close> goes on with descriptor 0 naming the input file,
  descriptor 1 naming the output file (each only if the node asks for it), every
  other descriptor as before (the temporary descriptors are closed), and the
  output file created empty.\<close>

theorem redirection_refines:
  assumes "std_open t" "alloc_fd t < fd_limit E" "redir_ok E p w"
  shows "\<exists>t'. redirection E p t w = Inr (t', redir_world p w) \<and>
              fd_get t' = redir_spec p (fd_get t)"
proof -
  obtain t1 where t1: "redirect_in E p t w = Inr (t1, w)"
    and f1: "fd_get t1 = (fd_get t)(STDIN_FILENO := (case in_file p of None \<Rightarrow> fd_get t STDIN_FILENO
                                                | Some x \<Rightarrow> Some (RdFile x)))"
    using redirect_in_result [OF assms(1,2)] assms(3) unfolding redir_ok_def by blast
  have o1: "std_open t1"
    using f1 assms(1) by (auto simp: std_open_def split: option.splits)
  have a1: "alloc_fd t1 = alloc_fd t"
    using f1 assms(1) by (intro alloc_fd_open_cong) (auto simp: std_open_def split: option.splits if_splits)
  obtain t2 where t2: "redirect_out E p t1 w = Inr (t2, redir_world p w)"
    and f2: "fd_get t2 = (fd_get t1)(STDOUT_FILENO := (case out_file p of None \<Rightarrow> fd_get t1 STDOUT_FILENO
                                                | Some x \<Rightarrow> Some (WrFile x)))"
    using redirect_out_result [OF o1, of E p w] a1 assms(2,3) unfolding redir_ok_def by auto
  have "fd_get t2 = redir_spec p (fd_get t)"
    unfolding f2 f1 redir_spec_def by (rule ext) (simp split: option.splits)
  with t1 t2 show ?thesis by (auto simp: redirection_def)
qed

lemma redirect_in_fails:
  "in_file p = Some f \<Longrightarrow> files w f = None \<or> fd_limit E \<le> alloc_fd t \<Longrightarrow>
   redirect_in E p t w = Inl (perror ''open'' w, EXIT_FAILURE)"
  by (auto simp: redirect_in_def sys_open_rd_def Let_def)

lemma redirect_out_fails:
  "out_file p = Some f \<Longrightarrow> f \<in> set (unwritable E) \<or> fd_limit E \<le> alloc_fd t \<Longrightarrow>
   redirect_out E p t w = Inl (perror ''open'' w, EXIT_FAILURE)"
  by (auto simp: redirect_out_def sys_open_wr_def Let_def)

text \<open>C13: redirection failures are fatal to the process. If a node asks for a
  redirection and the input file is missing, the output file is not writable, or
  no descriptor is free, \<open>redirection\<close> reports \<open>open\<close> and exits with
  \<open>EXIT_FAILURE\<close>, without changing the world.\<close>

theorem redirection_error:
  assumes "std_open t" "in_file p \<noteq> None \<or> out_file p \<noteq> None"
    and "\<not> (alloc_fd t < fd_limit E \<and> redir_ok E p w)"
  shows "redirection E p t w = Inl (perror ''open'' w, EXIT_FAILURE)"
proof (cases "case in_file p of None \<Rightarrow> True | Some x \<Rightarrow> files w x \<noteq> None \<and> alloc_fd t < fd_limit E")
  case False
  then obtain f where "in_file p = Some f" "files w f = None \<or> fd_limit E \<le> alloc_fd t"
    by (auto split: option.splits)
  then show ?thesis by (simp add: redirection_def redirect_in_fails)
next
  case True
  then have lim: "in_file p \<noteq> None \<Longrightarrow> alloc_fd t < fd_limit E" by (auto split: option.splits)
  obtain t1 where t1: "redirect_in E p t w = Inr (t1, w)"
    and a1: "alloc_fd t1 = alloc_fd t"
  proof (cases "in_file p")
    case None
    then show thesis using that by (simp add: redirect_in_none)
  next
    case (Some f)
    with True lim obtain t1 where "redirect_in E p t w = Inr (t1, w)"
      "fd_get t1 = (fd_get t)(STDIN_FILENO := Some (RdFile f))"
      using redirect_in_ok [OF assms(1)] by fastforce
    with assms(1) show thesis using that alloc_fd_upd by auto
  qed
  from True assms(2,3) obtain f where "out_file p = Some f"
    "f \<in> set (unwritable E) \<or> fd_limit E \<le> alloc_fd t"
    by (auto simp: redir_ok_def split: option.splits)
  with t1 a1 show ?thesis by (simp add: redirection_def redirect_out_fails)
qed

text \<open>C15: redirection with a closed standard output loses the redirection.
  Whenever descriptor 0 is open and descriptor 1 is closed, \<open>open\<close> returns 1
  itself, \<open>dup2(1, 1)\<close> does nothing and \<open>close(1)\<close> then closes the file just
  opened: the file is created or truncated, but the command runs with exactly
  the descriptors it had, descriptor 1 still closed.\<close>

theorem redirection_closed_stdout:
  assumes "in_file p = None" "out_file p = Some f" "f \<notin> set (unwritable E)"
    and "fd_get t STDIN_FILENO \<noteq> None" "fd_get t STDOUT_FILENO = None" "1 < fd_limit E"
  shows "\<exists>t'. redirection E p t w = Inr (t', w\<lparr>files := (files w)(f \<mapsto> [])\<rparr>) \<and>
           fd_get t' = fd_get t \<and> fd_get t' STDOUT_FILENO = None"
proof -
  have a: "alloc_fd t = 1"
    by (rule alloc_fd_unique) (use assms(4,5) in auto)
  let ?t' = "sys_close 1 (sys_dup2 1 STDOUT_FILENO (fd_put t 1 (Some (WrFile f))))"
  have "redirection E p t w = Inr (?t', w\<lparr>files := (files w)(f \<mapsto> [])\<rparr>)"
    using a assms(1-3,6) by (simp add: redirection_def redirect_in_none redirect_out_def sys_open_wr_def)
  moreover have "fd_get ?t' = fd_get t"
    using assms(5) by (simp add: sys_dup2_def fds_simps fun_upd_idem)
  ultimately show ?thesis using assms(5) by auto
qed

section \<open>What a successful redirection did\<close>

lemma redirect_in_Inr:
  assumes "std_open t" "redirect_in E p t w = Inr (t1, w1)"
  shows "w1 = w \<and> fd_get t1 = (fd_get t)(STDIN_FILENO := (case in_file p of None \<Rightarrow> fd_get t STDIN_FILENO
                                                | Some x \<Rightarrow> Some (RdFile x)))"
proof (cases "in_file p")
  case None
  then show ?thesis using assms(2) by (simp add: redirect_in_none fun_upd_idem)
next
  case (Some f)
  show ?thesis
  proof (cases "files w f \<noteq> None \<and> alloc_fd t < fd_limit E")
    case True
    then show ?thesis using redirect_in_ok [where w = w and E = E, OF assms(1) _ Some] assms(2) Some by auto
  next
    case False
    then show ?thesis using redirect_in_fails [where w = w and E = E and t = t, OF Some] assms(2) by auto
  qed
qed

lemma redirect_out_Inr:
  assumes "std_open t" "redirect_out E p t w = Inr (t1, w1)"
  shows "w1 = redir_world p w \<and>
    fd_get t1 = (fd_get t)(STDOUT_FILENO := (case out_file p of None \<Rightarrow> fd_get t STDOUT_FILENO
                                           | Some x \<Rightarrow> Some (WrFile x)))"
proof (cases "out_file p")
  case None
  then show ?thesis using assms(2) by (simp add: redirect_out_none redir_world_def fun_upd_idem)
next
  case (Some f)
  show ?thesis
  proof (cases "f \<notin> set (unwritable E) \<and> alloc_fd t < fd_limit E")
    case True
    then show ?thesis using redirect_out_ok [where w = w and E = E, OF assms(1) _ Some] assms(2) Some
      by (auto simp: redir_world_def)
  next
    case False
    then show ?thesis using redirect_out_fails [where w = w and E = E and t = t, OF Some] assms(2) by auto
  qed
qed

lemma redirection_Inr:
  assumes "std_open t" "redirection E p t w = Inr (t', w')"
  shows "fd_get t' = redir_spec p (fd_get t) \<and> w' = redir_world p w"
proof -
  obtain t1 w1 where r1: "redirect_in E p t w = Inr (t1, w1)" and r2: "redirect_out E p t1 w1 = Inr (t', w')"
    using assms(2) by (auto simp: redirection_def split: sum.splits)
  have f1: "w1 = w" "fd_get t1 = (fd_get t)(STDIN_FILENO := (case in_file p of None \<Rightarrow> fd_get t STDIN_FILENO
                                                | Some x \<Rightarrow> Some (RdFile x)))"
    using redirect_in_Inr [OF assms(1) r1] by simp_all
  have "std_open t1" using f1(2) assms(1) by (auto simp: std_open_def split: option.splits)
  from redirect_out_Inr [OF this r2] f1 show ?thesis
    by (auto simp: redir_spec_def fun_eq_iff split: option.splits)
qed

end
