(* ===== verification/Spawn.thy ===== *)
theory Spawn
  imports Redirect
begin

text \<open>
  The Single-Command Spawner, \<open>spawn_proc\<close> of \<open>src/lab2/src/shell.c\<close>: the
  parent forks, the child applies \<open>redirection\<close> and \<open>execvp\<close>s the command,
  the parent waits for the child and returns 1; a failed \<open>fork\<close> returns -1.
  The parent's descriptor table is not an output of the model: \<open>spawn_proc\<close>
  never changes it, which is the spec's "the shell's streams are identical
  afterwards". \<open>anc\<close> lists the descriptor tables of the processes blocked in
  \<open>wait\<close> above the caller.
\<close>

section \<open>The child and the parent\<close>

text \<open>The child's code after \<open>fork()\<close> returned 0.\<close>

definition spawn_child :: "env \<Rightarrow> fdtab list \<Rightarrow> fdtab \<Rightarrow> cmd_node \<Rightarrow> world \<Rightarrow> (world \<times> status) option" where
  "spawn_child E anc t p w =
     (case redirection E p t w of
        Inl (w1, st) \<Rightarrow> Some (w1, st)
      | Inr (t1, w1) \<Rightarrow>
          (case exec_lookup E (args p) of
             None \<Rightarrow> Some (perror ''execvp'' w1, EXIT_FAILURE)
           | Some pr \<Rightarrow> exec_prog E (anc @ [t1]) t1 pr (args p) w1))"

definition spawn_proc :: "env \<Rightarrow> fdtab list \<Rightarrow> fdtab \<Rightarrow> cmd_node \<Rightarrow> world \<Rightarrow> (world \<times> status) option" where
  "spawn_proc E anc t p w =
     (if proc_limit E \<le> nprocs w then Some (perror ''fork'' w, -1)
      else case spawn_child E (anc @ [t]) t p (w\<lparr>nprocs := Suc (nprocs w)\<rparr>) of
             None \<Rightarrow> None
           | Some (w1, _) \<Rightarrow> Some (w1\<lparr>nprocs := nprocs w\<rparr>, 1))"

section \<open>Properties of the Spawner\<close>

lemma redirection_none:
  "in_file p = None \<Longrightarrow> out_file p = None \<Longrightarrow> redirection E p t w = Inr (t, w)"
  by (simp add: redirection_def redirect_in_none redirect_out_none)

lemma exec_prog_tty:
  assumes "fd_get t STDIN_FILENO = Some Tty" "fd_get t STDOUT_FILENO = Some Tty"
  shows "exec_prog E live t pr argv w =
    (let inp = (if reads_stdin pr then tty_in w else []);
         r = behaviour pr argv inp
     in Some (w\<lparr>tty_in := (if reads_stdin pr then [] else tty_in w), tty_out := tty_out w @ fst r\<rparr>, snd r))"
  using assms
  by (auto simp: exec_prog_def read_stdin_def write_stdout_def Let_def split: prod.splits)

text \<open>C14: single external command. For a command without redirections that is
  found, run by a parent whose descriptors 0 and 1 are the terminal,
  \<open>spawn_proc\<close> returns 1, the terminal receives the program's output, the
  terminal input is consumed exactly when the program reads it, and nothing else
  of the world changes (the process count is back to its value before).\<close>

theorem spawn_proc_tty:
  assumes "nprocs w < proc_limit E" "fd_get t STDIN_FILENO = Some Tty" "fd_get t STDOUT_FILENO = Some Tty"
    "in_file p = None" "out_file p = None" "exec_lookup E (args p) = Some pr"
  shows "spawn_proc E anc t p w =
    Some (w\<lparr>tty_in := (if reads_stdin pr then [] else tty_in w),
            tty_out := tty_out w @ fst (behaviour pr (args p) (if reads_stdin pr then tty_in w else []))\<rparr>, 1)"
  using assms by (simp add: spawn_proc_def spawn_child_def redirection_none exec_prog_tty Let_def)

lemma spawn_proc_redirected:
  assumes "nprocs w < proc_limit E" "std_open t" "alloc_fd t < fd_limit E" "redir_ok E p w"
    "exec_lookup E (args p) = Some pr"
  shows "spawn_proc E anc t p w =
    (case spawn_child E (anc @ [t]) t p (w\<lparr>nprocs := Suc (nprocs w)\<rparr>) of
       None \<Rightarrow> None | Some (w1, _) \<Rightarrow> Some (w1\<lparr>nprocs := nprocs w\<rparr>, 1))"
  using assms by (simp add: spawn_proc_def)

text \<open>C8: redirection round trip. After \<open>spawn_proc\<close> runs a command with
  \<open>> f\<close>, running \<open>cat < f\<close> with \<open>spawn_proc\<close> prints on the terminal exactly
  what the first command wrote, with nothing added.\<close>

theorem redirect_roundtrip:
  assumes lim: "nprocs w < proc_limit E" "alloc_fd t < fd_limit E"
    and tty: "fd_get t STDIN_FILENO = Some Tty" "fd_get t STDOUT_FILENO = Some Tty"
    and p1: "in_file p1 = None" "out_file p1 = Some f" "f \<notin> set (unwritable E)"
      "exec_lookup E (args p1) = Some pr"
    and cat: "progs E ''cat'' = Some c" "reads_stdin c" "\<forall>a s. behaviour c a s = (s, 0)"
    and run1: "spawn_proc E anc t p1 w = Some (w1, st1)"
  shows "\<exists>w2. spawn_proc E anc t \<lparr>args = [''cat''], in_file = Some f, out_file = None\<rparr> w1 = Some (w2, 1) \<and>
    tty_out w2 = tty_out w @ fst (behaviour pr (args p1) (if reads_stdin pr then tty_in w else []))"
proof -
  have so: "std_open t" using tty by (simp add: std_open_def)
  have ok1: "redir_ok E p1 (w\<lparr>nprocs := Suc (nprocs w)\<rparr>)" using p1 by (simp add: redir_ok_def)
  obtain t1 where r1: "redirection E p1 t (w\<lparr>nprocs := Suc (nprocs w)\<rparr>) =
      Inr (t1, redir_world p1 (w\<lparr>nprocs := Suc (nprocs w)\<rparr>))"
    and f1: "fd_get t1 = redir_spec p1 (fd_get t)"
    using redirection_refines [OF so lim(2) ok1] by blast
  have t1: "fd_get t1 STDIN_FILENO = Some Tty" "fd_get t1 STDOUT_FILENO = Some (WrFile f)"
    using f1 tty p1 by (simp_all add: redir_spec_def)
  define out where "out = fst (behaviour pr (args p1) (if reads_stdin pr then tty_in w else []))"
  have w1: "files w1 f = Some out \<and> tty_out w1 = tty_out w \<and> nprocs w1 = nprocs w"
    using run1 lim(1) r1 p1 t1
    by (cases "reads_stdin pr") (auto simp: spawn_proc_def spawn_child_def exec_prog_def read_stdin_tty write_stdout_file
        redir_world_def out_def split: prod.splits)
  have ok2: "redir_ok E \<lparr>args = [''cat''], in_file = Some f, out_file = None\<rparr> w1"
    using w1 by (simp add: redir_ok_def)
  obtain t2 where r2: "redirection E \<lparr>args = [''cat''], in_file = Some f, out_file = None\<rparr> t
         (w1\<lparr>nprocs := Suc (nprocs w1)\<rparr>) = Inr (t2, w1\<lparr>nprocs := Suc (nprocs w1)\<rparr>)"
    and f2: "fd_get t2 = redir_spec \<lparr>args = [''cat''], in_file = Some f, out_file = None\<rparr> (fd_get t)"
    using redirection_refines [OF so lim(2), of "\<lparr>args = [''cat''], in_file = Some f, out_file = None\<rparr>"
        "w1\<lparr>nprocs := Suc (nprocs w1)\<rparr>"] ok2
    by (auto simp: redir_ok_def redir_world_def)
  have t2: "fd_get t2 STDIN_FILENO = Some (RdFile f)" "fd_get t2 STDOUT_FILENO = Some Tty"
    using f2 tty by (simp_all add: redir_spec_def)
  show ?thesis
    using lim(1) w1 r2 t2 cat
    by (auto simp: spawn_proc_def spawn_child_def exec_lookup_def exec_prog_def read_stdin_file
        write_stdout_tty out_def)
qed

lemma spawn_proc_fork_fails:
  "proc_limit E \<le> nprocs w \<Longrightarrow> spawn_proc E anc t p w = Some (perror ''fork'' w, -1)"
  by (simp add: spawn_proc_def)

lemma spawn_proc_not_found:
  assumes "nprocs w < proc_limit E" "in_file p = None" "out_file p = None" "exec_lookup E (args p) = None"
  shows "spawn_proc E anc t p w = Some (perror ''execvp'' w, 1)"
  using assms by (simp add: spawn_proc_def spawn_child_def redirection_none perror_def)

text \<open>\<open>spawn_proc\<close> returns 1 after the child ran and -1 when \<open>fork\<close> failed,
  never the child's status, and it has reaped the child when it returns.\<close>

lemma spawn_proc_result:
  "spawn_proc E anc t p w = Some (w', st) \<Longrightarrow> (st = 1 \<or> st = -1) \<and> nprocs w' = nprocs w"
  by (auto simp: spawn_proc_def perror_def split: if_splits option.splits prod.splits)

end
