(* ===== verification/Pipeline.thy ===== *)
theory Pipeline
  imports Spawn
begin

text \<open>
  The Pipeline Executor, \<open>fork_cmd_node\<close> of \<open>src/lab2/src/shell.c\<close>. For each
  node the shell creates a pipe when a node follows, forks a child that moves
  the previous pipe's read end to descriptor 0 and the new write end to
  descriptor 1, and waits for it before closing its own copies and going on
  with the new read end. The child does not execute the command itself: it
  calls \<open>spawn_proc\<close>, which forks a grandchild that does, waits for it, and
  then exits with \<open>EXIT_FAILURE\<close>. A failed \<open>pipe\<close> or \<open>fork\<close> in the shell
  ends the shell.
\<close>

section \<open>The child of one stage\<close>

text \<open>
  Lines 107--123: \<open>anc\<close> holds the tables of the processes blocked above the
  child, the shell's included; \<open>(rd, wr)\<close> is the stage's pipe when a node
  follows.
\<close>

definition pipe_child ::
  "env \<Rightarrow> fdtab list \<Rightarrow> fdtab \<Rightarrow> fd \<Rightarrow> bool \<Rightarrow> fd \<times> fd \<Rightarrow> cmd_node \<Rightarrow> world \<Rightarrow> (world \<times> status) option" where
  "pipe_child E anc t in_fd has_next pfd c w =
     (let t1 = (if in_fd \<noteq> STDIN_FILENO then sys_close in_fd (sys_dup2 in_fd STDIN_FILENO t) else t);
          t2 = (if has_next then sys_close (fst pfd) (sys_close (snd pfd) (sys_dup2 (snd pfd) STDOUT_FILENO t1))
                else t1)
      in case spawn_proc E anc t2 c w of
           None \<Rightarrow> None
         | Some (w1, _) \<Rightarrow> Some (w1, EXIT_FAILURE))"

section \<open>The loop\<close>

text \<open>
  One iteration per node; \<open>in_fd\<close> is the C variable of the same name. When no
  node follows, the C code reads the uninitialised \<open>pipefd\<close> into \<open>in_fd\<close>
  just before the loop ends; the model puts -1 there, which nothing reads.
\<close>

fun fork_loop :: "env \<Rightarrow> fdtab list \<Rightarrow> fd \<Rightarrow> cmd_node list \<Rightarrow> fdtab \<Rightarrow> world \<Rightarrow> sh_res" where
  "fork_loop E anc in_fd [] t w = Ret t w 1"
| "fork_loop E anc in_fd (c # rest) t w =
     (let has_next = (rest \<noteq> []) in
      case (if has_next then sys_pipe E t w else Some (-1, -1, t, w)) of
        None \<Rightarrow> ShExit (perror ''pipe'' w) EXIT_FAILURE
      | Some (rd, wr, t1, w1) \<Rightarrow>
          (if proc_limit E \<le> nprocs w1 then ShExit (perror ''fork'' w1) EXIT_FAILURE
           else
             case pipe_child E (anc @ [t1]) t1 in_fd has_next (rd, wr) c
                    (w1\<lparr>nprocs := Suc (nprocs w1)\<rparr>) of
               None \<Rightarrow> Hang
             | Some (w2, _) \<Rightarrow>
                 (let w3 = w2\<lparr>nprocs := nprocs w1\<rparr>;
                      t2 = (if in_fd \<noteq> STDIN_FILENO then sys_close in_fd t1 else t1);
                      t3 = (if has_next then sys_close wr t2 else t2)
                  in fork_loop E anc rd rest t3 w3)))"

definition fork_cmd_node :: "env \<Rightarrow> fdtab list \<Rightarrow> cmd_node list \<Rightarrow> fdtab \<Rightarrow> world \<Rightarrow> sh_res" where
  "fork_cmd_node E anc cmd t w = fork_loop E anc STDIN_FILENO cmd t w"

section \<open>Reference semantics of a pipeline\<close>

text \<open>
  \<open>stage_out\<close> is what one command prints for a given input, \<open>pipe_spec\<close> the
  output of \<open>cmd1 | ... | cmdN\<close> run as function composition (the spec's
  "black-box equivalence"), \<open>pipe_fits\<close> that every intermediate output fits
  in a pipe buffer, \<open>plain_stages\<close> that no node redirects and every command
  is found.
\<close>

definition stage_out :: "env \<Rightarrow> cmd_node \<Rightarrow> string \<Rightarrow> string" where
  "stage_out E c inp =
     (case exec_lookup E (args c) of None \<Rightarrow> []
      | Some pr \<Rightarrow> fst (behaviour pr (args c) (if reads_stdin pr then inp else [])))"

fun pipe_spec :: "env \<Rightarrow> cmd_node list \<Rightarrow> string \<Rightarrow> string" where
  "pipe_spec E [] s = s"
| "pipe_spec E (c # cs) s = pipe_spec E cs (stage_out E c s)"

fun pipe_fits :: "env \<Rightarrow> cmd_node list \<Rightarrow> string \<Rightarrow> bool" where
  "pipe_fits E [] s = True"
| "pipe_fits E [c] s = True"
| "pipe_fits E (c # d # cs) s =
     (length (stage_out E c s) \<le> pipe_cap E \<and> pipe_fits E (d # cs) (stage_out E c s))"

definition plain_stages :: "env \<Rightarrow> cmd_node list \<Rightarrow> bool" where
  "plain_stages E cs \<longleftrightarrow>
     list_all (\<lambda>c. in_file c = None \<and> out_file c = None \<and> exec_lookup E (args c) \<noteq> None) cs"

text \<open>
  \<open>loop_tab a in_fd t\<close>: the shell's descriptor view at the head of an iteration
  of \<open>fork_cmd_node\<close>'s loop. Descriptors below \<open>a\<close> are the shell's own;
  \<open>in_fd\<close> is either \<open>STDIN_FILENO\<close> (first iteration) or the read end of the
  previous pipe, at \<open>a\<close> or \<open>a + 1\<close>.
\<close>

definition loop_tab :: "nat \<Rightarrow> fd \<Rightarrow> fdtab \<Rightarrow> bool" where
  "loop_tab a in_fd t \<longleftrightarrow>
     (in_fd = STDIN_FILENO \<and> fd_get t = tty_fds a) \<or>
     (\<exists>r k. in_fd = int r \<and> (r = a \<or> r = Suc a) \<and> fd_get t = (tty_fds a)(int r \<mapsto> PipeRd k))"

section \<open>One iteration of the loop\<close>

lemma plain_stages_Cons:
  "plain_stages E (c # cs) \<Longrightarrow>
   \<exists>pr. in_file c = None \<and> out_file c = None \<and> exec_lookup E (args c) = Some pr \<and> plain_stages E cs"
  by (auto simp: plain_stages_def)

lemma spawn_stage:
  assumes "nprocs w < proc_limit E" "in_file c = None" "out_file c = None" "exec_lookup E (args c) = Some pr"
    "fd_get tc STDIN_FILENO = Some src" "fd_get tc STDOUT_FILENO = Some snk"
    "src_ok (anc @ [tc, tc]) src"
    "snk_ok E (anc @ [tc, tc]) snk (if reads_stdin pr then src_consume src w else w)"
  defines "w1 \<equiv> (if reads_stdin pr then src_consume src w else w)"
    and "out \<equiv> stage_out E c (src_input src w)"
  shows "spawn_proc E anc tc c w =
    (if snk_fits E snk out w1 then Some (snk_write snk out w1, 1) else None)"
proof -
  have "spawn_child E (anc @ [tc]) tc c (w\<lparr>nprocs := Suc (nprocs w)\<rparr>) =
     (if snk_fits E snk out w1
      then Some ((snk_write snk out w1)\<lparr>nprocs := Suc (nprocs w)\<rparr>,
           snd (behaviour pr (args c) (if reads_stdin pr then src_input src w else [])))
      else None)"
    using assms exec_prog_stage [where t = tc and live = "anc @ [tc, tc]" and argv = "args c"
        and w = "w\<lparr>nprocs := Suc (nprocs w)\<rparr>" and E = E and pr = pr and src = src and snk = snk]
    by (cases "reads_stdin pr") (simp_all add: spawn_child_def redirection_none stage_out_def w1_def out_def Let_def)
  moreover have "nprocs (snk_write snk out w1) = nprocs w" by (simp add: w1_def)
  ultimately show ?thesis using assms(1) by (simp add: spawn_proc_def)
qed

lemma loop_pipe_mid:
  assumes T: "fd_get tk = (tty_fds a)(int r \<mapsto> PipeRd k)" "r = a \<or> r = Suc a" "2 \<le> a"
    and lim: "Suc (Suc a) < fd_limit E" "Suc (Suc (nprocs w)) \<le> proc_limit E"
    and c: "in_file c = None" "out_file c = None" "exec_lookup E (args c) = Some pr"
    and k: "k < length (pipes w)"
  defines "r' \<equiv> (if r = a then Suc a else a)" and "k' \<equiv> length (pipes w)"
    and "out \<equiv> stage_out E c (pipe_buf w k)"
  shows "\<exists>t3 w3. fork_loop E [] (int r) (c # d # rest) tk w =
       (if length out \<le> pipe_cap E then fork_loop E [] (int r') (d # rest) t3 w3 else Hang) \<and>
     fd_get t3 = (tty_fds a)(int r' \<mapsto> PipeRd k') \<and> pipe_buf w3 k' = out \<and>
     k' < length (pipes w3) \<and> tty_out w3 = tty_out w \<and> tty_in w3 = tty_in w \<and> files w3 = files w \<and>
     nprocs w3 = nprocs w"
proof -
  have a0: "alloc_fd tk = r'"
    using T by (intro alloc_fd_unique) (auto simp: r'_def tty_fds_def)
  define tp where "tp = fd_put tk r' (Some (PipeRd k'))"
  have a1: "alloc_fd tp = Suc (Suc a)"
    using T by (intro alloc_fd_unique) (auto simp: tp_def r'_def tty_fds_def fd_get_put_fun less_Suc_eq)
  define t1 where "t1 = fd_put tp (Suc (Suc a)) (Some (PipeWr k'))"
  define w1 where "w1 = w\<lparr>pipes := pipes w @ [[]]\<rparr>"
  have pipe: "sys_pipe E tk w = Some (int r', int (Suc (Suc a)), t1, w1)"
    using sys_pipe_ok [of tk E w] a0 a1 lim(1)
    by (simp add: r'_def tp_def t1_def w1_def k'_def split: if_splits)
  have F1: "fd_get t1 = (tty_fds a)(int r \<mapsto> PipeRd k, int r' \<mapsto> PipeRd k', int (Suc (Suc a)) \<mapsto> PipeWr k')"
    by (simp add: t1_def tp_def fd_get_put_fun T)
  define tc where "tc = sys_close (int r') (sys_close (int (Suc (Suc a)))
      (sys_dup2 (int (Suc (Suc a))) STDOUT_FILENO (sys_close (int r) (sys_dup2 (int r) STDIN_FILENO t1))))"
  have kk: "k \<noteq> k'" using k by (simp add: k'_def)
  have rr: "int r \<noteq> 0" "int r \<noteq> 1" "int r' \<noteq> 0" "int r' \<noteq> 1" "r \<noteq> r'" "r \<noteq> Suc (Suc a)"
    "r' \<noteq> Suc (Suc a)" "a \<le> r" "a \<le> r'"
    using T(2,3) by (auto simp: r'_def)
  have FC: "fd_get tc = (tty_fds a)(0 \<mapsto> PipeRd k, 1 \<mapsto> PipeWr k', int r := None, int r' := None,
                                    int (Suc (Suc a)) := None)"
    using rr by (auto simp: tc_def fds_simps F1 fun_eq_iff)
  define w1' where "w1' = w1\<lparr>nprocs := Suc (nprocs w1)\<rparr>"
  define W0 where "W0 = (if reads_stdin pr then src_consume (PipeRd k) w1' else w1')"
  have tc01: "fd_get tc STDIN_FILENO = Some (PipeRd k)" "fd_get tc STDOUT_FILENO = Some (PipeWr k')"
    using rr by (simp_all add: FC tty_fds_def)
  have src: "src_ok [t1, tc, tc] (PipeRd k)"
    using kk by (auto simp: src_ok_def has_writer_fd_get F1 FC tty_fds_def)
  have bufs: "src_input (PipeRd k) w1' = pipe_buf w k" "pipe_buf W0 k' = []" "k' < length (pipes W0)"
    using k kk by (auto simp: W0_def w1'_def w1_def src_input_def src_consume_def pipe_buf_def k'_def nth_append)
  have rd1: "fd_get t1 (int r') = Some (PipeRd k')"
    using rr by (simp add: F1)
  have snk: "snk_ok E [t1, tc, tc] (PipeWr k') W0"
    using rd1 bufs by (auto simp: snk_ok_def has_reader_fd_get)
  have fits: "snk_fits E (PipeWr k') out W0 \<longleftrightarrow> length out \<le> pipe_cap E"
    using bufs by (simp add: snk_fits_def)
  define W where "W = snk_write (PipeWr k') out W0"
  have sp: "spawn_proc E [t1] tc c w1' = (if length out \<le> pipe_cap E then Some (W, 1) else None)"
    using spawn_stage [OF _ c tc01, of w1' "[t1]"] src snk lim(2) bufs(1) fits
    by (simp add: W_def W0_def out_def w1'_def w1_def)
  define t3 where "t3 = sys_close (int (Suc (Suc a))) (sys_close (int r) t1)"
  have F3: "fd_get t3 = (tty_fds a)(int r' \<mapsto> PipeRd k')"
    using rr by (auto simp: t3_def fds_simps F1 fun_eq_iff tty_fds_def)
  have step: "fork_loop E [] (int r) (c # d # rest) tk w =
      (if length out \<le> pipe_cap E then fork_loop E [] (int r') (d # rest) t3 (W\<lparr>nprocs := nprocs w1\<rparr>)
       else Hang)"
    using pipe sp lim(2) rr
    by (subst fork_loop.simps) (simp add: pipe_child_def tc_def w1'_def w1_def t3_def del: fork_loop.simps)
  have W: "pipe_buf W k' = out" "k' < length (pipes W)" "tty_out W = tty_out w" "tty_in W = tty_in w"
    "files W = files w"
    using bufs by (auto simp: W_def W0_def snk_write_def src_consume_def pipe_buf_def w1'_def w1_def)
  show ?thesis
    using step F3 W
    by (intro exI [of _ t3] exI [of _ "W\<lparr>nprocs := nprocs w1\<rparr>"])
       (auto simp: pipe_buf_def w1_def del: fork_loop.simps)
qed

lemma loop_pipe_last:
  assumes T: "fd_get tk = (tty_fds a)(int r \<mapsto> PipeRd k)" "r = a \<or> r = Suc a" "2 \<le> a"
    and lim: "Suc (nprocs w) < proc_limit E"
    and c: "in_file c = None" "out_file c = None" "exec_lookup E (args c) = Some pr"
  shows "\<exists>t3 w3. fork_loop E [] (int r) [c] tk w = Ret t3 w3 1 \<and>
     fd_get t3 = tty_fds a \<and> tty_out w3 = tty_out w @ stage_out E c (pipe_buf w k) \<and>
     tty_in w3 = tty_in w \<and> files w3 = files w \<and> nprocs w3 = nprocs w"
proof -
  define tc where "tc = sys_close (int r) (sys_dup2 (int r) STDIN_FILENO tk)"
  have rr: "int r \<noteq> 0" "int r \<noteq> 1" "a \<le> r" using T(2,3) by auto
  have FC: "fd_get tc = (tty_fds a)(0 \<mapsto> PipeRd k, int r := None)"
    using rr by (auto simp: tc_def fds_simps T fun_eq_iff)
  define w1' where "w1' = w\<lparr>nprocs := Suc (nprocs w)\<rparr>"
  define W0 where "W0 = (if reads_stdin pr then src_consume (PipeRd k) w1' else w1')"
  define out where "out = stage_out E c (pipe_buf w k)"
  have tc01: "fd_get tc STDIN_FILENO = Some (PipeRd k)" "fd_get tc STDOUT_FILENO = Some Tty"
    using rr T(3) by (simp_all add: FC tty_fds_def)
  have src: "src_ok [tk, tc, tc] (PipeRd k)"
    by (auto simp: src_ok_def has_writer_fd_get T FC tty_fds_def)
  have snk: "snk_ok E [tk, tc, tc] Tty W0" by (simp add: snk_ok_def)
  define W where "W = snk_write Tty out W0"
  have sp: "spawn_proc E [tk] tc c w1' = Some (W, 1)"
    using spawn_stage [OF _ c tc01, of w1' "[tk]"] src snk lim
    by (simp add: W_def W0_def out_def w1'_def src_input_def snk_fits_def)
  define t3 where "t3 = sys_close (int r) tk"
  have F3: "fd_get t3 = tty_fds a"
    using rr by (auto simp: t3_def fds_simps T fun_eq_iff tty_fds_def)
  have step: "fork_loop E [] (int r) [c] tk w = Ret t3 (W\<lparr>nprocs := nprocs w\<rparr>) 1"
    using sp lim rr by (simp add: pipe_child_def tc_def w1'_def t3_def)
  have W: "tty_out W = tty_out w @ out" "tty_in W = tty_in w" "files W = files w"
    by (auto simp: W_def W0_def snk_write_def src_consume_def w1'_def)
  show ?thesis
    using step F3 W by (auto simp: out_def)
qed

lemma loop_tty_mid:
  assumes T: "fd_get tk = tty_fds a" "2 \<le> a"
    and lim: "Suc a < fd_limit E" "Suc (Suc (nprocs w)) \<le> proc_limit E"
    and c: "in_file c = None" "out_file c = None" "exec_lookup E (args c) = Some pr"
  defines "k' \<equiv> length (pipes w)" and "out \<equiv> stage_out E c (tty_in w)"
  shows "\<exists>t3 w3. fork_loop E [] 0 (c # d # rest) tk w =
       (if length out \<le> pipe_cap E then fork_loop E [] (int a) (d # rest) t3 w3 else Hang) \<and>
     fd_get t3 = (tty_fds a)(int a \<mapsto> PipeRd k') \<and> pipe_buf w3 k' = out \<and>
     k' < length (pipes w3) \<and> tty_out w3 = tty_out w \<and> files w3 = files w \<and> nprocs w3 = nprocs w"
proof -
  have a0: "alloc_fd tk = a" using T by (simp add: alloc_tty)
  define tp where "tp = fd_put tk a (Some (PipeRd k'))"
  have a1: "alloc_fd tp = Suc a"
    using T by (intro alloc_fd_unique) (auto simp: tp_def tty_fds_def fd_get_put_fun less_Suc_eq)
  define t1 where "t1 = fd_put tp (Suc a) (Some (PipeWr k'))"
  define w1 where "w1 = w\<lparr>pipes := pipes w @ [[]]\<rparr>"
  have pipe: "sys_pipe E tk w = Some (int a, int (Suc a), t1, w1)"
    using sys_pipe_ok [of tk E w] a0 a1 lim(1)
    by (simp add: tp_def t1_def w1_def k'_def)
  have F1: "fd_get t1 = (tty_fds a)(int a \<mapsto> PipeRd k', int (Suc a) \<mapsto> PipeWr k')"
    by (simp add: t1_def tp_def fd_get_put_fun T)
  define tc where "tc = sys_close (int a) (sys_close (int (Suc a)) (sys_dup2 (int (Suc a)) STDOUT_FILENO t1))"
  have FC: "fd_get tc = (tty_fds a)(1 \<mapsto> PipeWr k', int a := None, int (Suc a) := None)"
    using T(2) by (auto simp: tc_def fds_simps F1 fun_eq_iff)
  define w1' where "w1' = w1\<lparr>nprocs := Suc (nprocs w1)\<rparr>"
  define W0 where "W0 = (if reads_stdin pr then src_consume Tty w1' else w1')"
  have tc01: "fd_get tc STDIN_FILENO = Some Tty" "fd_get tc STDOUT_FILENO = Some (PipeWr k')"
    using T(2) by (simp_all add: FC tty_fds_def)
  have src: "src_ok [t1, tc, tc] Tty" by (simp add: src_ok_def)
  have bufs: "src_input Tty w1' = tty_in w" "pipe_buf W0 k' = []" "k' < length (pipes W0)"
    by (auto simp: W0_def w1'_def w1_def src_input_def src_consume_def pipe_buf_def k'_def nth_append)
  have rd1: "fd_get t1 (int a) = Some (PipeRd k')" by (simp add: F1)
  have snk: "snk_ok E [t1, tc, tc] (PipeWr k') W0"
    using rd1 bufs by (auto simp: snk_ok_def has_reader_fd_get)
  have fits: "snk_fits E (PipeWr k') out W0 \<longleftrightarrow> length out \<le> pipe_cap E"
    using bufs by (simp add: snk_fits_def)
  define W where "W = snk_write (PipeWr k') out W0"
  have sp: "spawn_proc E [t1] tc c w1' = (if length out \<le> pipe_cap E then Some (W, 1) else None)"
    using spawn_stage [OF _ c tc01, of w1' "[t1]"] src snk lim(2) bufs(1) fits
    by (simp add: W_def W0_def out_def w1'_def w1_def)
  define t3 where "t3 = sys_close (int (Suc a)) t1"
  have F3: "fd_get t3 = (tty_fds a)(int a \<mapsto> PipeRd k')"
    by (auto simp: t3_def fds_simps F1 fun_eq_iff tty_fds_def)
  have step: "fork_loop E [] 0 (c # d # rest) tk w =
      (if length out \<le> pipe_cap E then fork_loop E [] (int a) (d # rest) t3 (W\<lparr>nprocs := nprocs w1\<rparr>)
       else Hang)"
    using pipe sp lim(2)
    by (subst fork_loop.simps) (simp add: pipe_child_def tc_def w1'_def w1_def t3_def del: fork_loop.simps)
  have W: "pipe_buf W k' = out" "k' < length (pipes W)" "tty_out W = tty_out w" "files W = files w"
    using bufs by (auto simp: W_def W0_def snk_write_def src_consume_def pipe_buf_def w1'_def w1_def)
  show ?thesis
    using step F3 W
    by (intro exI [of _ t3] exI [of _ "W\<lparr>nprocs := nprocs w1\<rparr>"])
       (auto simp: pipe_buf_def w1_def del: fork_loop.simps)
qed

section \<open>The whole loop\<close>

lemma fork_loop_pipe:
  assumes "fd_get tk = (tty_fds a)(int r \<mapsto> PipeRd k)" "r = a \<or> r = Suc a" "2 \<le> a"
    "Suc (Suc a) < fd_limit E" "Suc (Suc (nprocs w)) \<le> proc_limit E" "k < length (pipes w)"
    "plain_stages E cs" "cs \<noteq> []"
  shows "if pipe_fits E cs (pipe_buf w k) then
      (\<exists>t' w'. fork_loop E [] (int r) cs tk w = Ret t' w' 1 \<and> fd_get t' = tty_fds a \<and>
         tty_out w' = tty_out w @ pipe_spec E cs (pipe_buf w k) \<and> files w' = files w \<and> nprocs w' = nprocs w)
    else fork_loop E [] (int r) cs tk w = Hang"
  using assms
proof (induction cs arbitrary: r k tk w)
  case Nil
  then show ?case by simp
next
  case (Cons c cs)
  from plain_stages_Cons [OF Cons.prems(7)] obtain pr where c: "in_file c = None" "out_file c = None"
    "exec_lookup E (args c) = Some pr" and ps: "plain_stages E cs" by blast
  show ?case
  proof (cases cs)
    case Nil
    have "Suc (nprocs w) < proc_limit E" using Cons.prems(5) by simp
    then show ?thesis
      using loop_pipe_last [OF Cons.prems(1-3) _ c, where w = w] Nil by (auto simp del: fork_loop.simps)
  next
    case (Cons d rest)
    note cs = this
    define out where "out = stage_out E c (pipe_buf w k)"
    define r' where "r' = (if r = a then Suc a else a)"
    have r': "r' = a \<or> r' = Suc a" by (simp add: r'_def)
    obtain t3 w3 where st: "fork_loop E [] (int r) (c # d # rest) tk w =
        (if length out \<le> pipe_cap E then fork_loop E [] (int r') (d # rest) t3 w3 else Hang)"
      and F3: "fd_get t3 = (tty_fds a)(int r' \<mapsto> PipeRd (length (pipes w)))"
      and W3: "pipe_buf w3 (length (pipes w)) = out"
        "length (pipes w) < length (pipes w3)" "tty_out w3 = tty_out w" "files w3 = files w"
        "nprocs w3 = nprocs w"
      using loop_pipe_mid [OF Cons.prems(1-5) c Cons.prems(6), of d rest] unfolding out_def r'_def by blast
    have "if pipe_fits E (d # rest) (pipe_buf w3 (length (pipes w))) then
      (\<exists>t' w'. fork_loop E [] (int r') (d # rest) t3 w3 = Ret t' w' 1 \<and>
         fd_get t' = tty_fds a \<and>
         tty_out w' = tty_out w3 @ pipe_spec E (d # rest) (pipe_buf w3 (length (pipes w))) \<and>
         files w' = files w3 \<and> nprocs w' = nprocs w3)
      else fork_loop E [] (int r') (d # rest) t3 w3 = Hang"
      using Cons.IH [where w = w3, OF F3 r' Cons.prems(3,4) _ _ ps, unfolded cs] Cons.prems(5) W3
      by (simp del: fork_loop.simps pipe_spec.simps)
    note IH = this [unfolded W3(1,3,4,5)]
    show ?thesis
    proof (cases "length out \<le> pipe_cap E")
      case True
      have st': "fork_loop E [] (int r) (c # d # rest) tk w = fork_loop E [] (int r') (d # rest) t3 w3"
        using st True by simp
      have f: "pipe_fits E (c # d # rest) (pipe_buf w k) = pipe_fits E (d # rest) out"
        using True by (simp add: out_def)
      have p: "pipe_spec E (c # d # rest) (pipe_buf w k) = pipe_spec E (d # rest) out"
        by (simp add: out_def)
      show ?thesis
        unfolding cs f p st' using IH by (simp del: fork_loop.simps pipe_spec.simps pipe_fits.simps)
    next
      case False
      then show ?thesis using st cs by (simp add: out_def del: fork_loop.simps)
    qed
  qed
qed

lemma fork_cmd_node_result:
  assumes "tty_table t" "length t + 2 < fd_limit E" "nprocs w + 2 \<le> proc_limit E"
    "plain_stages E cs" "2 \<le> length cs"
  shows "if pipe_fits E cs (tty_in w) then
      (\<exists>t' w'. fork_cmd_node E [] cs t w = Ret t' w' 1 \<and> fd_get t' = fd_get t \<and>
         tty_out w' = tty_out w @ pipe_spec E cs (tty_in w) \<and> files w' = files w \<and> nprocs w' = nprocs w)
    else fork_cmd_node E [] cs t w = Hang"
proof -
  obtain c d rest where cs: "cs = c # d # rest"
    using assms(5) by (cases cs; cases "tl cs") auto
  from plain_stages_Cons [OF assms(4) [unfolded cs]] obtain pr where c: "in_file c = None" "out_file c = None"
    "exec_lookup E (args c) = Some pr" and ps: "plain_stages E (d # rest)" by blast
  have T: "fd_get t = tty_fds (length t)" "2 \<le> length t"
    using assms(1) by (auto simp: tty_table_fds tty_table_def)
  define out where "out = stage_out E c (tty_in w)"
  obtain t3 w3 where st: "fork_loop E [] 0 (c # d # rest) t w =
      (if length out \<le> pipe_cap E then fork_loop E [] (int (length t)) (d # rest) t3 w3 else Hang)"
    and F3: "fd_get t3 = (tty_fds (length t))(int (length t) \<mapsto> PipeRd (length (pipes w)))"
    and W3: "pipe_buf w3 (length (pipes w)) = out"
      "length (pipes w) < length (pipes w3)" "tty_out w3 = tty_out w" "files w3 = files w"
      "nprocs w3 = nprocs w"
    using loop_tty_mid [OF T _ _ c, where d = d and rest = rest and w = w] assms(2,3) unfolding out_def by auto
  have "if pipe_fits E (d # rest) (pipe_buf w3 (length (pipes w))) then
      (\<exists>t' w'. fork_loop E [] (int (length t)) (d # rest) t3 w3 = Ret t' w' 1 \<and>
         fd_get t' = tty_fds (length t) \<and>
         tty_out w' = tty_out w3 @ pipe_spec E (d # rest) (pipe_buf w3 (length (pipes w))) \<and>
         files w' = files w3 \<and> nprocs w' = nprocs w3)
      else fork_loop E [] (int (length t)) (d # rest) t3 w3 = Hang"
    using fork_loop_pipe [where w = w3, OF F3 _ T(2) _ _ _ ps] assms(2,3) W3
    by (simp del: fork_loop.simps pipe_spec.simps)
  note L = this [unfolded W3(1,3,4,5)]
  show ?thesis
  proof (cases "length out \<le> pipe_cap E")
    case True
    have st': "fork_cmd_node E [] cs t w = fork_loop E [] (int (length t)) (d # rest) t3 w3"
      using st True by (simp add: fork_cmd_node_def cs del: fork_loop.simps)
    have f: "pipe_fits E cs (tty_in w) = pipe_fits E (d # rest) out"
      using True by (simp add: out_def cs)
    have p: "pipe_spec E cs (tty_in w) = pipe_spec E (d # rest) out"
      by (simp add: out_def cs)
    show ?thesis
      unfolding f p st' using L T(1) by (simp del: fork_loop.simps pipe_spec.simps pipe_fits.simps)
  next
    case False
    then show ?thesis using st cs by (simp add: out_def fork_cmd_node_def del: fork_loop.simps)
  qed
qed

text \<open>C1: pipeline correctness. For a pipeline of two or more commands without
  redirections, all found, run by a shell whose descriptors are the terminal only,
  with process and descriptor limits leaving room for a child, a grandchild and two
  pipes, and whose intermediate outputs each fit in a pipe buffer, \<open>fork_cmd_node\<close>
  returns 1, leaves the shell's descriptor table as it was, leaves files and the
  process count unchanged, and the terminal receives exactly the output of the
  last command fed by the chained outputs of the earlier ones.\<close>

theorem fork_cmd_node_correct:
  assumes "tty_table t" "length t + 2 < fd_limit E" "nprocs w + 2 \<le> proc_limit E"
    "plain_stages E cs" "2 \<le> length cs" "pipe_fits E cs (tty_in w)"
  shows "\<exists>t' w'. fork_cmd_node E [] cs t w = Ret t' w' 1 \<and> fd_get t' = fd_get t \<and>
     tty_out w' = tty_out w @ pipe_spec E cs (tty_in w) \<and> files w' = files w \<and> nprocs w' = nprocs w"
  using fork_cmd_node_result [OF assms(1-5)] assms(6) by simp

text \<open>C3: bounded pipe buffers. Under the same conditions, if some intermediate
  output does not fit in a pipe buffer, \<open>fork_cmd_node\<close> never returns: the
  shell waits for the writer before it starts the reader, and the writer blocks
  on the full pipe.\<close>

theorem fork_cmd_node_blocks:
  assumes "tty_table t" "length t + 2 < fd_limit E" "nprocs w + 2 \<le> proc_limit E"
    "plain_stages E cs" "2 \<le> length cs" "\<not> pipe_fits E cs (tty_in w)"
  shows "fork_cmd_node E [] cs t w = Hang"
  using fork_cmd_node_result [OF assms(1-5)] assms(6) by simp

section \<open>The shell's descriptors after the loop, whatever the stages do\<close>

lemma sys_pipe_Some:
  assumes "sys_pipe E t w = Some (rd, wr, t1, w1)"
  shows "rd = int (alloc_fd t) \<and> wr = int (alloc_fd (fd_put t (alloc_fd t) (Some (PipeRd (length (pipes w)))))) \<and>
    fd_get t1 = (fd_get t)(rd \<mapsto> PipeRd (length (pipes w)), wr \<mapsto> PipeWr (length (pipes w))) \<and>
    w1 = w\<lparr>pipes := pipes w @ [[]]\<rparr>"
  using assms by (auto simp: sys_pipe_def Let_def fd_get_put_fun split: if_splits)

lemma loop_tab_pipe:
  assumes "loop_tab a in_fd tk" "2 \<le> a" "sys_pipe E tk w = Some (rd, wr, t1, w1)"
  shows "rd \<noteq> STDIN_FILENO \<and>
    loop_tab a rd (sys_close wr (if in_fd \<noteq> STDIN_FILENO then sys_close in_fd t1 else t1))"
proof -
  from assms(1) consider (tty) "in_fd = STDIN_FILENO" "fd_get tk = tty_fds a"
    | (pipe) r k where "in_fd = int r" "r = a \<or> r = Suc a" "fd_get tk = (tty_fds a)(int r \<mapsto> PipeRd k)"
    unfolding loop_tab_def by blast
  then show ?thesis
  proof cases
  case tty
  note i = tty(1) and T = tty(2)
  have a0: "alloc_fd tk = a" using T by (rule alloc_tty)
  have a1: "alloc_fd (fd_put tk a (Some (PipeRd (length (pipes w))))) = Suc a"
    using T by (intro alloc_fd_unique) (auto simp: tty_fds_def fd_get_put_fun less_Suc_eq)
  have P: "rd = int a" "wr = int (Suc a)"
    "fd_get t1 = (tty_fds a)(int a \<mapsto> PipeRd (length (pipes w)), int (Suc a) \<mapsto> PipeWr (length (pipes w)))"
    using sys_pipe_Some [OF assms(3)] a0 a1 T by auto
  have "fd_get (sys_close wr (if in_fd \<noteq> STDIN_FILENO then sys_close in_fd t1 else t1)) =
      (tty_fds a)(int a \<mapsto> PipeRd (length (pipes w)))"
    using i P by (auto simp: fds_simps fun_eq_iff tty_fds_def)
  then show ?thesis using P(1) assms(2) unfolding loop_tab_def by force
  next
  case (pipe r k)
  note i = pipe(1) and r = pipe(2) and T = pipe(3)
  define r' where "r' = (if r = a then Suc a else a)"
  have a0: "alloc_fd tk = r'"
    using T r by (intro alloc_fd_unique) (auto simp: r'_def tty_fds_def)
  have a1: "alloc_fd (fd_put tk r' (Some (PipeRd (length (pipes w))))) = Suc (Suc a)"
    using T r by (intro alloc_fd_unique) (auto simp: r'_def tty_fds_def fd_get_put_fun less_Suc_eq)
  have r': "r' = a \<or> r' = Suc a" "int r \<noteq> 0" "r \<noteq> r'" "int r' \<noteq> 0" using r assms(2) by (auto simp: r'_def)
  have P: "rd = int r'" "wr = int (Suc (Suc a))"
    "fd_get t1 = (fd_get tk)(int r' \<mapsto> PipeRd (length (pipes w)), int (Suc (Suc a)) \<mapsto> PipeWr (length (pipes w)))"
    using sys_pipe_Some [OF assms(3)] a0 a1 by auto
  have "fd_get (sys_close wr (if in_fd \<noteq> STDIN_FILENO then sys_close in_fd t1 else t1)) =
      (tty_fds a)(int r' \<mapsto> PipeRd (length (pipes w)))"
    using i P T r r' by (auto simp: fds_simps fun_eq_iff tty_fds_def)
  then show ?thesis using P(1) r'(1,4) unfolding loop_tab_def by force
  qed
qed

lemma loop_tab_last:
  "loop_tab a in_fd t \<Longrightarrow> 2 \<le> a \<Longrightarrow> fd_get (if in_fd \<noteq> STDIN_FILENO then sys_close in_fd t else t) = tty_fds a"
  by (auto simp: loop_tab_def fds_simps fun_eq_iff tty_fds_def)

lemma fork_loop_fds:
  assumes "loop_tab a in_fd tk" "2 \<le> a" "cs \<noteq> [] \<or> in_fd = STDIN_FILENO"
    and "fork_loop E anc in_fd cs tk w = Ret t' w' st"
  shows "fd_get t' = tty_fds a \<and> nprocs w' = nprocs w \<and> st = 1"
  using assms
proof (induction cs arbitrary: in_fd tk w)
  case Nil
  then show ?case using loop_tab_last [OF Nil.prems(1,2)] by simp
next
  case (Cons c cs)
  show ?case
  proof (cases "cs = []")
    case True
    with Cons.prems(4) obtain w2 where
      "t' = (if in_fd \<noteq> STDIN_FILENO then sys_close in_fd tk else tk)" "w' = w2\<lparr>nprocs := nprocs w\<rparr>" "st = 1"
      by (auto simp: Let_def split: option.splits if_splits)
    then show ?thesis using loop_tab_last [OF Cons.prems(1,2)] by simp
  next
    case False
    with Cons.prems(4) obtain rd wr t1 w1 w2 s2 where
      pipe: "sys_pipe E tk w = Some (rd, wr, t1, w1)" and
      rec: "fork_loop E anc rd cs (sys_close wr (if in_fd \<noteq> STDIN_FILENO then sys_close in_fd t1 else t1))
              (w2\<lparr>nprocs := nprocs w1\<rparr>) = Ret t' w' st"
      by (auto simp: Let_def split: option.splits if_splits)
    have "nprocs w1 = nprocs w" using sys_pipe_Some [OF pipe] by simp
    with Cons.IH [OF conjunct2 [OF loop_tab_pipe [OF Cons.prems(1,2) pipe]] Cons.prems(2) _ rec] False
    show ?thesis by simp
  qed
qed

text \<open>C9: whatever the stages of a pipeline do (redirect, fail to execute, exit with
  any status), when \<open>fork_cmd_node\<close> returns to the shell every pipe descriptor
  it created is closed in the shell, every child it forked has been waited for,
  and it returns 1.\<close>

theorem fork_cmd_node_no_leak:
  assumes "tty_table t" "fork_cmd_node E anc cs t w = Ret t' w' st"
  shows "fd_get t' = fd_get t \<and> nprocs w' = nprocs w \<and> st = 1"
proof -
  have "loop_tab (length t) STDIN_FILENO t" "2 \<le> length t"
    using assms(1) tty_table_fds [OF assms(1)] by (auto simp: loop_tab_def tty_table_def)
  then show ?thesis
    using fork_loop_fds [of "length t" STDIN_FILENO t] assms tty_table_fds [OF assms(1)]
    by (simp add: fork_cmd_node_def)
qed

lemma fork_loop_status:
  "fork_loop E anc in_fd cs t w = Ret t' w' st \<Longrightarrow> st = 1"
proof (induction cs arbitrary: in_fd t w)
  case Nil
  then show ?case by simp
next
  case (Cons c cs)
  then show ?case by (auto simp: Let_def split: option.splits if_splits)
qed

end
