(* ===== verification/Shell.thy ===== *)
theory Shell
  imports Pipeline
begin

text \<open>
  The Builtin Dispatcher and the Shell Loop of \<open>shell()\<close> in
  \<open>src/lab2/src/shell.c\<close> (lines 152--207). The built-in registry
  (\<open>searchBuiltInCommand\<close>, \<open>execBuiltInCommand\<close>) and the line reader and parser
  (\<open>read_line\<close>, \<open>split_line\<close>) are not in the repository; they are modelled
  from their contract: a built-in is a name and a function from arguments to
  output and status, and the parser hands the loop one parsed pipeline per line.
  The loop is a deterministic step function on a configuration record, and
  \<open>shell_reach\<close> its reflexive-transitive closure.
\<close>

section \<open>The built-in registry\<close>

record builtin =
  bi_name :: string
  bi_run :: "string list \<Rightarrow> string \<times> status"

fun builtin_index :: "builtin list \<Rightarrow> string \<Rightarrow> nat \<Rightarrow> int" where
  "builtin_index [] n i = -1"
| "builtin_index (b # bs) n i = (if bi_name b = n then int i else builtin_index bs n (Suc i))"

definition searchBuiltInCommand :: "builtin list \<Rightarrow> cmd_node \<Rightarrow> int" where
  "searchBuiltInCommand bs p = (case args p of [] \<Rightarrow> -1 | n # _ \<Rightarrow> builtin_index bs n 0)"

text \<open>A built-in runs in the shell's process and writes its output to the
  shell's descriptor 1; \<open>None\<close> is a write that blocks.\<close>

definition execBuiltInCommand ::
  "env \<Rightarrow> builtin list \<Rightarrow> int \<Rightarrow> cmd_node \<Rightarrow> fdtab \<Rightarrow> world \<Rightarrow> (world \<times> bool \<times> status) option" where
  "execBuiltInCommand E bs i p t w =
     (case bi_run (bs ! nat i) (args p) of (out, st) \<Rightarrow>
        (case write_stdout E [t] t out w of
           None \<Rightarrow> None
         | Some (w1, killed) \<Rightarrow> Some (w1, killed, st)))"

section \<open>The Builtin Dispatcher (shell.c, lines 168--181)\<close>

text \<open>Save descriptors 0 and 1 with \<open>dup\<close> (an error is only reported), apply
  the node's redirections in the shell itself (a failed \<open>open\<close> exits the shell),
  run the built-in, restore 0 and 1 from the saved copies where the node
  redirected them, and close the copies. A built-in killed by \<open>SIGPIPE\<close> kills
  the shell.\<close>

definition builtin_dispatch ::
  "env \<Rightarrow> builtin list \<Rightarrow> int \<Rightarrow> cmd_node \<Rightarrow> fdtab \<Rightarrow> world \<Rightarrow> sh_res" where
  "builtin_dispatch E bs idx p t w =
     (case sys_dup E STDIN_FILENO t of (i, t1) \<Rightarrow>
      case sys_dup E STDOUT_FILENO t1 of (ou, t2) \<Rightarrow>
      (let w1 = (if i = -1 \<or> ou = -1 then perror ''dup'' w else w) in
       case redirection E p t2 w1 of
         Inl (w2, st) \<Rightarrow> ShExit w2 st
       | Inr (t3, w2) \<Rightarrow>
           (case execBuiltInCommand E bs idx p t3 w2 of
              None \<Rightarrow> Hang
            | Some (w3, killed, st) \<Rightarrow>
                if killed then ShExit w3 141
                else
                  (let t4 = (if in_file p \<noteq> None then sys_dup2 i STDIN_FILENO t3 else t3);
                       t5 = (if out_file p \<noteq> None then sys_dup2 ou STDOUT_FILENO t4 else t4)
                   in Ret (sys_close ou (sys_close i t5)) w3 st))))"

section \<open>Dispatch of one parsed line (shell.c, lines 162--192)\<close>

text \<open>One node: a built-in if the registry knows it, otherwise \<open>spawn_proc\<close>;
  several nodes: \<open>fork_cmd_node\<close>. An empty pipeline makes the code read
  \<open>cmd->head->next\<close> through a null pointer: \<open>None\<close>.\<close>

definition dispatch :: "env \<Rightarrow> builtin list \<Rightarrow> cmd_node list \<Rightarrow> fdtab \<Rightarrow> world \<Rightarrow> sh_res option" where
  "dispatch E bs cs t w =
     (case cs of
        [] \<Rightarrow> None
      | [p] \<Rightarrow>
          (let idx = searchBuiltInCommand bs p in
           if idx \<noteq> -1 then Some (builtin_dispatch E bs idx p t w)
           else Some (case spawn_proc E [] t p w of
                        None \<Rightarrow> Hang
                      | Some (w1, st) \<Rightarrow> Ret t w1 st))
      | _ \<Rightarrow> Some (fork_cmd_node E [] cs t w))"

section \<open>The Shell Loop (shell.c, lines 152--207)\<close>

text \<open>
  The modes are the spec's states \<open>Prompt\<close>, \<open>Dispatch\<close>, \<open>Cleanup\<close> and
  \<open>Terminated\<close>, and the ways the shell process ends otherwise: \<open>Died\<close> (it
  called \<open>exit\<close> or was killed), \<open>Blocked\<close> (it waits forever), \<open>Crashed\<close>
  (null dereference). The input \<open>inp\<close> is the sequence of parsed lines still to
  come; when it is empty \<open>read_line\<close> returns \<open>NULL\<close>.
\<close>

datatype shell_mode = Prompt | Dispatch "cmd_node list" | Cleanup status
  | Terminated | Died status | Blocked | Crashed

record shell_cfg =
  fds :: fdtab
  wld :: world
  inp :: "cmd_node list list"
  mode :: shell_mode

definition after_dispatch :: "shell_cfg \<Rightarrow> sh_res option \<Rightarrow> shell_cfg" where
  "after_dispatch c r =
     (case r of
        None \<Rightarrow> c\<lparr>mode := Crashed\<rparr>
      | Some (Ret t w st) \<Rightarrow> c\<lparr>fds := t, wld := w, mode := Cleanup st\<rparr>
      | Some (ShExit w st) \<Rightarrow> c\<lparr>wld := w, mode := Died st\<rparr>
      | Some Hang \<Rightarrow> c\<lparr>mode := Blocked\<rparr>)"

definition shell_step :: "env \<Rightarrow> builtin list \<Rightarrow> shell_cfg \<Rightarrow> shell_cfg" where
  "shell_step E bs c =
     (case mode c of
        Prompt \<Rightarrow>
          (case write_stdout E [fds c] (fds c) ''>>> $ '' (wld c) of
             None \<Rightarrow> c\<lparr>mode := Blocked\<rparr>
           | Some (w1, killed) \<Rightarrow>
               if killed then c\<lparr>wld := w1, mode := Died 141\<rparr>
               else (case inp c of
                       [] \<Rightarrow> c\<lparr>wld := w1\<rparr>
                     | cs # rest \<Rightarrow> c\<lparr>wld := w1, inp := rest, mode := Dispatch cs\<rparr>))
      | Dispatch cs \<Rightarrow> after_dispatch c (dispatch E bs cs (fds c) (wld c))
      | Cleanup st \<Rightarrow> (if st = 0 then c\<lparr>mode := Terminated\<rparr> else c\<lparr>mode := Prompt\<rparr>)
      | _ \<Rightarrow> c)"

fun shell_run :: "env \<Rightarrow> builtin list \<Rightarrow> nat \<Rightarrow> shell_cfg \<Rightarrow> shell_cfg" where
  "shell_run E bs 0 c = c"
| "shell_run E bs (Suc n) c = shell_run E bs n (shell_step E bs c)"

inductive shell_reach :: "env \<Rightarrow> builtin list \<Rightarrow> shell_cfg \<Rightarrow> shell_cfg \<Rightarrow> bool"
  for E :: env and bs :: "builtin list" where
  refl: "shell_reach E bs c c"
| step: "shell_reach E bs c0 c \<Longrightarrow> shell_reach E bs c0 (shell_step E bs c)"

fun live_mode :: "shell_mode \<Rightarrow> bool" where
  "live_mode Prompt = True"
| "live_mode (Dispatch cs) = True"
| "live_mode (Cleanup st) = True"
| "live_mode _ = False"

section \<open>The shell's descriptors and processes\<close>

lemma sys_dup_tty:
  assumes "fd_get t = tty_fds a" "a < fd_limit E" "0 \<le> i" "i < int a"
  shows "\<exists>t'. sys_dup E i t = (int a, t') \<and> fd_get t' = tty_fds (Suc a)"
proof -
  have "alloc_fd t = a" using assms(1) by (rule alloc_tty)
  then show ?thesis using assms
    by (auto simp: sys_dup_def fd_get_put_fun tty_fds_def fun_eq_iff)
qed

lemma write_stdout_nprocs:
  "write_stdout E live t s w = Some (w', k) \<Longrightarrow> nprocs w' = nprocs w"
  by (auto simp: write_stdout_def split: if_splits option.splits ofile.splits)

lemma builtin_dispatch_fds:
  assumes "fd_get t = tty_fds a" "2 \<le> a" "Suc a < fd_limit E"
    and "builtin_dispatch E bs idx p t w = Ret t' w' st"
  shows "fd_get t' = tty_fds a \<and> nprocs w' = nprocs w"
proof -
  obtain t1 where d1: "sys_dup E STDIN_FILENO t = (int a, t1)" "fd_get t1 = tty_fds (Suc a)"
    using sys_dup_tty [where E = E and i = STDIN_FILENO, OF assms(1)] assms(2,3) by auto
  obtain t2 where d2: "sys_dup E STDOUT_FILENO t1 = (int (Suc a), t2)" "fd_get t2 = tty_fds (Suc (Suc a))"
    using sys_dup_tty [where E = E and i = STDOUT_FILENO, OF d1(2)] assms(2,3) by auto
  obtain t3 w2 w3 where r: "redirection E p t2 w = Inr (t3, w2)"
    and x: "execBuiltInCommand E bs idx p t3 w2 = Some (w3, False, st)"
    and t': "t' = sys_close (int (Suc a)) (sys_close (int a)
               (if out_file p \<noteq> None
                then sys_dup2 (int (Suc a)) STDOUT_FILENO
                       (if in_file p \<noteq> None then sys_dup2 (int a) STDIN_FILENO t3 else t3)
                else (if in_file p \<noteq> None then sys_dup2 (int a) STDIN_FILENO t3 else t3)))"
    and w': "w' = w3"
    using assms(4) d1(1) d2(1)
    by (auto simp: builtin_dispatch_def Let_def split: sum.splits option.splits if_splits)
  have "std_open t2" using d2(2) assms(2) by (simp add: std_open_def tty_fds_def)
  from redirection_Inr [OF this r] d2(2)
  have f3: "fd_get t3 = redir_spec p (tty_fds (Suc (Suc a)))" "w2 = redir_world p w" by simp_all
  have "fd_get t' = tty_fds a"
    using assms(2) unfolding t'
    by (auto simp: fds_simps f3 redir_spec_def tty_fds_def fun_eq_iff split: option.splits)
  moreover have "nprocs w' = nprocs w"
    using x write_stdout_nprocs [of E "[t3]" t3] f3(2) w'
    by (auto simp: execBuiltInCommand_def redir_world_def split: prod.splits option.splits)
  ultimately show ?thesis ..
qed

lemma dispatch_fds:
  assumes "fd_get t = tty_fds a" "2 \<le> a" "Suc a < fd_limit E"
    and "dispatch E bs cs t w = Some (Ret t' w' st)"
  shows "fd_get t' = tty_fds a \<and> nprocs w' = nprocs w"
proof -
  consider (none) "cs = []" | (one) p where "cs = [p]" | (many) p q r where "cs = p # q # r"
    by (metis list.exhaust)
  then show ?thesis
  proof cases
    case none
    then show ?thesis using assms(4) by (simp add: dispatch_def)
  next
    case (one p)
    show ?thesis
    proof (cases "searchBuiltInCommand bs p = -1")
      case False
      then show ?thesis
        using assms one builtin_dispatch_fds [OF assms(1-3)] by (auto simp: dispatch_def Let_def)
    next
      case True
      then obtain st' where "spawn_proc E [] t p w = Some (w', st')" "t' = t"
        using assms(4) one by (auto simp: dispatch_def split: option.splits)
      then show ?thesis using spawn_proc_result assms(1) by blast
    qed
  next
    case (many p q r)
    have lt: "loop_tab a STDIN_FILENO t" using assms(1) by (simp add: loop_tab_def)
    have "fork_loop E [] STDIN_FILENO cs t w = Ret t' w' st"
      using assms(4) many by (simp add: dispatch_def fork_cmd_node_def del: fork_loop.simps)
    from fork_loop_fds [OF lt assms(2) _ this] many show ?thesis by simp
  qed
qed

lemma shell_step_idle: "\<not> live_mode (mode c) \<Longrightarrow> shell_step E bs c = c"
  by (cases "mode c") (simp_all add: shell_step_def)

lemma shell_step_fds:
  assumes "fd_get (fds c) = tty_fds a" "live_mode (mode c) \<longrightarrow> nprocs (wld c) = n"
    "2 \<le> a" "Suc a < fd_limit E"
  shows "fd_get (fds (shell_step E bs c)) = tty_fds a \<and>
    (live_mode (mode (shell_step E bs c)) \<longrightarrow> nprocs (wld (shell_step E bs c)) = n)"
proof (cases "live_mode (mode c)")
  case False
  then show ?thesis using assms(1,2) by (simp add: shell_step_idle)
next
  case True
  have tty1: "fd_get (fds c) STDOUT_FILENO = Some Tty" using assms(1,3) by (simp add: tty_fds_def)
  show ?thesis
  proof (cases "mode c")
    case Prompt
    then show ?thesis using assms True tty1
      by (auto simp: shell_step_def write_stdout_def split: list.splits)
  next
    case (Dispatch cs)
    show ?thesis
    proof (cases "dispatch E bs cs (fds c) (wld c)")
      case None
      then show ?thesis using Dispatch assms(1) by (simp add: shell_step_def after_dispatch_def)
    next
      case (Some r)
      then show ?thesis
        using Dispatch assms True dispatch_fds [OF assms(1,3,4), of bs cs "wld c"]
        by (cases r) (auto simp: shell_step_def after_dispatch_def)
    qed
  next
    case (Cleanup st)
    then show ?thesis using assms True by (simp add: shell_step_def)
  qed (use True in simp_all)
qed

lemma shell_run_add: "shell_run E bs (m + n) c = shell_run E bs n (shell_run E bs m c)"
  by (induction m arbitrary: c) simp_all

lemma shell_reach_run: "shell_reach E bs c0 c \<Longrightarrow> shell_reach E bs c0 (shell_run E bs n c)"
  by (induction n arbitrary: c) (auto intro: shell_reach.step)

text \<open>C2: the Shell Loop leaks neither descriptors nor processes. Started with
  descriptors \<open>0 .. a-1\<close> on the terminal and room for the two descriptors the
  Builtin Dispatcher saves, in every state the loop reaches while it is alive
  (\<open>Prompt\<close>, \<open>Dispatch\<close>, \<open>Cleanup\<close>) the shell has exactly its initial
  descriptors open and every child it forked has been waited for, whatever the
  commands, built-ins and redirections were.\<close>

theorem shell_no_leak:
  assumes "shell_reach E bs c0 c" "fd_get (fds c0) = tty_fds a" "2 \<le> a" "Suc a < fd_limit E"
    and "live_mode (mode c)"
  shows "fd_get (fds c) = tty_fds a \<and> nprocs (wld c) = nprocs (wld c0)"
proof -
  have "fd_get (fds c0) = tty_fds a \<longrightarrow>
      fd_get (fds c) = tty_fds a \<and> (live_mode (mode c) \<longrightarrow> nprocs (wld c) = nprocs (wld c0))"
    using assms(1)
  proof induction
    case (refl c)
    then show ?case by simp
  next
    case (step x y)
    show ?case
    proof
      assume "fd_get (fds x) = tty_fds a"
      with step.IH have "fd_get (fds y) = tty_fds a"
        "live_mode (mode y) \<longrightarrow> nprocs (wld y) = nprocs (wld x)" by simp_all
      from shell_step_fds [OF this assms(3,4)] show
        "fd_get (fds (shell_step E bs y)) = tty_fds a \<and>
         (live_mode (mode (shell_step E bs y)) \<longrightarrow> nprocs (wld (shell_step E bs y)) = nprocs (wld x))" .
    qed
  qed
  then show ?thesis using assms(2,5) by simp
qed

section \<open>Built-ins: registry search and status\<close>

lemma builtin_index_found:
  "builtin_index bs n i \<noteq> -1 \<Longrightarrow>
   \<exists>j<length bs. builtin_index bs n i = int (i + j) \<and> bi_name (bs ! j) = n"
proof (induction bs arbitrary: i)
  case Nil
  then show ?case by simp
next
  case (Cons b bs)
  show ?case
  proof (cases "bi_name b = n")
    case True
    then show ?thesis by (intro exI [of _ 0]) simp
  next
    case False
    with Cons.prems Cons.IH [of "Suc i"] obtain j where
      "j < length bs" "builtin_index bs n (Suc i) = int (Suc i + j)" "bi_name (bs ! j) = n" by auto
    with False show ?thesis by (intro exI [of _ "Suc j"]) simp
  qed
qed

lemma searchBuiltInCommand_found:
  "searchBuiltInCommand bs p \<noteq> -1 \<Longrightarrow>
   nat (searchBuiltInCommand bs p) < length bs \<and> args p \<noteq> [] \<and>
   bi_name (bs ! nat (searchBuiltInCommand bs p)) = hd (args p)"
  using builtin_index_found [of bs "hd (args p)" 0]
  by (auto simp: searchBuiltInCommand_def split: list.splits)

lemma builtin_dispatch_status:
  "builtin_dispatch E bs idx p t w = Ret t' w' st \<Longrightarrow> snd (bi_run (bs ! nat idx) (args p)) = st"
  by (auto simp: builtin_dispatch_def execBuiltInCommand_def Let_def
      split: prod.splits sum.splits option.splits if_splits)

lemma dispatch_status:
  assumes "dispatch E bs cs t w = Some (Ret t' w' st)"
  shows "st \<noteq> 0 \<or> (\<exists>b\<in>set bs. \<exists>x. snd (bi_run b x) = 0)"
proof -
  consider (none) "cs = []" | (one) p where "cs = [p]" | (many) p q r where "cs = p # q # r"
    by (metis list.exhaust)
  then show ?thesis
  proof cases
    case none
    then show ?thesis using assms by (simp add: dispatch_def)
  next
    case (one p)
    show ?thesis
    proof (cases "searchBuiltInCommand bs p = -1")
      case False
      then have "builtin_dispatch E bs (searchBuiltInCommand bs p) p t w = Ret t' w' st"
        using assms one by (simp add: dispatch_def Let_def)
      from builtin_dispatch_status [OF this] searchBuiltInCommand_found [OF False] show ?thesis
        by (metis nth_mem)
    next
      case True
      then obtain w1 where "spawn_proc E [] t p w = Some (w1, st)"
        using assms one by (auto simp: dispatch_def split: option.splits)
      then show ?thesis using spawn_proc_result by fastforce
    qed
  next
    case (many p q r)
    then have "fork_loop E [] STDIN_FILENO cs t w = Ret t' w' st"
      using assms by (simp add: dispatch_def fork_cmd_node_def del: fork_loop.simps)
    then have "st = 1" by (rule fork_loop_status)
    then show ?thesis by simp
  qed
qed

lemma shell_step_no_exit:
  assumes "\<forall>b\<in>set bs. \<forall>x. snd (bi_run b x) \<noteq> 0" "mode c \<noteq> Terminated" "mode c \<noteq> Cleanup 0"
  shows "mode (shell_step E bs c) \<noteq> Terminated \<and> mode (shell_step E bs c) \<noteq> Cleanup 0"
proof (cases "mode c")
  case (Dispatch cs)
  show ?thesis
  proof (cases "dispatch E bs cs (fds c) (wld c)")
    case (Some r)
    then show ?thesis
      using Dispatch assms(1) dispatch_status [of E bs cs "fds c" "wld c"]
      by (cases r) (auto simp: shell_step_def after_dispatch_def)
  qed (simp add: Dispatch shell_step_def after_dispatch_def)
qed (use assms in \<open>auto simp: shell_step_def split: option.splits list.splits\<close>)

text \<open>C6: only a built-in ends the shell. An external command or a pipeline
  never makes the loop terminate, whatever its exit status (\<open>spawn_proc\<close>
  returns 1 or -1 and \<open>fork_cmd_node\<close> returns 1), so if the loop reaches
  \<open>Terminated\<close> some built-in of the registry returns status 0.\<close>

theorem shell_exit_needs_builtin:
  assumes "shell_reach E bs c0 c" "mode c = Terminated"
    and "mode c0 \<noteq> Terminated" "mode c0 \<noteq> Cleanup 0"
  shows "\<exists>b\<in>set bs. \<exists>x. snd (bi_run b x) = 0"
proof (rule ccontr)
  assume none: "\<not> (\<exists>b\<in>set bs. \<exists>x. snd (bi_run b x) = 0)"
  have "mode c0 \<noteq> Terminated \<and> mode c0 \<noteq> Cleanup 0 \<longrightarrow>
      mode c \<noteq> Terminated \<and> mode c \<noteq> Cleanup 0"
    using assms(1)
  proof induction
    case refl
    then show ?case by simp
  next
    case (step x y)
    then show ?case using shell_step_no_exit [OF none [simplified]] by blast
  qed
  with assms(2-4) show False by simp
qed

section \<open>Built-ins run to completion\<close>

lemma dup_both:
  assumes "fd_get t = tty_fds a" "2 \<le> a" "Suc a < fd_limit E"
  obtains t1 t2 where "sys_dup E STDIN_FILENO t = (int a, t1)"
    "sys_dup E STDOUT_FILENO t1 = (int (Suc a), t2)" "fd_get t2 = tty_fds (Suc (Suc a))"
proof -
  obtain t1 where d1: "sys_dup E STDIN_FILENO t = (int a, t1)" "fd_get t1 = tty_fds (Suc a)"
    using sys_dup_tty [where E = E and i = STDIN_FILENO, OF assms(1)] assms(2,3) by auto
  obtain t2 where d2: "sys_dup E STDOUT_FILENO t1 = (int (Suc a), t2)" "fd_get t2 = tty_fds (Suc (Suc a))"
    using sys_dup_tty [where E = E and i = STDOUT_FILENO, OF d1(2)] assms(2,3) by auto
  from d1(1) d2 show ?thesis by (rule that)
qed

lemma builtin_dispatch_plain:
  assumes "fd_get t = tty_fds a" "2 \<le> a" "Suc a < fd_limit E"
    and "in_file p = None" "out_file p = None" "bi_run (bs ! nat idx) (args p) = (out, st)"
  shows "\<exists>t'. builtin_dispatch E bs idx p t w = Ret t' (w\<lparr>tty_out := tty_out w @ out\<rparr>) st"
proof -
  obtain t1 t2 where d: "sys_dup E STDIN_FILENO t = (int a, t1)"
    "sys_dup E STDOUT_FILENO t1 = (int (Suc a), t2)" "fd_get t2 = tty_fds (Suc (Suc a))"
    using dup_both [OF assms(1-3)] .
  have "fd_get t2 STDOUT_FILENO = Some Tty" using d(3) by (simp add: tty_fds_def)
  then show ?thesis
    using d(1,2) assms(4-6)
    by (auto simp: builtin_dispatch_def execBuiltInCommand_def redirection_none write_stdout_def)
qed

text \<open>C7: the exit built-in ends the shell. At the prompt, if the next line is
  a single node naming a built-in that returns status 0, three steps later (print
  the prompt and read the line, run the built-in, clean up) the loop has
  terminated.\<close>

theorem shell_exit_terminates:
  assumes "mode c = Prompt" "inp c = [p] # rest" "fd_get (fds c) = tty_fds a" "2 \<le> a"
    "Suc a < fd_limit E" "searchBuiltInCommand bs p \<noteq> -1" "in_file p = None" "out_file p = None"
    "snd (bi_run (bs ! nat (searchBuiltInCommand bs p)) (args p)) = 0"
  shows "mode (shell_run E bs 3 c) = Terminated"
proof -
  define w1 where "w1 = (wld c)\<lparr>tty_out := tty_out (wld c) @ ''>>> $ ''\<rparr>"
  have s1: "shell_step E bs c = c\<lparr>wld := w1, inp := rest, mode := Dispatch [p]\<rparr>"
    using assms(1-4) by (simp add: shell_step_def write_stdout_def tty_fds_def w1_def)
  obtain out where o: "bi_run (bs ! nat (searchBuiltInCommand bs p)) (args p) = (out, 0)"
    using assms(9) by (metis prod.collapse)
  obtain t' where "builtin_dispatch E bs (searchBuiltInCommand bs p) p (fds c) w1 =
      Ret t' (w1\<lparr>tty_out := tty_out w1 @ out\<rparr>) 0"
    using builtin_dispatch_plain [OF assms(3-5,7,8) o] by blast
  then have "mode (shell_step E bs (shell_step E bs c)) = Cleanup 0"
    using s1 assms(6) by (simp add: shell_step_def after_dispatch_def dispatch_def Let_def)
  then show ?thesis
    by (simp add: numeral_3_eq_3 shell_step_def)
qed

text \<open>C5: a built-in honours \<open>> f\<close> for its own invocation only. Its output
  goes to the file \<open>f\<close> (created or truncated), nothing reaches the terminal,
  and the shell gets back exactly the descriptors it had, so the next prompt
  reads and writes the terminal again.\<close>

theorem builtin_dispatch_redirected:
  assumes "fd_get t = tty_fds a" "2 \<le> a" "Suc (Suc a) < fd_limit E"
    and "in_file p = None" "out_file p = Some f" "f \<notin> set (unwritable E)"
    and "bi_run (bs ! nat idx) (args p) = (out, st)"
  shows "\<exists>t' w'. builtin_dispatch E bs idx p t w = Ret t' w' st \<and> fd_get t' = fd_get t \<and>
           files w' f = Some out \<and> tty_out w' = tty_out w \<and> nprocs w' = nprocs w"
proof -
  have lim: "Suc a < fd_limit E" using assms(3) by simp
  obtain t1 t2 where d: "sys_dup E STDIN_FILENO t = (int a, t1)"
    "sys_dup E STDOUT_FILENO t1 = (int (Suc a), t2)" "fd_get t2 = tty_fds (Suc (Suc a))"
    using dup_both [OF assms(1,2) lim] .
  have o2: "std_open t2" "alloc_fd t2 < fd_limit E"
    using d(3) assms(2,3) by (simp_all add: std_open_def tty_fds_def alloc_tty)
  obtain t3 where r: "redirect_out E p t2 w = Inr (t3, w\<lparr>files := (files w)(f \<mapsto> [])\<rparr>)"
    and f3: "fd_get t3 = (fd_get t2)(STDOUT_FILENO := Some (WrFile f))"
    using redirect_out_ok [where w = w, OF o2 assms(5,6)] by blast
  have "redirection E p t2 w = Inr (t3, w\<lparr>files := (files w)(f \<mapsto> [])\<rparr>)"
    using r assms(4) by (simp add: redirection_def redirect_in_none)
  moreover have "execBuiltInCommand E bs idx p t3 (w\<lparr>files := (files w)(f \<mapsto> [])\<rparr>) =
      Some (w\<lparr>files := (files w)(f \<mapsto> out)\<rparr>, False, st)"
    using assms(7) f3 by (simp add: execBuiltInCommand_def write_stdout_def)
  ultimately obtain t' where
    R: "builtin_dispatch E bs idx p t w = Ret t' (w\<lparr>files := (files w)(f \<mapsto> out)\<rparr>) st"
    using d(1,2) assms(5) by (simp add: builtin_dispatch_def)
  from builtin_dispatch_fds [OF assms(1,2) lim R] R assms(1) show ?thesis by auto
qed

text \<open>C10: end of input makes the shell spin. When \<open>read_line\<close> returns
  \<open>NULL\<close> the loop only continues, so once the input is exhausted every step
  prints the prompt again and the loop never reaches \<open>Terminated\<close>; the spec
  asks for end of input to end the shell.\<close>

theorem shell_eof_spins:
  assumes "mode c = Prompt" "inp c = []" "fd_get (fds c) STDOUT_FILENO = Some Tty"
  shows "shell_run E bs n c =
    c\<lparr>wld := (wld c)\<lparr>tty_out := tty_out (wld c) @ concat (replicate n ''>>> $ '')\<rparr>\<rparr>"
  using assms
proof (induction n arbitrary: c)
  case 0
  then show ?case by simp
next
  case (Suc n)
  let ?c1 = "c\<lparr>wld := (wld c)\<lparr>tty_out := tty_out (wld c) @ ''>>> $ ''\<rparr>\<rparr>"
  have "shell_step E bs c = ?c1"
    using Suc.prems by (simp add: shell_step_def write_stdout_def)
  moreover have "shell_run E bs n ?c1 =
      ?c1\<lparr>wld := (wld ?c1)\<lparr>tty_out := tty_out (wld ?c1) @ concat (replicate n ''>>> $ '')\<rparr>\<rparr>"
    using Suc.prems by (intro Suc.IH) simp_all
  ultimately show ?case by simp
qed

section \<open>Errors that end the shell\<close>

text \<open>C11: on the built-in path the Redirector runs in the shell's own process,
  so a built-in with \<open>< f\<close> for a missing file makes the shell itself print
  \<open>open\<close> and exit with \<open>EXIT_FAILURE\<close>; the spec asks for the command alone
  to fail.\<close>

theorem builtin_open_failure_exits_shell:
  assumes "mode c = Dispatch [p]" "searchBuiltInCommand bs p \<noteq> -1"
    and "in_file p = Some f" "files (wld c) f = None"
    and "fd_get (fds c) = tty_fds a" "2 \<le> a" "Suc a < fd_limit E"
  shows "shell_step E bs c = c\<lparr>wld := perror ''open'' (wld c), mode := Died EXIT_FAILURE\<rparr>"
proof -
  obtain t1 t2 where d: "sys_dup E STDIN_FILENO (fds c) = (int a, t1)"
    "sys_dup E STDOUT_FILENO t1 = (int (Suc a), t2)"
    using dup_both [OF assms(5-7)] .
  have "redirection E p t2 (wld c) = Inl (perror ''open'' (wld c), EXIT_FAILURE)"
    using redirect_in_fails [where w = "wld c" and E = E and t = t2, OF assms(3)] assms(4)
    by (simp add: redirection_def)
  then show ?thesis
    using assms(1,2) d by (simp add: shell_step_def after_dispatch_def dispatch_def builtin_dispatch_def)
qed

lemma fork_loop_resource:
  assumes "fd_limit E \<le> alloc_fd t \<or> proc_limit E \<le> nprocs w"
  shows "\<exists>w'. fork_loop E anc in_fd (c # d # rest) t w = ShExit w' EXIT_FAILURE"
proof (cases "sys_pipe E t w")
  case None
  then show ?thesis by simp
next
  case (Some x)
  then obtain rd wr t1 w1 where p: "sys_pipe E t w = Some (rd, wr, t1, w1)" by (cases x) auto
  have "nprocs w1 = nprocs w" "\<not> fd_limit E \<le> alloc_fd t"
    using p by (auto simp: sys_pipe_def Let_def split: if_splits)
  with p assms show ?thesis by simp
qed

text \<open>C12: when the descriptor table is full or the process limit is reached,
  \<open>fork_cmd_node\<close> calls \<open>exit(EXIT_FAILURE)\<close> in the shell itself, so a
  pipeline that cannot create its pipe or its first process ends the shell; the
  spec asks the loop to report the error and return to the prompt.\<close>

theorem pipeline_resource_failure_exits_shell:
  assumes "mode c = Dispatch (p # q # r)"
    and "fd_limit E \<le> alloc_fd (fds c) \<or> proc_limit E \<le> nprocs (wld c)"
  shows "mode (shell_step E bs c) = Died EXIT_FAILURE"
proof -
  obtain w' where "fork_loop E [] STDIN_FILENO (p # q # r) (fds c) (wld c) = ShExit w' EXIT_FAILURE"
    using fork_loop_resource [OF assms(2)] by blast
  then show ?thesis
    using assms(1) by (simp add: shell_step_def after_dispatch_def dispatch_def fork_cmd_node_def
        del: fork_loop.simps)
qed

end
