(* ===== verification/Scenarios.thy ===== *)
theory Scenarios
  imports Shell
begin

text \<open>
  Concrete programs, environments and worlds, and the witnesses that apply the
  properties of the Redirector, the Spawner and the Pipeline Executor at them.
\<close>

section \<open>Programs and the environment\<close>

fun join_args :: "string list \<Rightarrow> string" where
  "join_args [] = []"
| "join_args [x] = x"
| "join_args (x # xs) = x @ '' '' @ join_args xs"

definition echo_prog :: program where
  "echo_prog = \<lparr>reads_stdin = False, behaviour = (\<lambda>a s. (join_args (tl a) @ ''\<newline>'', 0))\<rparr>"

definition tr_prog :: program where
  "tr_prog = \<lparr>reads_stdin = True,
     behaviour = (\<lambda>a s. (map (\<lambda>ch. if ch = hd (a ! 1) then hd (a ! 2) else ch) s, 0))\<rparr>"

definition cat_prog :: program where
  "cat_prog = \<lparr>reads_stdin = True, behaviour = (\<lambda>a s. (s, 0))\<rparr>"

definition E0 :: env where
  "E0 = \<lparr>progs = [''echo'' \<mapsto> echo_prog, ''tr'' \<mapsto> tr_prog, ''cat'' \<mapsto> cat_prog],
         unwritable = [''/etc/passwd''], pipe_cap = 4096, fd_limit = 16, proc_limit = 8\<rparr>"

definition w0 :: world where
  "w0 = \<lparr>files = [''in.txt'' \<mapsto> ''hello''], tty_in = [], tty_out = [], errs = [], pipes = [], nprocs = 1\<rparr>"

definition t0 :: fdtab where
  "t0 = [Some Tty, Some Tty, Some Tty]"

definition node :: "string list \<Rightarrow> path option \<Rightarrow> path option \<Rightarrow> cmd_node" where
  "node a i ou = \<lparr>args = a, in_file = i, out_file = ou\<rparr>"

definition exit_bi :: builtin where
  "exit_bi = \<lparr>bi_name = ''exit'', bi_run = (\<lambda>a. ([], 0))\<rparr>"

definition pwd_bi :: builtin where
  "pwd_bi = \<lparr>bi_name = ''pwd'', bi_run = (\<lambda>a. (''/home\<newline>'', 1))\<rparr>"

definition B0 :: "builtin list" where
  "B0 = [exit_bi, pwd_bi]"

text \<open>A session: \<open>echo hi | tr h H\<close>, then \<open>pwd > out.txt\<close>, then \<open>exit\<close>.\<close>

definition C0 :: shell_cfg where
  "C0 = \<lparr>fds = t0, wld = w0,
         inp = [[node [''echo'', ''hi''] None None, node [''tr'', ''h'', ''H''] None None],
                [node [''pwd''] None (Some ''out.txt'')], [node [''exit''] None None]],
         mode = Prompt\<rparr>"

lemmas scenario_defs = E0_def w0_def t0_def node_def echo_prog_def tr_prog_def cat_prog_def
  exit_bi_def pwd_bi_def B0_def

lemmas eval_defs = fd_get_def fd_put_def alloc_fd_def perror_def sys_close_def sys_dup2_def sys_dup_def
  sys_open_rd_def sys_open_wr_def sys_pipe_def has_writer_def has_reader_def pipe_buf_def read_stdin_def
  write_stdout_def exec_lookup_def exec_prog_def redirect_in_def redirect_out_def redirection_def
  spawn_child_def spawn_proc_def pipe_child_def fork_cmd_node_def
  shell_step_def after_dispatch_def dispatch_def builtin_dispatch_def execBuiltInCommand_def
  searchBuiltInCommand_def

section \<open>Witnesses\<close>

theorem fork_cmd_node_correct_witness:
  "tty_table t0 \<and> length t0 + 2 < fd_limit E0 \<and> nprocs w0 + 2 \<le> proc_limit E0 \<and>
   plain_stages E0 [node [''echo'', ''hi''] None None, node [''tr'', ''h'', ''H''] None None] \<and>
   2 \<le> length [node [''echo'', ''hi''] None None, node [''tr'', ''h'', ''H''] None None] \<and>
   pipe_fits E0 [node [''echo'', ''hi''] None None, node [''tr'', ''h'', ''H''] None None] (tty_in w0) \<and>
   (\<exists>t' w'. fork_cmd_node E0 [] [node [''echo'', ''hi''] None None, node [''tr'', ''h'', ''H''] None None] t0 w0
       = Ret t' w' 1 \<and> fd_get t' = fd_get t0 \<and> tty_out w' = ''Hi\<newline>'' \<and> files w' = files w0 \<and>
       nprocs w' = nprocs w0)"
proof -
  have h: "tty_table t0" "length t0 + 2 < fd_limit E0" "nprocs w0 + 2 \<le> proc_limit E0"
    "plain_stages E0 [node [''echo'', ''hi''] None None, node [''tr'', ''h'', ''H''] None None]"
    "2 \<le> length [node [''echo'', ''hi''] None None, node [''tr'', ''h'', ''H''] None None]"
    "pipe_fits E0 [node [''echo'', ''hi''] None None, node [''tr'', ''h'', ''H''] None None] (tty_in w0)"
    by (simp_all add: scenario_defs tty_table_def plain_stages_def exec_lookup_def stage_out_def)
  show ?thesis
    using h fork_cmd_node_correct [OF h]
    by (simp add: scenario_defs stage_out_def exec_lookup_def)
qed

theorem fork_cmd_node_blocks_witness:
  "tty_table t0 \<and> length t0 + 2 < fd_limit (E0\<lparr>pipe_cap := 2\<rparr>) \<and>
   nprocs w0 + 2 \<le> proc_limit (E0\<lparr>pipe_cap := 2\<rparr>) \<and>
   plain_stages (E0\<lparr>pipe_cap := 2\<rparr>) [node [''echo'', ''hi''] None None, node [''tr'', ''h'', ''H''] None None] \<and>
   2 \<le> length [node [''echo'', ''hi''] None None, node [''tr'', ''h'', ''H''] None None] \<and>
   \<not> pipe_fits (E0\<lparr>pipe_cap := 2\<rparr>) [node [''echo'', ''hi''] None None, node [''tr'', ''h'', ''H''] None None]
       (tty_in w0) \<and>
   fork_cmd_node (E0\<lparr>pipe_cap := 2\<rparr>) [] [node [''echo'', ''hi''] None None, node [''tr'', ''h'', ''H''] None None]
     t0 w0 = Hang"
proof -
  have h: "tty_table t0" "length t0 + 2 < fd_limit (E0\<lparr>pipe_cap := 2\<rparr>)"
    "nprocs w0 + 2 \<le> proc_limit (E0\<lparr>pipe_cap := 2\<rparr>)"
    "plain_stages (E0\<lparr>pipe_cap := 2\<rparr>) [node [''echo'', ''hi''] None None, node [''tr'', ''h'', ''H''] None None]"
    "2 \<le> length [node [''echo'', ''hi''] None None, node [''tr'', ''h'', ''H''] None None]"
    "\<not> pipe_fits (E0\<lparr>pipe_cap := 2\<rparr>) [node [''echo'', ''hi''] None None, node [''tr'', ''h'', ''H''] None None]
       (tty_in w0)"
    by (simp_all add: scenario_defs tty_table_def plain_stages_def exec_lookup_def stage_out_def)
  show ?thesis using h fork_cmd_node_blocks [OF h] by simp
qed

theorem redirection_refines_witness:
  "std_open t0 \<and> alloc_fd t0 < fd_limit E0 \<and>
   redir_ok E0 (node [''cat''] (Some ''in.txt'') (Some ''out.txt'')) w0 \<and>
   (\<exists>t'. redirection E0 (node [''cat''] (Some ''in.txt'') (Some ''out.txt'')) t0 w0 =
           Inr (t', w0\<lparr>files := (files w0)(''out.txt'' \<mapsto> [])\<rparr>) \<and>
         fd_get t' 0 = Some (RdFile ''in.txt'') \<and> fd_get t' 1 = Some (WrFile ''out.txt'') \<and>
         fd_get t' 2 = Some Tty \<and> fd_get t' 3 = None)"
proof -
  have h: "std_open t0" "alloc_fd t0 < fd_limit E0"
    "redir_ok E0 (node [''cat''] (Some ''in.txt'') (Some ''out.txt'')) w0"
    by (simp_all add: scenario_defs std_open_def fd_get_def alloc_fd_def redir_ok_def)
  obtain t' where r: "redirection E0 (node [''cat''] (Some ''in.txt'') (Some ''out.txt'')) t0 w0 =
      Inr (t', redir_world (node [''cat''] (Some ''in.txt'') (Some ''out.txt'')) w0)"
    and f: "fd_get t' = redir_spec (node [''cat''] (Some ''in.txt'') (Some ''out.txt'')) (fd_get t0)"
    using redirection_refines [OF h] by blast
  have "fd_get t' 0 = Some (RdFile ''in.txt'')" "fd_get t' 1 = Some (WrFile ''out.txt'')"
    "fd_get t' 2 = Some Tty" "fd_get t' 3 = None"
    using fun_cong [OF f, of 0] fun_cong [OF f, of 1] fun_cong [OF f, of 2] fun_cong [OF f, of 3]
    by (simp_all add: redir_spec_def node_def t0_def fd_get_def)
  moreover have "redir_world (node [''cat''] (Some ''in.txt'') (Some ''out.txt'')) w0 =
      w0\<lparr>files := (files w0)(''out.txt'' \<mapsto> [])\<rparr>"
    by (simp add: redir_world_def node_def)
  ultimately show ?thesis using h r by auto
qed

theorem redirection_error_witness:
  "std_open t0 \<and> in_file (node [''cat''] (Some ''missing'') None) = Some ''missing'' \<and>
   \<not> (alloc_fd t0 < fd_limit E0 \<and> redir_ok E0 (node [''cat''] (Some ''missing'') None) w0) \<and>
   redirection E0 (node [''cat''] (Some ''missing'') None) t0 w0 = Inl (perror ''open'' w0, EXIT_FAILURE)"
proof -
  have h: "std_open t0" "in_file (node [''cat''] (Some ''missing'') None) \<noteq> None \<or>
                    out_file (node [''cat''] (Some ''missing'') None) \<noteq> None"
    "\<not> (alloc_fd t0 < fd_limit E0 \<and> redir_ok E0 (node [''cat''] (Some ''missing'') None) w0)"
    by (simp_all add: scenario_defs std_open_def fd_get_def redir_ok_def)
  show ?thesis using h redirection_error [OF h] by (simp add: node_def)
qed

theorem spawn_proc_tty_witness:
  "nprocs w0 < proc_limit E0 \<and> fd_get t0 STDIN_FILENO = Some Tty \<and> fd_get t0 STDOUT_FILENO = Some Tty \<and>
   in_file (node [''echo'', ''hi''] None None) = None \<and> out_file (node [''echo'', ''hi''] None None) = None \<and>
   exec_lookup E0 (args (node [''echo'', ''hi''] None None)) = Some echo_prog \<and>
   spawn_proc E0 [] t0 (node [''echo'', ''hi''] None None) w0 = Some (w0\<lparr>tty_out := ''hi\<newline>''\<rparr>, 1)"
proof -
  have h: "nprocs w0 < proc_limit E0" "fd_get t0 STDIN_FILENO = Some Tty" "fd_get t0 STDOUT_FILENO = Some Tty"
    "in_file (node [''echo'', ''hi''] None None) = None" "out_file (node [''echo'', ''hi''] None None) = None"
    "exec_lookup E0 (args (node [''echo'', ''hi''] None None)) = Some echo_prog"
    by (simp_all add: scenario_defs fd_get_def exec_lookup_def)
  show ?thesis using h spawn_proc_tty [OF h] by (simp add: scenario_defs)
qed

theorem redirect_roundtrip_witness:
  "nprocs w0 < proc_limit E0 \<and> alloc_fd t0 < fd_limit E0 \<and>
   fd_get t0 STDIN_FILENO = Some Tty \<and> fd_get t0 STDOUT_FILENO = Some Tty \<and>
   in_file (node [''echo'', ''hi''] None (Some ''out.txt'')) = None \<and>
   out_file (node [''echo'', ''hi''] None (Some ''out.txt'')) = Some ''out.txt'' \<and>
   ''out.txt'' \<notin> set (unwritable E0) \<and>
   exec_lookup E0 (args (node [''echo'', ''hi''] None (Some ''out.txt''))) = Some echo_prog \<and>
   progs E0 ''cat'' = Some cat_prog \<and> reads_stdin cat_prog \<and> (\<forall>a s. behaviour cat_prog a s = (s, 0)) \<and>
   spawn_proc E0 [] t0 (node [''echo'', ''hi''] None (Some ''out.txt'')) w0 =
     Some (w0\<lparr>files := (files w0)(''out.txt'' \<mapsto> ''hi\<newline>'')\<rparr>, 1) \<and>
   (\<exists>w2. spawn_proc E0 [] t0 \<lparr>args = [''cat''], in_file = Some ''out.txt'', out_file = None\<rparr>
           (w0\<lparr>files := (files w0)(''out.txt'' \<mapsto> ''hi\<newline>'')\<rparr>) = Some (w2, 1) \<and>
         tty_out w2 = ''hi\<newline>'')"
proof -
  have run1: "spawn_proc E0 [] t0 (node [''echo'', ''hi''] None (Some ''out.txt'')) w0 =
     Some (w0\<lparr>files := (files w0)(''out.txt'' \<mapsto> ''hi\<newline>'')\<rparr>, 1)"
    by (simp add: spawn_proc_def spawn_child_def redirection_def redirect_in_def redirect_out_def
        sys_open_wr_def alloc_fd_def fd_put_def sys_dup2_def sys_close_def fd_get_def
        exec_lookup_def exec_prog_def write_stdout_def scenario_defs)
  have h: "nprocs w0 < proc_limit E0" "alloc_fd t0 < fd_limit E0"
    "fd_get t0 STDIN_FILENO = Some Tty" "fd_get t0 STDOUT_FILENO = Some Tty"
    "in_file (node [''echo'', ''hi''] None (Some ''out.txt'')) = None"
    "out_file (node [''echo'', ''hi''] None (Some ''out.txt'')) = Some ''out.txt''"
    "''out.txt'' \<notin> set (unwritable E0)"
    "exec_lookup E0 (args (node [''echo'', ''hi''] None (Some ''out.txt''))) = Some echo_prog"
    "progs E0 ''cat'' = Some cat_prog" "reads_stdin cat_prog" "\<forall>a s. behaviour cat_prog a s = (s, 0)"
    by (simp_all add: scenario_defs alloc_fd_def fd_get_def exec_lookup_def)
  show ?thesis
    using h run1 redirect_roundtrip [OF h run1] by (simp add: scenario_defs)
qed

section \<open>Witnesses for the Shell Loop\<close>

lemma session_6:
  "shell_run E0 B0 6 C0 =
     \<lparr>fds = [Some Tty, Some Tty, Some Tty, None, None, None],
      wld = \<lparr>files = [''in.txt'' \<mapsto> ''hello'', ''out.txt'' \<mapsto> ''/home\<newline>''],
             tty_in = [], tty_out = ''>>> $ Hi\<newline>>>> $ '', errs = [], pipes = [[]], nprocs = 1\<rparr>,
      inp = [[node [''exit''] None None]], mode = Prompt\<rparr>"
  by (simp add: numeral_eq_Suc eval_defs scenario_defs C0_def Let_def)

lemma session_split: "shell_run E0 B0 9 C0 = shell_run E0 B0 3 (shell_run E0 B0 6 C0)"
  using shell_run_add [of E0 B0 6 3 C0] by simp

lemma session_9: "mode (shell_run E0 B0 9 C0) = Terminated"
  unfolding session_split session_6
  by (simp add: numeral_eq_Suc eval_defs scenario_defs Let_def)

lemma t0_tty: "fd_get t0 = tty_fds 3"
  using tty_table_fds [of t0] by (simp add: t0_def tty_table_def numeral_3_eq_3)

theorem shell_no_leak_witness:
  "shell_reach E0 B0 C0 (shell_run E0 B0 6 C0) \<and> fd_get (fds C0) = tty_fds 3 \<and> 2 \<le> (3::nat) \<and>
   Suc 3 < fd_limit E0 \<and> live_mode (mode (shell_run E0 B0 6 C0)) \<and>
   fd_get (fds (shell_run E0 B0 6 C0)) = tty_fds 3 \<and>
   nprocs (wld (shell_run E0 B0 6 C0)) = nprocs (wld C0)"
proof -
  have h: "shell_reach E0 B0 C0 (shell_run E0 B0 6 C0)" "fd_get (fds C0) = tty_fds 3" "2 \<le> (3::nat)"
    "Suc 3 < fd_limit E0" "live_mode (mode (shell_run E0 B0 6 C0))"
    by (rule shell_reach_run [OF shell_reach.refl], simp add: C0_def t0_tty, simp, simp add: E0_def,
        simp only: session_6 shell_cfg.simps live_mode.simps)
  show ?thesis using h shell_no_leak [OF h] by simp
qed

theorem shell_exit_needs_builtin_witness:
  "shell_reach E0 B0 C0 (shell_run E0 B0 9 C0) \<and> mode (shell_run E0 B0 9 C0) = Terminated \<and>
   mode C0 \<noteq> Terminated \<and> mode C0 \<noteq> Cleanup 0 \<and> (\<exists>b\<in>set B0. \<exists>x. snd (bi_run b x) = 0)"
proof -
  have h: "shell_reach E0 B0 C0 (shell_run E0 B0 9 C0)" "mode (shell_run E0 B0 9 C0) = Terminated"
    "mode C0 \<noteq> Terminated" "mode C0 \<noteq> Cleanup 0"
    by (rule shell_reach_run [OF shell_reach.refl], rule session_9, simp_all add: C0_def)
  show ?thesis using h shell_exit_needs_builtin [OF h] by simp
qed

theorem shell_exit_terminates_witness:
  "mode (C0\<lparr>inp := [[node [''exit''] None None]]\<rparr>) = Prompt \<and>
   inp (C0\<lparr>inp := [[node [''exit''] None None]]\<rparr>) = [node [''exit''] None None] # [] \<and>
   fd_get (fds (C0\<lparr>inp := [[node [''exit''] None None]]\<rparr>)) = tty_fds 3 \<and> 2 \<le> (3::nat) \<and>
   Suc 3 < fd_limit E0 \<and> searchBuiltInCommand B0 (node [''exit''] None None) \<noteq> -1 \<and>
   in_file (node [''exit''] None None) = None \<and> out_file (node [''exit''] None None) = None \<and>
   snd (bi_run (B0 ! nat (searchBuiltInCommand B0 (node [''exit''] None None))) (args (node [''exit''] None None))) = 0 \<and>
   mode (shell_run E0 B0 3 (C0\<lparr>inp := [[node [''exit''] None None]]\<rparr>)) = Terminated"
proof -
  have h: "mode (C0\<lparr>inp := [[node [''exit''] None None]]\<rparr>) = Prompt"
    "inp (C0\<lparr>inp := [[node [''exit''] None None]]\<rparr>) = [node [''exit''] None None] # []"
    "fd_get (fds (C0\<lparr>inp := [[node [''exit''] None None]]\<rparr>)) = tty_fds 3" "2 \<le> (3::nat)"
    "Suc 3 < fd_limit E0" "searchBuiltInCommand B0 (node [''exit''] None None) \<noteq> -1"
    "in_file (node [''exit''] None None) = None" "out_file (node [''exit''] None None) = None"
    "snd (bi_run (B0 ! nat (searchBuiltInCommand B0 (node [''exit''] None None))) (args (node [''exit''] None None))) = 0"
    by (simp_all add: C0_def t0_tty E0_def searchBuiltInCommand_def scenario_defs del: t0_def)
  show ?thesis using h shell_exit_terminates [OF h] by simp
qed

theorem builtin_dispatch_redirected_witness:
  "fd_get t0 = tty_fds 3 \<and> 2 \<le> (3::nat) \<and> Suc (Suc 3) < fd_limit E0 \<and>
   in_file (node [''pwd''] None (Some ''out.txt'')) = None \<and>
   out_file (node [''pwd''] None (Some ''out.txt'')) = Some ''out.txt'' \<and> ''out.txt'' \<notin> set (unwritable E0) \<and>
   bi_run (B0 ! nat 1) (args (node [''pwd''] None (Some ''out.txt''))) = (''/home\<newline>'', 1) \<and>
   (\<exists>t' w'. builtin_dispatch E0 B0 1 (node [''pwd''] None (Some ''out.txt'')) t0 w0 = Ret t' w' 1 \<and>
      fd_get t' = fd_get t0 \<and> files w' ''out.txt'' = Some ''/home\<newline>'' \<and> tty_out w' = tty_out w0 \<and>
      nprocs w' = nprocs w0)"
proof -
  have h: "fd_get t0 = tty_fds 3" "2 \<le> (3::nat)" "Suc (Suc 3) < fd_limit E0"
    "in_file (node [''pwd''] None (Some ''out.txt'')) = None"
    "out_file (node [''pwd''] None (Some ''out.txt'')) = Some ''out.txt''" "''out.txt'' \<notin> set (unwritable E0)"
    "bi_run (B0 ! nat 1) (args (node [''pwd''] None (Some ''out.txt''))) = (''/home\<newline>'', 1)"
    by (simp_all add: t0_tty scenario_defs del: t0_def)
  show ?thesis using h builtin_dispatch_redirected [OF h] by simp
qed

theorem shell_eof_spins_witness:
  "mode (C0\<lparr>inp := []\<rparr>) = Prompt \<and> inp (C0\<lparr>inp := []\<rparr>) = [] \<and>
   fd_get (fds (C0\<lparr>inp := []\<rparr>)) STDOUT_FILENO = Some Tty \<and>
   tty_out (wld (shell_run E0 B0 2 (C0\<lparr>inp := []\<rparr>))) = ''>>> $ >>> $ '' \<and>
   mode (shell_run E0 B0 2 (C0\<lparr>inp := []\<rparr>)) = Prompt"
proof -
  have h: "mode (C0\<lparr>inp := []\<rparr>) = Prompt" "inp (C0\<lparr>inp := []\<rparr>) = []"
    "fd_get (fds (C0\<lparr>inp := []\<rparr>)) STDOUT_FILENO = Some Tty"
    by (simp_all add: C0_def t0_tty tty_fds_def)
  show ?thesis using h shell_eof_spins [OF h, of E0 B0 2] by (simp add: C0_def w0_def numeral_2_eq_2)
qed

theorem builtin_open_failure_exits_shell_witness:
  "mode (C0\<lparr>mode := Dispatch [node [''pwd''] (Some ''missing'') None]\<rparr>) = Dispatch [node [''pwd''] (Some ''missing'') None] \<and>
   searchBuiltInCommand B0 (node [''pwd''] (Some ''missing'') None) \<noteq> -1 \<and>
   in_file (node [''pwd''] (Some ''missing'') None) = Some ''missing'' \<and>
   files (wld (C0\<lparr>mode := Dispatch [node [''pwd''] (Some ''missing'') None]\<rparr>)) ''missing'' = None \<and>
   fd_get (fds (C0\<lparr>mode := Dispatch [node [''pwd''] (Some ''missing'') None]\<rparr>)) = tty_fds 3 \<and>
   2 \<le> (3::nat) \<and> Suc 3 < fd_limit E0 \<and>
   mode (shell_step E0 B0 (C0\<lparr>mode := Dispatch [node [''pwd''] (Some ''missing'') None]\<rparr>)) = Died EXIT_FAILURE"
proof -
  have h: "mode (C0\<lparr>mode := Dispatch [node [''pwd''] (Some ''missing'') None]\<rparr>) = Dispatch [node [''pwd''] (Some ''missing'') None]"
    "searchBuiltInCommand B0 (node [''pwd''] (Some ''missing'') None) \<noteq> -1"
    "in_file (node [''pwd''] (Some ''missing'') None) = Some ''missing''"
    "files (wld (C0\<lparr>mode := Dispatch [node [''pwd''] (Some ''missing'') None]\<rparr>)) ''missing'' = None"
    "fd_get (fds (C0\<lparr>mode := Dispatch [node [''pwd''] (Some ''missing'') None]\<rparr>)) = tty_fds 3"
    "2 \<le> (3::nat)" "Suc 3 < fd_limit E0"
    by (simp_all add: C0_def t0_tty searchBuiltInCommand_def scenario_defs del: t0_def)
  show ?thesis using h builtin_open_failure_exits_shell [OF h] by simp
qed

theorem pipeline_resource_failure_exits_shell_witness:
  "mode (C0\<lparr>wld := w0\<lparr>nprocs := 8\<rparr>, mode := Dispatch [node [''echo'', ''hi''] None None, node [''tr'', ''h'', ''H''] None None]\<rparr>) =
     Dispatch [node [''echo'', ''hi''] None None, node [''tr'', ''h'', ''H''] None None] \<and>
   (fd_limit E0 \<le> alloc_fd t0 \<or> proc_limit E0 \<le> nprocs (w0\<lparr>nprocs := 8\<rparr>)) \<and>
   mode (shell_step E0 B0 (C0\<lparr>wld := w0\<lparr>nprocs := 8\<rparr>,
     mode := Dispatch [node [''echo'', ''hi''] None None, node [''tr'', ''h'', ''H''] None None]\<rparr>)) = Died EXIT_FAILURE"
proof -
  have h: "mode (C0\<lparr>wld := w0\<lparr>nprocs := 8\<rparr>, mode := Dispatch [node [''echo'', ''hi''] None None, node [''tr'', ''h'', ''H''] None None]\<rparr>) =
     Dispatch (node [''echo'', ''hi''] None None # node [''tr'', ''h'', ''H''] None None # [])"
    "fd_limit E0 \<le> alloc_fd (fds (C0\<lparr>wld := w0\<lparr>nprocs := 8\<rparr>, mode := Dispatch [node [''echo'', ''hi''] None None, node [''tr'', ''h'', ''H''] None None]\<rparr>)) \<or>
     proc_limit E0 \<le> nprocs (wld (C0\<lparr>wld := w0\<lparr>nprocs := 8\<rparr>, mode := Dispatch [node [''echo'', ''hi''] None None, node [''tr'', ''h'', ''H''] None None]\<rparr>))"
    by (simp_all add: E0_def)
  show ?thesis using h pipeline_resource_failure_exits_shell [OF h] by (simp add: E0_def)
qed

theorem fork_cmd_node_no_leak_witness:
  "tty_table t0 \<and>
   (\<exists>t' w'. fork_cmd_node E0 [] [node [''nosuch''] None None, node [''cat''] None (Some ''o.txt'')] t0 w0 = Ret t' w' 1 \<and>
      fd_get t' = fd_get t0 \<and> nprocs w' = nprocs w0)"
proof -
  have t: "tty_table t0" by (simp add: t0_def tty_table_def)
  obtain t' w' st where
    r: "fork_cmd_node E0 [] [node [''nosuch''] None None, node [''cat''] None (Some ''o.txt'')] t0 w0 = Ret t' w' st"
    by (simp add: eval_defs scenario_defs Let_def)
  show ?thesis using t r fork_cmd_node_no_leak [OF t r] by auto
qed

theorem redirection_closed_stdout_witness:
  "in_file (node [''ls''] None (Some ''f'')) = None \<and> out_file (node [''ls''] None (Some ''f'')) = Some ''f'' \<and>
   ''f'' \<notin> set (unwritable E0) \<and> fd_get [Some Tty, None, Some Tty] STDIN_FILENO \<noteq> None \<and>
   fd_get [Some Tty, None, Some Tty] STDOUT_FILENO = None \<and> 1 < fd_limit E0 \<and>
   (\<exists>t'. redirection E0 (node [''ls''] None (Some ''f'')) [Some Tty, None, Some Tty] w0 =
      Inr (t', w0\<lparr>files := (files w0)(''f'' \<mapsto> [])\<rparr>) \<and> fd_get t' STDOUT_FILENO = None)"
proof -
  have h: "in_file (node [''ls''] None (Some ''f'')) = None" "out_file (node [''ls''] None (Some ''f'')) = Some ''f''"
    "''f'' \<notin> set (unwritable E0)" "fd_get [Some Tty, None, Some Tty] STDIN_FILENO \<noteq> None"
    "fd_get [Some Tty, None, Some Tty] STDOUT_FILENO = None" "1 < fd_limit E0"
    by (simp_all add: node_def E0_def fd_get_def)
  show ?thesis using h redirection_closed_stdout [OF h, of w0] by blast
qed

end
