(* ===== verification/Ipc.thy ===== *)
theory Ipc
  imports Prelude
begin

text \<open>
  The data of the lab 1 IPC demo (\<open>src/lab1/receiver.h\<close>, \<open>src/sender.c\<close>,
  \<open>src/lab1/receiver.c\<close>): the \<open>mailbox_t\<close> with its union of a message-queue
  descriptor and a shared-memory address, the message buffer, \<open>send\<close> and
  \<open>receive\<close> on the two transports, the set-up and clean-up code of both
  programs against the kernel's IPC name spaces, and \<open>fgets\<close> cutting the input
  file into messages.

  The union is 8 bytes on LP64 Linux: \<open>storage\<close> is a \<open>64 word\<close>, writing
  \<open>mqd\<close> (a 32-bit \<open>int\<close>) replaces its low 32 bits (little-endian) and leaves the
  others, reading \<open>mqd\<close> reads them back as a signed value, and writing
  \<open>shm_addr\<close> replaces all 64 bits.
\<close>

unbundle bit_operations_syntax

section \<open>Mailbox, message and the union\<close>

record mailbox_t =
  flag :: int
  storage :: "64 word"

record message_t =
  msg_text :: string  \<comment> \<open>the C field \<open>text\<close>\<close>

definition set_mqd :: "int \<Rightarrow> 64 word \<Rightarrow> 64 word" where
  "set_mqd v s = (s AND NOT (mask 32)) OR ucast (word_of_int v :: 32 word)"

definition get_mqd :: "64 word \<Rightarrow> int" where
  "get_mqd s = sint (ucast s :: 32 word)"

definition set_shm_addr :: "64 word \<Rightarrow> 64 word \<Rightarrow> 64 word" where
  "set_shm_addr a s = a"

section \<open>The two transports\<close>

text \<open>
  \<open>mq\<close> is the queue \<open>/mymq\<close> (at most \<open>mq_maxmsg = 10\<close> messages; \<open>mq_send\<close> on
  a full queue blocks, \<open>mq_receive\<close> on an empty one blocks: \<open>None\<close>), \<open>shm\<close>
  the string in the shared segment (\<open>strcpy\<close> copies up to the terminating
  NUL). A message is its text up to the NUL.
\<close>

record chan =
  mq :: "string list"
  shm :: string

definition mq_maxmsg :: nat where
  "mq_maxmsg = 10"

definition send :: "message_t \<Rightarrow> mailbox_t \<Rightarrow> chan \<Rightarrow> chan option" where
  "send message mb ch =
     (if flag mb = 1 then
        (if length (mq ch) < mq_maxmsg then Some (ch\<lparr>mq := mq ch @ [msg_text message]\<rparr>) else None)
      else if flag mb = 2 then Some (ch\<lparr>shm := msg_text message\<rparr>)
      else Some ch)"

text \<open>With a flag other than 1 or 2 \<open>receive\<close> leaves the buffer as it was.\<close>

definition receive :: "message_t \<Rightarrow> mailbox_t \<Rightarrow> chan \<Rightarrow> (message_t \<times> chan) option" where
  "receive message mb ch =
     (if flag mb = 1 then
        (case mq ch of [] \<Rightarrow> None | m # ms \<Rightarrow> Some (message\<lparr>msg_text := m\<rparr>, ch\<lparr>mq := ms\<rparr>))
      else if flag mb = 2 then Some (message\<lparr>msg_text := shm ch\<rparr>, ch)
      else Some (message, ch))"

section \<open>Set-up and clean-up against the kernel\<close>

text \<open>
  The kernel's name spaces: message queues by name, shared segments by id,
  named semaphores. What \<open>mq_open\<close>, \<open>shmget\<close> and \<open>shmat\<close> return is chosen by
  the kernel: the record \<open>os_answers\<close> (\<open>-1\<close> for failure), with \<open>junk\<close> the
  uninitialised bytes of the local \<open>mailbox\<close>.
\<close>

record ipc_kernel =
  mqueues :: "string list"
  segments :: "int list"
  sems :: "string list"

record os_answers =
  mq_ret :: int
  shm_ret :: int
  shm_at :: "64 word"
  junk :: "64 word"

definition add_name :: "'a \<Rightarrow> 'a list \<Rightarrow> 'a list" where
  "add_name x xs = (if x \<in> set xs then xs else xs @ [x])"

definition sem_open_both :: "ipc_kernel \<Rightarrow> ipc_kernel" where
  "sem_open_both k = k\<lparr>sems := add_name ''sem_receiver'' (add_name ''sem_sender'' (sems k))\<rparr>"

text \<open>Lines 18--45 of both programs (they differ only in \<open>O_WRONLY\<close> and
  \<open>O_RDONLY\<close>): \<open>Inl\<close> is \<open>return 1\<close> after \<open>perror\<close>.\<close>

definition mailbox_setup :: "int \<Rightarrow> os_answers \<Rightarrow> ipc_kernel \<Rightarrow> (int \<times> ipc_kernel) + (mailbox_t \<times> ipc_kernel)" where
  "mailbox_setup fl os k0 =
     (let k = sem_open_both k0; mb = \<lparr>flag = fl, storage = junk os\<rparr> in
      if fl = 1 then
        (let mb1 = mb\<lparr>storage := set_mqd (mq_ret os) (storage mb)\<rparr> in
         if get_mqd (storage mb1) = -1 then Inl (1, k)
         else Inr (mb1, k\<lparr>mqueues := add_name ''/mymq'' (mqueues k)\<rparr>))
      else if fl = 2 then
        (let mb1 = mb\<lparr>storage := set_mqd (shm_ret os) (storage mb)\<rparr> in
         if get_mqd (storage mb1) = -1 then Inl (1, k)
         else Inr (mb1\<lparr>storage := set_shm_addr (shm_at os) (storage mb1)\<rparr>,
                   k\<lparr>segments := add_name (shm_ret os) (segments k)\<rparr>))
      else Inr (mb, k))"

text \<open>Lines 76--87 of the sender, 66--76 of the receiver: \<open>mq_unlink\<close> and
  \<open>shmctl(IPC_RMID)\<close> remove the named object if it exists, \<open>sem_unlink\<close> the
  two semaphores.\<close>

definition mailbox_cleanup :: "mailbox_t \<Rightarrow> ipc_kernel \<Rightarrow> ipc_kernel" where
  "mailbox_cleanup mb k =
     (let k1 = (if flag mb = 1 then k\<lparr>mqueues := removeAll ''/my_mq'' (mqueues k)\<rparr>
                else if flag mb = 2 then k\<lparr>segments := removeAll (get_mqd (storage mb)) (segments k)\<rparr>
                else k)
      in k1\<lparr>sems := removeAll ''sem_receiver'' (removeAll ''sem_sender'' (sems k1))\<rparr>)"

section \<open>Reading the input file\<close>

text \<open>\<open>fgets(buf, n, fp)\<close> reads at most \<open>n - 1\<close> characters and stops after a
  newline; at end of file with nothing read it returns \<open>NULL\<close>.\<close>

fun take_line :: "nat \<Rightarrow> string \<Rightarrow> string \<times> string" where
  "take_line 0 s = ([], s)"
| "take_line (Suc m) [] = ([], [])"
| "take_line (Suc m) (c # cs) =
     (if c = CHR ''\<newline>'' then ([c], cs) else (case take_line m cs of (a, b) \<Rightarrow> (c # a, b)))"

definition fgets :: "nat \<Rightarrow> string \<Rightarrow> (string \<times> string) option" where
  "fgets n s = (if s = [] then None else Some (take_line (n - 1) s))"

text \<open>The messages the sender's loop (sender.c line 56) takes from a file:
  \<open>fgets\<close> on the 100-byte \<open>message.text\<close> until it returns \<open>NULL\<close>.\<close>

function fgets_chunks :: "string \<Rightarrow> string list" where
  "fgets_chunks s =
     (case fgets 100 s of None \<Rightarrow> [] | Some (c, r) \<Rightarrow> c # fgets_chunks r)"
  by pat_completeness auto
termination
proof (relation "measure length")
  have le: "length (snd (take_line n s)) \<le> length s" for n s
    by (induction n s rule: take_line.induct) (auto split: prod.splits)
  fix s x c r
  assume a: "fgets 100 s = Some x" "(c, r) = x"
  have r: "r = snd x" using a(2) by auto
  from a(1) have x: "x = take_line 99 s" and ne: "s \<noteq> []" by (auto simp: fgets_def split: if_splits)
  from ne obtain y ys where s: "s = y # ys" by (cases s) auto
  show "(r, s) \<in> measure length"
    using le [of 98 ys] unfolding r x s by (auto simp: numeral_eq_Suc split: prod.splits)
qed simp

text \<open>\<open>fopen\<close> of the input file (sender.c, lines 47--53): \<open>None\<close> is
  \<open>perror("fopen")\<close> and \<open>return 1\<close>, reached after the mailbox was set up.\<close>

definition sender_input :: "(path \<rightharpoonup> string) \<Rightarrow> path \<Rightarrow> string list option" where
  "sender_input fs p = (case fs p of None \<Rightarrow> None | Some s \<Rightarrow> Some (fgets_chunks s))"

declare fgets_chunks.simps [simp del]

section \<open>Properties of \<open>fgets\<close>\<close>

lemma take_line_append: "fst (take_line n s) @ snd (take_line n s) = s"
  by (induction n s rule: take_line.induct) (auto split: prod.splits)

section \<open>The union\<close>

lemma get_set_mqd_bits: "(ucast (set_mqd v s) :: 32 word) = word_of_int v"
  unfolding set_mqd_def by (rule bit_word_eqI) (auto simp: bit_simps)

lemma get_set_mqd:
  "- (2 ^ 31) \<le> v \<Longrightarrow> v < 2 ^ 31 \<Longrightarrow> get_mqd (set_mqd v s) = v"
  by (simp add: get_mqd_def get_set_mqd_bits sint_sbintrunc' signed_take_bit_int_eq_self)

section \<open>Set-up and clean-up\<close>

text \<open>C23: the set-up's test sees the descriptor through the union. For every
  answer of \<open>mq_open\<close> (a C \<open>int\<close>), written into \<open>storage.mqd\<close> over whatever
  uninitialised bytes the mailbox held, the set-up succeeds exactly when the
  answer is not \<open>-1\<close>, and then \<open>storage.mqd\<close> reads back that descriptor and
  \<open>/mymq\<close> exists.\<close>

theorem mailbox_setup_mq:
  assumes "- (2 ^ 31) \<le> mq_ret os" "mq_ret os < 2 ^ 31"
  shows "(\<exists>mb k1. mailbox_setup 1 os k0 = Inr (mb, k1) \<and> flag mb = 1 \<and>
            get_mqd (storage mb) = mq_ret os \<and> ''/mymq'' \<in> set (mqueues k1)) \<longleftrightarrow>
         mq_ret os \<noteq> -1"
  using assms by (simp add: mailbox_setup_def Let_def get_set_mqd add_name_def)

lemma mailbox_setup_shm:
  assumes "mailbox_setup 2 os k0 = Inr (mb, k1)"
  shows "storage mb = shm_at os \<and> flag mb = 2 \<and> shm_ret os \<in> set (segments k1)"
  using assms by (auto simp: mailbox_setup_def Let_def set_shm_addr_def add_name_def split: if_splits)

text \<open>C21: the shared segment is not removed. After line 44 the union holds the
  attach address, so \<open>shmctl(mailbox.storage.mqd, IPC_RMID)\<close> at clean-up gets
  the low 32 bits of the address instead of the segment id: the segment
  survives the clean-up exactly when those bits differ from its id.\<close>

theorem shm_cleanup_wrong_id:
  assumes "mailbox_setup 2 os k0 = Inr (mb, k1)"
  shows "shm_ret os \<in> set (segments (mailbox_cleanup mb k1)) \<longleftrightarrow>
         shm_ret os \<noteq> sint (ucast (shm_at os) :: 32 word)"
  using mailbox_setup_shm [OF assms] by (auto simp: mailbox_cleanup_def get_mqd_def)

text \<open>C22: the message queue is never removed. Both programs open
  \<open>"/mymq"\<close> and unlink \<open>"/my_mq"\<close>, so after the sender's and the receiver's
  set-up and clean-up the queue still exists, while both semaphores are
  gone.\<close>

theorem mq_cleanup_leaks:
  assumes "mailbox_setup 1 osS k0 = Inr (mbS, k1)" "mailbox_setup 1 osR k1 = Inr (mbR, k2)"
  shows "''/mymq'' \<in> set (mqueues (mailbox_cleanup mbR (mailbox_cleanup mbS k2))) \<and>
         ''sem_sender'' \<notin> set (sems (mailbox_cleanup mbR (mailbox_cleanup mbS k2))) \<and>
         ''sem_receiver'' \<notin> set (sems (mailbox_cleanup mbR (mailbox_cleanup mbS k2)))"
  using assms by (auto simp: mailbox_setup_def mailbox_cleanup_def sem_open_both_def add_name_def
      Let_def split: if_splits)

text \<open>C24: a failing \<open>mq_open\<close> or \<open>shmget\<close> makes the program return 1 after
  the two named semaphores were created; nothing unlinks them on this path.\<close>

theorem mailbox_setup_error:
  assumes "fl = 1 \<and> mq_ret os = -1 \<or> fl = 2 \<and> shm_ret os = -1"
  shows "mailbox_setup fl os k0 = Inl (1, sem_open_both k0) \<and>
         ''sem_sender'' \<in> set (sems (sem_open_both k0)) \<and> ''sem_receiver'' \<in> set (sems (sem_open_both k0))"
  using assms by (auto simp: mailbox_setup_def Let_def get_set_mqd sem_open_both_def add_name_def)

section \<open>Cutting the file into messages\<close>

lemma fgets_chunks_Some: "fgets 100 s = Some (c, r) \<Longrightarrow> fgets_chunks s = c # fgets_chunks r"
  by (simp add: fgets_chunks.simps)

lemma fgets_chunks_None: "fgets 100 s = None \<Longrightarrow> fgets_chunks s = []"
  by (simp add: fgets_chunks.simps)

lemma take_line_bound: "length (fst (take_line n s)) \<le> n"
  by (induction n s rule: take_line.induct) (auto split: prod.splits)

lemma take_line_nonempty: "0 < n \<Longrightarrow> s \<noteq> [] \<Longrightarrow> fst (take_line n s) \<noteq> []"
  by (cases n; cases s) (auto split: prod.splits)

lemma take_line_cut:
  "snd (take_line n s) \<noteq> [] \<Longrightarrow>
   length (fst (take_line n s)) = n \<or> (fst (take_line n s) \<noteq> [] \<and> last (fst (take_line n s)) = CHR ''\<newline>'')"
  by (induction n s rule: take_line.induct) (auto split: prod.splits)

lemma fgets_chunk:
  assumes "fgets 100 s = Some (c, r)"
  shows "s = c @ r \<and> c \<noteq> [] \<and> length c \<le> 99 \<and>
    (r \<noteq> [] \<longrightarrow> length c = 99 \<or> last c = CHR ''\<newline>'')"
proof -
  have c: "c = fst (take_line 99 s)" "r = snd (take_line 99 s)" "s \<noteq> []"
    using assms by (auto simp: fgets_def split: if_splits)
  show ?thesis
    using take_line_append [of 99 s] take_line_bound [of 99 s] take_line_nonempty [of 99 s]
      take_line_cut [of 99 s] c(3) unfolding c(1,2) by auto
qed

lemma fgets_chunks_concat: "concat (fgets_chunks s) = s"
proof (induction s rule: fgets_chunks.induct)
  case (1 s)
  show ?case
  proof (cases "fgets 100 s")
    case None
    then show ?thesis by (simp add: fgets_chunks_None fgets_def split: if_splits)
  next
    case (Some x)
    then obtain c r where cr: "fgets 100 s = Some (c, r)" by (cases x) auto
    with "1.IH" [OF cr refl] fgets_chunk [OF cr] show ?thesis by (simp add: fgets_chunks_Some)
  qed
qed

lemma fgets_chunks_exit:
  "''EXIT'' \<in> set (fgets_chunks s) \<Longrightarrow>
   \<exists>pre. fgets_chunks s = pre @ [''EXIT''] \<and> ''EXIT'' \<notin> set pre \<and> (\<exists>p. s = p @ ''EXIT'')"
proof (induction s rule: fgets_chunks.induct)
  case (1 s)
  obtain c r where cr: "fgets 100 s = Some (c, r)"
    using "1.prems" by (cases "fgets 100 s") (auto simp: fgets_chunks_None)
  note ch = fgets_chunk [OF cr]
  show ?case
  proof (cases "c = ''EXIT''")
    case True
    with ch have "r = []" by auto
    with True ch cr show ?thesis
      by (intro exI [of _ "[]"]) (simp add: fgets_chunks_Some fgets_chunks_None fgets_def)
  next
    case False
    with "1.prems" cr have "''EXIT'' \<in> set (fgets_chunks r)" by (simp add: fgets_chunks_Some)
    with "1.IH" [OF cr refl] obtain pre p where
      "fgets_chunks r = pre @ [''EXIT'']" "''EXIT'' \<notin> set pre" "r = p @ ''EXIT''" by blast
    with False ch cr show ?thesis
      by (intro exI [of _ "c # pre"]) (auto simp: fgets_chunks_Some)
  qed
qed

lemma fgets_chunks_no_exit:
  assumes "s = [] \<or> last s = CHR ''\<newline>''"
  shows "''EXIT'' \<notin> set (fgets_chunks s)"
proof
  assume "''EXIT'' \<in> set (fgets_chunks s)"
  then obtain p where "s = p @ ''EXIT''" using fgets_chunks_exit by blast
  with assms show False by simp
qed

end
