(* ===== verification/IpcProtocol.thy ===== *)
theory IpcProtocol
  imports Ipc
begin

text \<open>
  The concurrent part of the lab 1 demo: the sender's loop (\<open>src/sender.c\<close>,
  lines 56--71) and the receiver's loop (\<open>src/lab1/receiver.c\<close>, lines 49--63)
  running side by side, synchronised by the named semaphores \<open>sem_sender\<close>
  (initially 1) and \<open>sem_receiver\<close> (initially 0). Each program is a step
  function from its program counter; \<open>None\<close> means the step cannot be taken
  now (\<open>sem_wait\<close> on a zero semaphore, \<open>mq_send\<close> on a full queue,
  \<open>mq_receive\<close> on an empty one). \<open>ipc_step\<close> interleaves them in any order.
  \<open>fgets\<close> happens together with the following \<open>sem_wait\<close>: it touches only the
  sender's own file. The terminal output is the list of messages the receiver
  printed.
\<close>

section \<open>States\<close>

datatype spc = SLoop | SSend string | SPost | SExitSend | SExitPost | SDone
datatype rpc = RWait | RRecv | RPost | RDone

record ipc_state =
  sem_s :: nat
  sem_r :: nat
  ch :: chan
  s_mb :: mailbox_t
  s_pc :: spc
  s_in :: "string list"
  r_mb :: mailbox_t
  r_msg :: message_t
  r_pc :: rpc
  r_out :: "string list"

definition ipc_init :: "mailbox_t \<Rightarrow> mailbox_t \<Rightarrow> string list \<Rightarrow> ipc_state" where
  "ipc_init mbS mbR cs =
     \<lparr>sem_s = 1, sem_r = 0, ch = \<lparr>mq = [], shm = []\<rparr>, s_mb = mbS, s_pc = SLoop, s_in = cs,
      r_mb = mbR, r_msg = \<lparr>msg_text = []\<rparr>, r_pc = RWait, r_out = []\<rparr>"

section \<open>The sender (sender.c, lines 56--71)\<close>

definition sender_step :: "ipc_state \<Rightarrow> ipc_state option" where
  "sender_step st =
     (case s_pc st of
        SLoop \<Rightarrow>
          (if sem_s st = 0 then None
           else case s_in st of
                  c # cs \<Rightarrow> Some (st\<lparr>sem_s := sem_s st - 1, s_in := cs, s_pc := SSend c\<rparr>)
                | [] \<Rightarrow> Some (st\<lparr>sem_s := sem_s st - 1, s_pc := SExitSend\<rparr>))
      | SSend c \<Rightarrow>
          (case send \<lparr>msg_text = c\<rparr> (s_mb st) (ch st) of
             None \<Rightarrow> None
           | Some ch' \<Rightarrow> Some (st\<lparr>ch := ch', s_pc := SPost\<rparr>))
      | SPost \<Rightarrow> Some (st\<lparr>sem_r := sem_r st + 1, s_pc := SLoop\<rparr>)
      | SExitSend \<Rightarrow>
          (case send \<lparr>msg_text = ''EXIT''\<rparr> (s_mb st) (ch st) of
             None \<Rightarrow> None
           | Some ch' \<Rightarrow> Some (st\<lparr>ch := ch', s_pc := SExitPost\<rparr>))
      | SExitPost \<Rightarrow> Some (st\<lparr>sem_r := sem_r st + 1, s_pc := SDone\<rparr>)
      | SDone \<Rightarrow> None)"

section \<open>The receiver (receiver.c, lines 49--63)\<close>

definition receiver_step :: "ipc_state \<Rightarrow> ipc_state option" where
  "receiver_step st =
     (case r_pc st of
        RWait \<Rightarrow> (if sem_r st = 0 then None else Some (st\<lparr>sem_r := sem_r st - 1, r_pc := RRecv\<rparr>))
      | RRecv \<Rightarrow>
          (case receive (r_msg st) (r_mb st) (ch st) of
             None \<Rightarrow> None
           | Some (m, ch') \<Rightarrow>
               if msg_text m = ''EXIT'' then Some (st\<lparr>ch := ch', r_msg := m, r_pc := RDone\<rparr>)
               else Some (st\<lparr>ch := ch', r_msg := m, r_out := r_out st @ [msg_text m], r_pc := RPost\<rparr>))
      | RPost \<Rightarrow> Some (st\<lparr>sem_s := sem_s st + 1, r_pc := RWait\<rparr>)
      | RDone \<Rightarrow> None)"

section \<open>Interleaving\<close>

inductive ipc_step :: "ipc_state \<Rightarrow> ipc_state \<Rightarrow> bool" where
  sender: "sender_step st = Some st' \<Longrightarrow> ipc_step st st'"
| receiver: "receiver_step st = Some st' \<Longrightarrow> ipc_step st st'"

inductive ipc_reach :: "ipc_state \<Rightarrow> ipc_state \<Rightarrow> bool" where
  refl: "ipc_reach st st"
| step: "ipc_reach st0 st \<Longrightarrow> ipc_step st st' \<Longrightarrow> ipc_reach st0 st'"

inductive_cases ipc_stepE: "ipc_step st st'"

text \<open>One scheduler among all: the sender first when it can move.\<close>

definition ipc_next :: "ipc_state \<Rightarrow> ipc_state option" where
  "ipc_next st = (case sender_step st of Some st' \<Rightarrow> Some st' | None \<Rightarrow> receiver_step st)"

fun ipc_run :: "nat \<Rightarrow> ipc_state \<Rightarrow> ipc_state" where
  "ipc_run 0 st = st"
| "ipc_run (Suc n) st = (case ipc_next st of None \<Rightarrow> st | Some st' \<Rightarrow> ipc_run n st')"

definition stuck :: "ipc_state \<Rightarrow> bool" where
  "stuck st \<longleftrightarrow> sender_step st = None \<and> receiver_step st = None"

section \<open>The token\<close>

text \<open>Exactly one of: a unit in \<open>sem_sender\<close>, a unit in \<open>sem_receiver\<close>, the
  sender between its \<open>sem_wait\<close> and \<open>sem_post\<close>, the receiver past its
  \<open>sem_wait\<close> (the receiver keeps the token when it stops on \<open>EXIT\<close>).\<close>

fun s_holds :: "spc \<Rightarrow> nat" where
  "s_holds SLoop = 0"
| "s_holds SDone = 0"
| "s_holds _ = 1"

fun r_holds :: "rpc \<Rightarrow> nat" where
  "r_holds RWait = 0"
| "r_holds _ = 1"

definition tokens :: "ipc_state \<Rightarrow> nat" where
  "tokens st = sem_s st + sem_r st + s_holds (s_pc st) + r_holds (r_pc st)"

text \<open>The head of both loops: the sender about to read its next line, the
  receiver waiting, one unit in \<open>sem_sender\<close>.\<close>

definition ipc_head ::
  "mailbox_t \<Rightarrow> mailbox_t \<Rightarrow> string list \<Rightarrow> string list \<Rightarrow> chan \<Rightarrow> message_t \<Rightarrow> ipc_state" where
  "ipc_head mbS mbR sent rest chv msg =
     \<lparr>sem_s = 1, sem_r = 0, ch = chv, s_mb = mbS, s_pc = SLoop, s_in = rest,
      r_mb = mbR, r_msg = msg, r_pc = RWait, r_out = sent\<rparr>"

definition same_transport :: "mailbox_t \<Rightarrow> mailbox_t \<Rightarrow> bool" where
  "same_transport mbS mbR \<longleftrightarrow> flag mbS = flag mbR \<and> (flag mbS = 1 \<or> flag mbS = 2)"

definition in_flight :: "ipc_state \<Rightarrow> bool" where
  "in_flight st \<longleftrightarrow> s_pc st = SPost \<or> s_pc st = SExitPost \<or> 0 < sem_r st \<or> r_pc st = RRecv"

definition mq_inv :: "ipc_state \<Rightarrow> bool" where
  "mq_inv st \<longleftrightarrow> (flag (s_mb st) = 1 \<and> flag (r_mb st) = 1 \<longrightarrow>
     length (mq (ch st)) = (if in_flight st then 1 else 0))"

section \<open>Alternation\<close>

lemma sender_step_mb: "sender_step st = Some st' \<Longrightarrow> s_mb st' = s_mb st \<and> r_mb st' = r_mb st"
  by (cases "s_pc st") (auto simp: sender_step_def split: if_splits list.splits option.splits)

lemma receiver_step_mb: "receiver_step st = Some st' \<Longrightarrow> s_mb st' = s_mb st \<and> r_mb st' = r_mb st"
  by (cases "r_pc st") (auto simp: receiver_step_def split: if_splits option.splits prod.splits)

lemma ipc_reach_mb: "ipc_reach st0 st \<Longrightarrow> s_mb st = s_mb st0 \<and> r_mb st = r_mb st0"
  by (induction rule: ipc_reach.induct) (auto elim!: ipc_stepE dest: sender_step_mb receiver_step_mb)

lemma sender_step_tokens: "sender_step st = Some st' \<Longrightarrow> tokens st' = tokens st"
  by (cases "s_pc st")
     (auto simp: sender_step_def tokens_def split: if_splits list.splits option.splits)

lemma receiver_step_tokens: "receiver_step st = Some st' \<Longrightarrow> tokens st' = tokens st"
  by (cases "r_pc st")
     (auto simp: receiver_step_def tokens_def split: if_splits option.splits prod.splits)

lemma ipc_step_tokens: "ipc_step st st' \<Longrightarrow> tokens st' = tokens st"
  by (induction rule: ipc_step.induct) (simp_all add: sender_step_tokens receiver_step_tokens)

lemma sender_enabled: "sender_step st \<noteq> None \<Longrightarrow> 1 \<le> sem_s st + s_holds (s_pc st)"
  by (cases "s_pc st") (auto simp: sender_step_def split: if_splits)

lemma receiver_enabled: "receiver_step st \<noteq> None \<Longrightarrow> 1 \<le> sem_r st + r_holds (r_pc st)"
  by (cases "r_pc st") (auto simp: receiver_step_def split: if_splits)

lemma one_enabled:
  assumes "tokens st = 1"
  shows "sender_step st = None \<or> receiver_step st = None"
proof (rule ccontr)
  assume "\<not> (sender_step st = None \<or> receiver_step st = None)"
  then have "1 \<le> sem_s st + s_holds (s_pc st)" "1 \<le> sem_r st + r_holds (r_pc st)"
    using sender_enabled receiver_enabled by auto
  with assms show False by (simp add: tokens_def)
qed

lemma tokens_init: "tokens (ipc_init mbS mbR cs) = 1"
  by (simp add: tokens_def ipc_init_def)

lemma ipc_reach_tokens: "ipc_reach st0 st \<Longrightarrow> tokens st = tokens st0"
  by (induction rule: ipc_reach.induct) (simp_all add: ipc_step_tokens)

text \<open>C17: the semaphores make the two programs alternate. In every state reachable
  from the start, exactly one token (a unit in one of the two semaphores, or
  one program inside its critical section) exists, so the sender's
  \<open>send\<close> and the receiver's \<open>receive\<close> never overlap and at most one of the
  two programs can take a step.\<close>

theorem ipc_alternation:
  assumes "ipc_reach (ipc_init mbS mbR cs) st"
  shows "tokens st = 1 \<and> (sender_step st = None \<or> receiver_step st = None) \<and>
         \<not> (s_holds (s_pc st) = 1 \<and> r_holds (r_pc st) = 1)"
proof -
  have t: "tokens st = 1" using ipc_reach_tokens [OF assms] tokens_init by simp
  then show ?thesis using one_enabled [OF t] by (auto simp: tokens_def)
qed

section \<open>Every interleaving is the scheduled run\<close>

lemma ipc_next_step: "tokens st = 1 \<Longrightarrow> ipc_step st st' \<Longrightarrow> ipc_next st = Some st'"
  using one_enabled [of st] by (auto elim!: ipc_stepE simp: ipc_next_def)

lemma ipc_next_None: "ipc_next st = None \<longleftrightarrow> stuck st"
  by (simp add: ipc_next_def stuck_def split: option.splits)

lemma ipc_run_snoc: "ipc_next (ipc_run n s) = Some s' \<Longrightarrow> ipc_run (Suc n) s = s'"
proof (induction n arbitrary: s)
  case 0
  then show ?case by simp
next
  case (Suc n)
  show ?case
  proof (cases "ipc_next s")
    case None
    with Suc.prems show ?thesis by simp
  next
    case (Some a)
    have r: "ipc_run (Suc n) s = ipc_run n a" "ipc_run (Suc (Suc n)) s = ipc_run (Suc n) a"
      by (simp_all only: ipc_run.simps(2) Some option.case)
    with Suc.prems have "ipc_next (ipc_run n a) = Some s'" by simp
    then have "ipc_run (Suc n) a = s'" by (rule Suc.IH)
    with r show ?thesis by simp
  qed
qed

lemma ipc_run_stuck: "ipc_next st = None \<Longrightarrow> ipc_run n st = st"
  by (cases n) simp_all

lemma ipc_run_add: "ipc_run (m + n) st = ipc_run n (ipc_run m st)"
proof (induction m arbitrary: st)
  case (Suc m)
  then show ?case by (cases "ipc_next st") (simp_all add: ipc_run_stuck)
qed simp

lemma ipc_reach_run:
  assumes "ipc_reach st0 st" "tokens st0 = 1"
  shows "\<exists>n. st = ipc_run n st0"
  using assms
proof induction
  case (refl st)
  then show ?case by (intro exI [of _ 0]) simp
next
  case (step st0 st st')
  then obtain n where n: "st = ipc_run n st0" by blast
  have "tokens st = 1" using ipc_reach_tokens [OF step.hyps(1)] step.prems by simp
  then have "ipc_next st = Some st'" using step.hyps(2) by (rule ipc_next_step)
  with n have "ipc_run (Suc n) st0 = st'" by (intro ipc_run_snoc) simp
  then show ?case by (intro exI [of _ "Suc n"]) simp
qed

lemma ipc_run_stop: "ipc_next (ipc_run n s) = None \<Longrightarrow> ipc_run (Suc n) s = ipc_run n s"
proof (induction n arbitrary: s)
  case (Suc n)
  then show ?case by (cases "ipc_next s") simp_all
qed simp

lemma ipc_next_step_of: "ipc_next st = Some st' \<Longrightarrow> ipc_step st st'"
  by (auto simp: ipc_next_def intro: ipc_step.intros split: option.splits)

lemma ipc_reach_of_run: "ipc_reach st0 (ipc_run n st0)"
proof (induction n)
  case 0
  then show ?case by (simp add: ipc_reach.refl)
next
  case (Suc n)
  show ?case
  proof (cases "ipc_next (ipc_run n st0)")
    case None
    then show ?thesis using Suc.IH by (simp add: ipc_run_stop del: ipc_run.simps)
  next
    case (Some st')
    then show ?thesis
      using Suc.IH ipc_run_snoc [OF Some] ipc_next_step_of [OF Some] by (auto intro: ipc_reach.step)
  qed
qed

text \<open>So a stuck state reached in any interleaving is the one the scheduled run
  stops in.\<close>

lemma ipc_reach_stuck:
  assumes "ipc_reach st0 st" "tokens st0 = 1" "stuck st" "stuck (ipc_run N st0)"
  shows "st = ipc_run N st0"
proof -
  obtain n where n: "st = ipc_run n st0" using ipc_reach_run [OF assms(1,2)] by blast
  have a: "ipc_next st = None" "ipc_next (ipc_run N st0) = None"
    using assms(3,4) by (simp_all add: ipc_next_None)
  show ?thesis
  proof (cases "n \<le> N")
    case True
    then have "ipc_run N st0 = ipc_run (N - n) (ipc_run n st0)"
      using ipc_run_add [of n "N - n" st0] by simp
    with a(1) n show ?thesis by (simp add: ipc_run_stuck)
  next
    case False
    then have "ipc_run n st0 = ipc_run (n - N) (ipc_run N st0)"
      using ipc_run_add [of N "n - N" st0] by simp
    with a(2) n show ?thesis by (simp add: ipc_run_stuck)
  qed
qed

section \<open>One message, and the end\<close>

lemmas step_defs = ipc_next_def sender_step_def receiver_step_def send_def receive_def mq_maxmsg_def
  ipc_head_def

lemma ipc_round:
  assumes "same_transport mbS mbR" "mq chv = []" "c \<noteq> ''EXIT''"
  shows "ipc_run 6 (ipc_head mbS mbR sent (c # rest) chv msg) =
    ipc_head mbS mbR (sent @ [c]) rest (if flag mbS = 2 then chv\<lparr>shm := c\<rparr> else chv) (msg\<lparr>msg_text := c\<rparr>)"
  using assms by (auto simp: same_transport_def numeral_eq_Suc step_defs)

lemma ipc_finish:
  assumes "same_transport mbS mbR" "mq chv = []"
  shows "\<exists>st. ipc_run 5 (ipc_head mbS mbR sent [] chv msg) = st \<and> stuck st \<and>
           s_pc st = SDone \<and> r_pc st = RDone \<and> r_out st = sent"
  using assms by (auto simp: same_transport_def numeral_eq_Suc step_defs stuck_def)

lemma ipc_exit_line:
  assumes "same_transport mbS mbR" "mq chv = []"
  shows "\<exists>st. ipc_run 5 (ipc_head mbS mbR sent (''EXIT'' # rest) chv msg) = st \<and> stuck st \<and>
           s_pc st = SLoop \<and> s_in st = rest \<and> r_pc st = RDone \<and> r_out st = sent"
  using assms by (auto simp: same_transport_def numeral_eq_Suc step_defs stuck_def)

lemma ipc_rounds:
  assumes "same_transport mbS mbR" "mq chv = []" "''EXIT'' \<notin> set cs"
  shows "\<exists>chv' msg'. ipc_run (6 * length cs) (ipc_head mbS mbR sent (cs @ rest) chv msg) =
           ipc_head mbS mbR (sent @ cs) rest chv' msg' \<and> mq chv' = []"
  using assms(2,3)
proof (induction cs arbitrary: sent chv msg)
  case Nil
  then show ?case by auto
next
  case (Cons c cs)
  let ?chv = "if flag mbS = 2 then chv\<lparr>shm := c\<rparr> else chv"
  have "ipc_run (6 * length (c # cs)) (ipc_head mbS mbR sent ((c # cs) @ rest) chv msg) =
        ipc_run (6 * length cs) (ipc_head mbS mbR (sent @ [c]) (cs @ rest) ?chv (msg\<lparr>msg_text := c\<rparr>))"
  proof -
    have c: "c \<noteq> ''EXIT''" using Cons.prems(2) by auto
    show ?thesis
      using ipc_run_add [of 6 "6 * length cs"] ipc_round [OF assms(1) Cons.prems(1) c, of sent "cs @ rest" msg]
      by simp
  qed
  moreover have "mq ?chv = []" using Cons.prems(1) by simp
  ultimately show ?case using Cons.IH [of ?chv "sent @ [c]"] Cons.prems(2) by simp
qed

lemma ipc_init_head: "ipc_init mbS mbR cs = ipc_head mbS mbR [] cs \<lparr>mq = [], shm = []\<rparr> \<lparr>msg_text = []\<rparr>"
  by (simp add: ipc_init_def ipc_head_def)

lemma ipc_scheduled:
  assumes "same_transport mbS mbR" "''EXIT'' \<notin> set cs"
  shows "stuck (ipc_run (6 * length cs + 5) (ipc_init mbS mbR cs)) \<and>
         s_pc (ipc_run (6 * length cs + 5) (ipc_init mbS mbR cs)) = SDone \<and>
         r_pc (ipc_run (6 * length cs + 5) (ipc_init mbS mbR cs)) = RDone \<and>
         r_out (ipc_run (6 * length cs + 5) (ipc_init mbS mbR cs)) = cs"
proof -
  obtain chv msg where r: "ipc_run (6 * length cs) (ipc_init mbS mbR cs) = ipc_head mbS mbR cs [] chv msg"
    "mq chv = []"
    using ipc_rounds [where chv = "\<lparr>mq = [], shm = []\<rparr>" and sent = "[]" and rest = "[]"
        and msg = "\<lparr>msg_text = []\<rparr>", OF assms(1) _ assms(2)]
    by (auto simp: ipc_init_head)
  show ?thesis
    using ipc_finish [OF assms(1) r(2), of cs msg] ipc_run_add [of "6 * length cs" 5] r(1) by auto
qed

lemma ipc_stuck_final:
  assumes "same_transport mbS mbR" "''EXIT'' \<notin> set cs"
    and "ipc_reach (ipc_init mbS mbR cs) st" "stuck st"
  shows "r_out st = cs \<and> s_pc st = SDone \<and> r_pc st = RDone"
proof -
  have "st = ipc_run (6 * length cs + 5) (ipc_init mbS mbR cs)"
    using ipc_reach_stuck [OF assms(3) tokens_init assms(4)] ipc_scheduled [OF assms(1,2)] by blast
  then show ?thesis using ipc_scheduled [OF assms(1,2)] by simp
qed

text \<open>C19: the two programs terminate together. Every interleaving from the
  start is one of the first \<open>6 n + 5\<close> states of the scheduled run, \<open>n\<close> the
  number of messages: no execution is longer.\<close>

theorem ipc_run_bound:
  assumes "same_transport mbS mbR" "''EXIT'' \<notin> set cs" "ipc_reach (ipc_init mbS mbR cs) st"
  shows "\<exists>n \<le> 6 * length cs + 5. st = ipc_run n (ipc_init mbS mbR cs)"
proof -
  let ?N = "6 * length cs + 5"
  obtain n where n: "st = ipc_run n (ipc_init mbS mbR cs)"
    using ipc_reach_run [OF assms(3) tokens_init] by blast
  show ?thesis
  proof (cases "n \<le> ?N")
    case False
    have "ipc_next (ipc_run ?N (ipc_init mbS mbR cs)) = None"
      using ipc_scheduled [OF assms(1,2)] by (simp add: ipc_next_None)
    then have "ipc_run n (ipc_init mbS mbR cs) = ipc_run ?N (ipc_init mbS mbR cs)"
      using ipc_run_add [of ?N "n - ?N" "ipc_init mbS mbR cs"] False by (simp add: ipc_run_stuck)
    with n show ?thesis by auto
  qed (use n in auto)
qed

section \<open>The queue never fills\<close>

lemma mq_inv_step:
  assumes "tokens st = 1" "mq_inv st" "ipc_step st st'"
  shows "mq_inv st'"
  using assms(3)
proof (cases rule: ipc_step.cases)
  case sender
  then show ?thesis using assms(1,2)
    by (cases "s_pc st"; cases "r_pc st")
       (auto simp: sender_step_def send_def mq_inv_def in_flight_def tokens_def mq_maxmsg_def
             split: if_splits list.splits option.splits)
next
  case receiver
  then show ?thesis using assms(1,2)
    by (cases "s_pc st"; cases "r_pc st")
       (auto simp: receiver_step_def receive_def mq_inv_def in_flight_def tokens_def
             split: if_splits list.splits option.splits prod.splits)
qed

lemma ipc_reach_mq_inv: "ipc_reach st0 st \<Longrightarrow> tokens st0 = 1 \<Longrightarrow> mq_inv st0 \<Longrightarrow> mq_inv st"
proof (induction rule: ipc_reach.induct)
  case (step st0 st st')
  have "tokens st = 1" using ipc_reach_tokens [OF step.hyps(1)] step.prems(1) by simp
  with step show ?case using mq_inv_step by blast
qed simp

text \<open>C20: the message queue holds at most one message. With \<open>flag = 1\<close> on
  both sides, in every reachable state \<open>/mymq\<close> holds at most one message, so
  \<open>mq_send\<close> never blocks on the limit \<open>mq_maxmsg = 10\<close> of line 28.\<close>

theorem mq_bound:
  assumes "flag mbS = 1" "flag mbR = 1" "ipc_reach (ipc_init mbS mbR cs) st"
  shows "length (mq (ch st)) \<le> 1 \<and> length (mq (ch st)) < mq_maxmsg"
proof -
  have "mq_inv (ipc_init mbS mbR cs)" by (simp add: mq_inv_def ipc_init_def in_flight_def)
  then have "mq_inv st" using ipc_reach_mq_inv [OF assms(3) tokens_init] by simp
  moreover have "flag (s_mb st) = 1" "flag (r_mb st) = 1"
    using assms by (auto simp: ipc_init_def dest: ipc_reach_mb)
  ultimately show ?thesis by (auto simp: mq_inv_def mq_maxmsg_def split: if_splits)
qed

section \<open>A line reading EXIT\<close>

lemma receiver_step_s_pc: "receiver_step st = Some st' \<Longrightarrow> s_pc st' = s_pc st"
  by (cases "r_pc st") (auto simp: receiver_step_def split: if_splits option.splits prod.splits)

lemma ipc_run_SDone: "s_pc st = SDone \<Longrightarrow> s_pc (ipc_run n st) = SDone"
proof (induction n arbitrary: st)
  case (Suc n)
  show ?case
  proof (cases "ipc_next st")
    case (Some st')
    then have "receiver_step st = Some st'"
      using Suc.prems by (simp add: ipc_next_def sender_step_def)
    then have "s_pc st' = SDone" using Suc.prems by (simp add: receiver_step_s_pc)
    with Some show ?thesis by (simp add: Suc.IH)
  qed (simp add: Suc.prems)
qed simp

lemma ipc_exit_stuck:
  assumes "same_transport mbS mbR" "''EXIT'' \<notin> set pre"
    and "ipc_reach (ipc_init mbS mbR (pre @ ''EXIT'' # rest)) st"
  shows "s_pc st \<noteq> SDone"
proof
  assume d: "s_pc st = SDone"
  let ?i = "ipc_init mbS mbR (pre @ ''EXIT'' # rest)"
  let ?N = "6 * length pre + 5"
  obtain chv msg where r: "ipc_run (6 * length pre) ?i = ipc_head mbS mbR pre (''EXIT'' # rest) chv msg"
    "mq chv = []"
    using ipc_rounds [where chv = "\<lparr>mq = [], shm = []\<rparr>" and sent = "[]" and rest = "''EXIT'' # rest"
        and msg = "\<lparr>msg_text = []\<rparr>", OF assms(1) _ assms(2)]
    by (auto simp: ipc_init_head)
  obtain x where x: "ipc_run ?N ?i = x" "stuck x" "s_pc x = SLoop"
    using ipc_exit_line [OF assms(1) r(2), of pre rest msg] ipc_run_add [of "6 * length pre" 5 ?i] r(1)
    by auto
  obtain n where n: "st = ipc_run n ?i" using ipc_reach_run [OF assms(3) tokens_init] by blast
  have "s_pc (ipc_run (n + ?N) ?i) = SDone"
    using ipc_run_SDone [of st ?N] d n ipc_run_add [of n ?N ?i] by simp
  moreover have "ipc_run (n + ?N) ?i = x"
    using ipc_run_add [of ?N n ?i] x(1,2) by (simp add: add.commute ipc_run_stuck ipc_next_None)
  ultimately show False using x(3) by simp
qed

section \<open>From file to terminal\<close>

text \<open>C16: the file goes through unchanged. When sender and receiver use the same
  transport and the input file is empty or ends with a newline, every
  interleaving that cannot go on has printed the file's \<open>fgets\<close> messages in
  order, their concatenation is the file, and both programs have finished their
  loops.\<close>

theorem ipc_delivers_file:
  assumes "same_transport mbS mbR" "s = [] \<or> last s = CHR ''\<newline>''"
    and "ipc_reach (ipc_init mbS mbR (fgets_chunks s)) st" "stuck st"
  shows "r_out st = fgets_chunks s \<and> concat (r_out st) = s \<and> s_pc st = SDone \<and> r_pc st = RDone"
  using ipc_stuck_final [OF assms(1) fgets_chunks_no_exit [OF assms(2)] assms(3,4)]
  by (simp add: fgets_chunks_concat)

text \<open>C18: a file ending in \<open>EXIT\<close> without a newline deadlocks the sender.
  Its last \<open>fgets\<close> message is \<open>EXIT\<close>, the receiver takes it for the end
  marker and stops without \<open>sem_post(sem_sender)\<close>, and the sender blocks for
  ever in the \<open>sem_wait\<close> before its own \<open>EXIT\<close> (line 69): in no reachable
  state has the sender finished.\<close>

theorem ipc_exit_deadlock:
  assumes "same_transport mbS mbR" "''EXIT'' \<in> set (fgets_chunks s)"
    and "ipc_reach (ipc_init mbS mbR (fgets_chunks s)) st"
  shows "s_pc st \<noteq> SDone \<and> (\<exists>p. s = p @ ''EXIT'')"
proof -
  obtain pre where pre: "fgets_chunks s = pre @ [''EXIT'']" "''EXIT'' \<notin> set pre" "\<exists>p. s = p @ ''EXIT''"
    using fgets_chunks_exit [OF assms(2)] by blast
  have "ipc_reach (ipc_init mbS mbR (pre @ ''EXIT'' # [])) st" using assms(3) pre(1) by simp
  from ipc_exit_stuck [OF assms(1) pre(2) this] pre(3) show ?thesis by simp
qed

end
