(* ===== verification/IpcSession.thy ===== *)
theory IpcSession
  imports IpcProtocol "HOL-Library.While_Combinator"
begin

text \<open>
  Both \<open>main\<close> functions of lab 1 run side by side: the sender's set-up and
  \<open>fopen\<close> (\<open>sender_start\<close>), the receiver's set-up, the two loops run until
  neither program can move (\<open>ipc_loops\<close>, a \<open>while_option\<close> over the scheduler),
  and the end of each \<open>main\<close> (\<open>main_end\<close>). A program whose set-up fails has
  returned 1 and takes no part in the loops; a program that never leaves its
  loop has no return value.
\<close>

section \<open>The session\<close>

text \<open>Lines 13--53 of \<open>sender.c\<close>: set-up, then \<open>fopen\<close>; its failure returns 1
  without any clean-up.\<close>

definition sender_start ::
  "int \<Rightarrow> os_answers \<Rightarrow> (path \<rightharpoonup> string) \<Rightarrow> path \<Rightarrow> ipc_kernel \<Rightarrow>
   (int \<times> ipc_kernel) + (mailbox_t \<times> string list \<times> ipc_kernel)" where
  "sender_start fl os fs p k =
     (case mailbox_setup fl os k of
        Inl e \<Rightarrow> Inl e
      | Inr (mb, k1) \<Rightarrow>
          (case sender_input fs p of
             None \<Rightarrow> Inl (1, k1)
           | Some cs \<Rightarrow> Inr (mb, cs, k1)))"

definition ipc_sched :: "ipc_state \<Rightarrow> ipc_state" where
  "ipc_sched st = (case ipc_next st of None \<Rightarrow> st | Some st' \<Rightarrow> st')"

definition ipc_loops :: "ipc_state \<Rightarrow> ipc_state option" where
  "ipc_loops = while_option (\<lambda>st. \<not> stuck st) ipc_sched"

text \<open>The end of a \<open>main\<close> that got past its set-up: if its loop finished,
  the clean-up and \<open>return 0\<close>; otherwise it waits in \<open>sem_wait\<close> for ever.\<close>

definition main_end :: "mailbox_t \<Rightarrow> bool \<Rightarrow> ipc_kernel \<Rightarrow> int option \<times> ipc_kernel" where
  "main_end mb finished k = (if finished then (Some 0, mailbox_cleanup mb k) else (None, k))"

record session_end =
  s_ret :: "int option"
  r_ret :: "int option"
  printed :: "string list"
  kern :: ipc_kernel

definition ipc_session ::
  "int \<Rightarrow> os_answers \<Rightarrow> os_answers \<Rightarrow> (path \<rightharpoonup> string) \<Rightarrow> path \<Rightarrow> ipc_kernel \<Rightarrow>
   session_end option" where
  "ipc_session fl osS osR fs p k =
     (let rS = sender_start fl osS fs p k;
          kS = (case rS of Inl (_, k1) \<Rightarrow> k1 | Inr (_, _, k1) \<Rightarrow> k1);
          rR = mailbox_setup fl osR kS;
          kR = (case rR of Inl (_, k2) \<Rightarrow> k2 | Inr (_, k2) \<Rightarrow> k2);
          mb0 = \<lparr>flag = fl, storage = 0\<rparr>;
          st0 = ipc_init (case rS of Inl _ \<Rightarrow> mb0 | Inr (mb, _, _) \<Rightarrow> mb)
                  (case rR of Inl _ \<Rightarrow> mb0 | Inr (mb, _) \<Rightarrow> mb)
                  (case rS of Inl _ \<Rightarrow> [] | Inr (_, cs, _) \<Rightarrow> cs);
          st1 = st0\<lparr>s_pc := (if isl rS then SDone else SLoop),
                    r_pc := (if isl rR then RDone else RWait)\<rparr>
      in case ipc_loops st1 of
           None \<Rightarrow> None
         | Some st \<Rightarrow>
             (case (case rS of Inl (r, _) \<Rightarrow> (Some r, kR)
                      | Inr _ \<Rightarrow> main_end (s_mb st) (s_pc st = SDone) kR) of
                (sr, k3) \<Rightarrow>
                  (case (case rR of Inl (r, _) \<Rightarrow> (Some r, k3)
                         | Inr _ \<Rightarrow> main_end (r_mb st) (r_pc st = RDone) k3) of
                     (rr, k4) \<Rightarrow> Some \<lparr>s_ret = sr, r_ret = rr, printed = r_out st, kern = k4\<rparr>)))"

text \<open>A measure every move decreases: each sender statement lowers \<open>s_weight\<close>
  by one and adds at most one unit (weight 3) to \<open>sem_receiver\<close>.\<close>

fun s_pc_weight :: "spc \<Rightarrow> nat" where
  "s_pc_weight SLoop = 3"
| "s_pc_weight (SSend _) = 5"
| "s_pc_weight SPost = 4"
| "s_pc_weight SExitSend = 2"
| "s_pc_weight SExitPost = 1"
| "s_pc_weight SDone = 0"

fun r_pc_weight :: "rpc \<Rightarrow> nat" where
  "r_pc_weight RRecv = 2"
| "r_pc_weight RPost = 1"
| "r_pc_weight _ = 0"

definition ipc_measure :: "ipc_state \<Rightarrow> nat" where
  "ipc_measure st = 4 * (4 * length (s_in st) + s_pc_weight (s_pc st)) +
                    3 * sem_r st + r_pc_weight (r_pc st)"

section \<open>Termination of the loops\<close>

lemma sender_step_measure: "sender_step st = Some st' \<Longrightarrow> ipc_measure st' < ipc_measure st"
  unfolding sender_step_def ipc_measure_def
  by (cases "s_pc st"; cases "s_in st"; auto split: option.splits if_splits)

lemma receiver_step_measure: "receiver_step st = Some st' \<Longrightarrow> ipc_measure st' < ipc_measure st"
  unfolding receiver_step_def ipc_measure_def
  by (cases "r_pc st"; auto split: option.splits if_splits)

lemma ipc_sched_measure:
  assumes "\<not> stuck st"
  shows "ipc_measure (ipc_sched st) < ipc_measure st"
proof -
  obtain st' where n: "ipc_next st = Some st'" using assms ipc_next_None by fastforce
  then have "sender_step st = Some st' \<or> receiver_step st = Some st'"
    by (auto simp: ipc_next_def split: option.splits)
  then have "ipc_measure st' < ipc_measure st"
    using sender_step_measure receiver_step_measure by blast
  with n show ?thesis by (simp add: ipc_sched_def)
qed

lemma ipc_sched_run: "(ipc_sched ^^ n) st = ipc_run n st"
proof (induction n arbitrary: st)
  case (Suc n)
  have "(ipc_sched ^^ Suc n) st = (ipc_sched ^^ n) (ipc_sched st)"
    by (simp only: funpow_Suc_right comp_def)
  also have "\<dots> = ipc_run n (ipc_sched st)" by (rule Suc.IH)
  also have "\<dots> = ipc_run (Suc n) st"
    by (cases "ipc_next st") (simp_all add: ipc_sched_def ipc_run_stuck)
  finally show ?case .
qed simp

lemma ipc_loops_run:
  assumes "ipc_loops st = Some st'"
  shows "\<exists>n. st' = ipc_run n st \<and> stuck st'"
proof -
  obtain n where "st' = (ipc_sched ^^ n) st" "\<not> \<not> stuck st'"
    using while_option_stop2 [of "\<lambda>st. \<not> stuck st" ipc_sched st st'] assms
    unfolding ipc_loops_def by blast
  then have "st' = ipc_run n st" "stuck st'" by (simp_all add: ipc_sched_run)
  then show ?thesis by blast
qed

lemma ipc_loops_terminates: "\<exists>st'. ipc_loops st = Some st' \<and> stuck st'"
proof -
  have "\<exists>t. while_option (\<lambda>st. \<not> stuck st) ipc_sched st = Some t"
    by (rule measure_while_option_Some [where P = "\<lambda>_. True" and f = ipc_measure])
       (simp_all add: ipc_sched_measure)
  then obtain st' where "ipc_loops st = Some st'" by (auto simp: ipc_loops_def)
  then show ?thesis using ipc_loops_run by blast
qed

lemma ipc_loops_reach: "ipc_loops st0 = Some st \<Longrightarrow> ipc_reach st0 st \<and> stuck st"
  using ipc_loops_run ipc_reach_of_run by blast

lemma ipc_loops_stuck: "stuck st \<Longrightarrow> ipc_loops st = Some st"
  by (simp add: ipc_loops_def while_option_unfold [of _ _ st])

lemma ipc_loops_step: "\<not> stuck st \<Longrightarrow> ipc_loops st = ipc_loops (ipc_sched st)"
  by (simp add: ipc_loops_def while_option_unfold [of _ _ st])

lemma mailbox_setup_Inr_flag: "mailbox_setup fl os k = Inr (mb, k') \<Longrightarrow> flag mb = fl"
  by (auto simp: mailbox_setup_def Let_def set_shm_addr_def split: if_splits)

lemma mailbox_setup_Inl_flag: "mailbox_setup fl os k = Inl e \<Longrightarrow> fl = 1 \<or> fl = 2"
  by (auto simp: mailbox_setup_def Let_def split: if_splits)

lemma sender_start_Inr: "sender_start fl os fs p k = Inr (mb, cs, k1) \<Longrightarrow> flag mb = fl"
  by (auto simp: sender_start_def mailbox_setup_Inr_flag split: sum.splits option.splits)

text \<open>The sender alone, its partner gone: it sends its first line, posts
  \<open>sem_receiver\<close> and then waits on \<open>sem_sender\<close>, which nobody posts.\<close>

lemma sender_alone:
  assumes "flag mbS = 1 \<or> flag mbS = 2"
  shows "\<exists>st. ipc_loops ((ipc_init mbS mbR (c # cs))\<lparr>s_pc := SLoop, r_pc := RDone\<rparr>) = Some st \<and>
           s_pc st = SLoop \<and> r_pc st = RDone \<and> r_out st = []"
proof -
  let ?st1 = "(ipc_init mbS mbR (c # cs))\<lparr>s_pc := SLoop, r_pc := RDone\<rparr>"
  obtain ch' where snd: "send \<lparr>msg_text = c\<rparr> mbS \<lparr>mq = [], shm = []\<rparr> = Some ch'"
    using assms by (auto simp: send_def mq_maxmsg_def)
  let ?st4 = "?st1\<lparr>sem_s := 0, s_in := cs, ch := ch', sem_r := 1\<rparr>"
  have s1: "ipc_sched ?st1 = ?st1\<lparr>sem_s := 0, s_in := cs, s_pc := SSend c\<rparr>"
    by (simp add: ipc_sched_def ipc_next_def sender_step_def ipc_init_def)
  have s2: "ipc_sched (?st1\<lparr>sem_s := 0, s_in := cs, s_pc := SSend c\<rparr>) =
      ?st1\<lparr>sem_s := 0, s_in := cs, ch := ch', s_pc := SPost\<rparr>"
    using snd by (simp add: ipc_sched_def ipc_next_def sender_step_def ipc_init_def)
  have s3: "ipc_sched (?st1\<lparr>sem_s := 0, s_in := cs, ch := ch', s_pc := SPost\<rparr>) = ?st4"
    by (simp add: ipc_sched_def ipc_next_def sender_step_def ipc_init_def)
  have "ipc_loops ?st1 = ipc_loops ?st4"
    using s1 s2 s3 snd
    by (simp add: ipc_loops_step stuck_def sender_step_def receiver_step_def ipc_init_def)
  also have "\<dots> = Some ?st4"
    by (rule ipc_loops_stuck) (simp add: stuck_def sender_step_def receiver_step_def ipc_init_def)
  finally show ?thesis by (simp add: ipc_init_def)
qed

lemma mq_setup_Inr:
  assumes "- (2 ^ 31) \<le> mq_ret os" "mq_ret os < 2 ^ 31" "mq_ret os \<noteq> -1"
  shows "mailbox_setup 1 os k = Inr (\<lparr>flag = 1, storage = set_mqd (mq_ret os) (junk os)\<rparr>,
           (sem_open_both k)\<lparr>mqueues := add_name ''/mymq'' (mqueues (sem_open_both k))\<rparr>)"
  using assms by (simp add: mailbox_setup_def Let_def get_set_mqd)

lemma ipc_init_pcs: "(ipc_init mbS mbR cs)\<lparr>s_pc := SLoop, r_pc := RWait\<rparr> = ipc_init mbS mbR cs"
  by (simp add: ipc_init_def)

lemma session_both_ok:
  assumes S: "sender_start fl osS fs p k = Inr (mbS, cs, k1)"
    and R: "mailbox_setup fl osR k1 = Inr (mbR, k2)"
    and tr: "same_transport mbS mbR" and nx: "''EXIT'' \<notin> set cs"
  shows "ipc_session fl osS osR fs p k = Some \<lparr>s_ret = Some 0, r_ret = Some 0, printed = cs,
           kern = mailbox_cleanup mbR (mailbox_cleanup mbS k2)\<rparr>"
proof -
  obtain st where l: "ipc_loops (ipc_init mbS mbR cs) = Some st" "stuck st"
    using ipc_loops_terminates by blast
  have reach: "ipc_reach (ipc_init mbS mbR cs) st" using ipc_loops_reach [OF l(1)] by blast
  have f: "r_out st = cs \<and> s_pc st = SDone \<and> r_pc st = RDone"
    using ipc_stuck_final [OF tr nx reach l(2)] .
  have mb: "s_mb st = mbS \<and> r_mb st = mbR"
    using ipc_reach_mb [OF reach] by (simp add: ipc_init_def)
  show ?thesis using S R l(1) f mb by (simp add: ipc_session_def Let_def main_end_def ipc_init_pcs)
qed

section \<open>Properties of the session\<close>

text \<open>C26: the interleaving does not matter. A state in which neither program
  can move is reachable from the start by some interleaving exactly when it is
  the state the loops end in under the scheduler: all interleavings end in the
  same state.\<close>

theorem ipc_final_unique:
  "(ipc_reach (ipc_init mbS mbR cs) st \<and> stuck st) \<longleftrightarrow> ipc_loops (ipc_init mbS mbR cs) = Some st"
proof
  assume a: "ipc_reach (ipc_init mbS mbR cs) st \<and> stuck st"
  obtain st' where l: "ipc_loops (ipc_init mbS mbR cs) = Some st'" "stuck st'"
    using ipc_loops_terminates by blast
  obtain n where "st' = ipc_run n (ipc_init mbS mbR cs)" using ipc_loops_run [OF l(1)] by blast
  with a l(2) have "st = st'" using ipc_reach_stuck [OF _ tokens_init] by blast
  with l(1) show "ipc_loops (ipc_init mbS mbR cs) = Some st" by simp
next
  assume "ipc_loops (ipc_init mbS mbR cs) = Some st"
  then show "ipc_reach (ipc_init mbS mbR cs) st \<and> stuck st" by (rule ipc_loops_reach)
qed

text \<open>C27: a failed start leaves the other program waiting for ever. If the
  sender returns early (its \<open>mq_open\<close>, \<open>shmget\<close> or \<open>fopen\<close> failed) while the
  receiver's set-up succeeds, the receiver blocks in its first
  \<open>sem_wait(sem_receiver)\<close> and never returns; nothing is printed and nothing
  is cleaned up.\<close>

theorem session_sender_failure_hangs:
  assumes "sender_start fl osS fs p k = Inl (r, k1)" "mailbox_setup fl osR k1 = Inr (mbR, k2)"
  shows "ipc_session fl osS osR fs p k = Some \<lparr>s_ret = Some r, r_ret = None, printed = [], kern = k2\<rparr>"
proof -
  let ?st = "(ipc_init \<lparr>flag = fl, storage = 0\<rparr> mbR [])\<lparr>s_pc := SDone, r_pc := RWait\<rparr>"
  have "stuck ?st" by (simp add: stuck_def sender_step_def receiver_step_def ipc_init_def)
  then have "ipc_loops ?st = Some ?st" by (rule ipc_loops_stuck)
  then show ?thesis using assms by (simp add: ipc_session_def Let_def main_end_def ipc_init_def)
qed

text \<open>C28: symmetrically, if the receiver's set-up fails while the sender
  starts with a non-empty file, the sender sends one line and then blocks in
  \<open>sem_wait(sem_sender)\<close> for ever.\<close>

theorem session_receiver_failure_hangs:
  assumes "sender_start fl osS fs p k = Inr (mbS, c # cs, k1)" "mailbox_setup fl osR k1 = Inl (r, k2)"
  shows "ipc_session fl osS osR fs p k = Some \<lparr>s_ret = None, r_ret = Some r, printed = [], kern = k2\<rparr>"
proof -
  have "flag mbS = 1 \<or> flag mbS = 2"
    using sender_start_Inr [OF assms(1)] mailbox_setup_Inl_flag [OF assms(2)] by simp
  then obtain st where "ipc_loops ((ipc_init mbS \<lparr>flag = fl, storage = 0\<rparr> (c # cs))
      \<lparr>s_pc := SLoop, r_pc := RDone\<rparr>) = Some st" "s_pc st = SLoop" "r_out st = []"
    using sender_alone by blast
  then show ?thesis using assms by (simp add: ipc_session_def Let_def main_end_def)
qed

end
