(* ===== verification/IpcScenarios.thy ===== *)
theory IpcScenarios
  imports IpcSession
begin

text \<open>
  Concrete runs of the lab 1 demo: kernel answers, mailboxes for both
  transports, small input files, and the witnesses of the IPC properties.
\<close>

section \<open>Kernel answers and mailboxes\<close>

definition k_empty :: ipc_kernel where
  "k_empty = \<lparr>mqueues = [], segments = [], sems = []\<rparr>"

definition os_ok :: os_answers where
  "os_ok = \<lparr>mq_ret = 3, shm_ret = 5, shm_at = 0x7F0000001000, junk = 0xDEADBEEF00000000\<rparr>"

definition os_fail :: os_answers where
  "os_fail = os_ok\<lparr>mq_ret := -1\<rparr>"

definition mb_mq :: mailbox_t where
  "mb_mq = \<lparr>flag = 1, storage = 3\<rparr>"

definition mb_shm :: mailbox_t where
  "mb_shm = \<lparr>flag = 2, storage = 0x7F0000001000\<rparr>"

definition fs_hi :: "path \<rightharpoonup> string" where
  "fs_hi = [''input.txt'' \<mapsto> ''hi\<newline>'']"

lemmas ipc_scenario_defs = k_empty_def os_ok_def os_fail_def mb_mq_def mb_shm_def

lemma setup_mq_ok:
  "mailbox_setup 1 os_ok k_empty =
     Inr (\<lparr>flag = 1, storage = set_mqd 3 0xDEADBEEF00000000\<rparr>,
          \<lparr>mqueues = [''/mymq''], segments = [], sems = [''sem_sender'', ''sem_receiver'']\<rparr>)"
  by (simp add: mailbox_setup_def Let_def get_set_mqd sem_open_both_def add_name_def ipc_scenario_defs)

lemma setup_shm_ok:
  "mailbox_setup 2 os_ok k_empty =
     Inr (\<lparr>flag = 2, storage = 0x7F0000001000\<rparr>,
          \<lparr>mqueues = [], segments = [5], sems = [''sem_sender'', ''sem_receiver'']\<rparr>)"
  by (simp add: mailbox_setup_def Let_def get_set_mqd sem_open_both_def add_name_def set_shm_addr_def
      ipc_scenario_defs)

section \<open>Witnesses\<close>

theorem mailbox_setup_mq_witness:
  "- (2 ^ 31) \<le> mq_ret os_ok \<and> mq_ret os_ok < 2 ^ 31 \<and>
   (\<exists>mb k1. mailbox_setup 1 os_ok k_empty = Inr (mb, k1) \<and> flag mb = 1 \<and>
      get_mqd (storage mb) = 3 \<and> ''/mymq'' \<in> set (mqueues k1)) \<and>
   - (2 ^ 31) \<le> mq_ret os_fail \<and> mq_ret os_fail < 2 ^ 31 \<and>
   \<not> (\<exists>mb k1. mailbox_setup 1 os_fail k_empty = Inr (mb, k1) \<and> flag mb = 1 \<and>
      get_mqd (storage mb) = mq_ret os_fail \<and> ''/mymq'' \<in> set (mqueues k1))"
proof -
  have h: "- (2 ^ 31) \<le> mq_ret os_ok" "mq_ret os_ok < 2 ^ 31"
    by (simp_all add: os_ok_def)
  have f: "- (2 ^ 31) \<le> mq_ret os_fail" "mq_ret os_fail < 2 ^ 31"
    by (simp_all add: os_fail_def os_ok_def)
  have "mq_ret os_ok \<noteq> -1" "mq_ret os_fail = -1" by (simp_all add: os_fail_def os_ok_def)
  then show ?thesis using h f mailbox_setup_mq [OF h, of k_empty] mailbox_setup_mq [OF f, of k_empty]
    by (simp add: os_ok_def)
qed

theorem shm_cleanup_wrong_id_witness:
  "mailbox_setup 2 os_ok k_empty = Inr (\<lparr>flag = 2, storage = 0x7F0000001000\<rparr>,
     \<lparr>mqueues = [], segments = [5], sems = [''sem_sender'', ''sem_receiver'']\<rparr>) \<and>
   5 \<in> set (segments (mailbox_cleanup \<lparr>flag = 2, storage = 0x7F0000001000\<rparr>
     \<lparr>mqueues = [], segments = [5], sems = [''sem_sender'', ''sem_receiver'']\<rparr>))"
proof -
  have "shm_ret os_ok \<in> set (segments (mailbox_cleanup \<lparr>flag = 2, storage = 0x7F0000001000\<rparr>
     \<lparr>mqueues = [], segments = [5], sems = [''sem_sender'', ''sem_receiver'']\<rparr>)) \<longleftrightarrow>
     shm_ret os_ok \<noteq> sint (ucast (shm_at os_ok) :: 32 word)"
    by (rule shm_cleanup_wrong_id [OF setup_shm_ok])
  then show ?thesis using setup_shm_ok by (simp add: os_ok_def)
qed

theorem mq_cleanup_leaks_witness:
  "mailbox_setup 1 os_ok k_empty = Inr (\<lparr>flag = 1, storage = set_mqd 3 0xDEADBEEF00000000\<rparr>,
     \<lparr>mqueues = [''/mymq''], segments = [], sems = [''sem_sender'', ''sem_receiver'']\<rparr>) \<and>
   mailbox_setup 1 os_ok \<lparr>mqueues = [''/mymq''], segments = [], sems = [''sem_sender'', ''sem_receiver'']\<rparr> =
     Inr (\<lparr>flag = 1, storage = set_mqd 3 0xDEADBEEF00000000\<rparr>,
     \<lparr>mqueues = [''/mymq''], segments = [], sems = [''sem_sender'', ''sem_receiver'']\<rparr>) \<and>
   ''/mymq'' \<in> set (mqueues (mailbox_cleanup \<lparr>flag = 1, storage = set_mqd 3 0xDEADBEEF00000000\<rparr>
     (mailbox_cleanup \<lparr>flag = 1, storage = set_mqd 3 0xDEADBEEF00000000\<rparr>
       \<lparr>mqueues = [''/mymq''], segments = [], sems = [''sem_sender'', ''sem_receiver'']\<rparr>)))"
proof -
  have h2: "mailbox_setup 1 os_ok \<lparr>mqueues = [''/mymq''], segments = [], sems = [''sem_sender'', ''sem_receiver'']\<rparr> =
     Inr (\<lparr>flag = 1, storage = set_mqd 3 0xDEADBEEF00000000\<rparr>,
     \<lparr>mqueues = [''/mymq''], segments = [], sems = [''sem_sender'', ''sem_receiver'']\<rparr>)"
    by (simp add: mailbox_setup_def Let_def get_set_mqd sem_open_both_def add_name_def ipc_scenario_defs)
  show ?thesis using setup_mq_ok h2 mq_cleanup_leaks [OF setup_mq_ok h2] by simp
qed

theorem mailbox_setup_error_witness:
  "(1 = (1::int) \<and> mq_ret os_fail = -1 \<or> 1 = (2::int) \<and> shm_ret os_fail = -1) \<and>
   mailbox_setup 1 os_fail k_empty = Inl (1, sem_open_both k_empty) \<and>
   sems (sem_open_both k_empty) = [''sem_sender'', ''sem_receiver'']"
proof -
  have h: "1 = (1::int) \<and> mq_ret os_fail = -1 \<or> 1 = (2::int) \<and> shm_ret os_fail = -1"
    by (simp add: os_fail_def)
  show ?thesis using h mailbox_setup_error [OF h, of k_empty]
    by (simp add: sem_open_both_def add_name_def k_empty_def)
qed

section \<open>Runs of the protocol\<close>

lemma chunks_hi: "fgets_chunks ''hi\<newline>'' = [''hi\<newline>'']"
proof -
  have "fgets 100 ''hi\<newline>'' = Some (''hi\<newline>'', [])" "fgets 100 [] = None"
    by (simp_all add: fgets_def numeral_eq_Suc)
  then show ?thesis by (simp add: fgets_chunks_Some fgets_chunks_None)
qed

lemma chunks_exit: "fgets_chunks ''a\<newline>EXIT'' = [''a\<newline>'', ''EXIT'']"
proof -
  have "fgets 100 ''a\<newline>EXIT'' = Some (''a\<newline>'', ''EXIT'')" "fgets 100 ''EXIT'' = Some (''EXIT'', [])"
    "fgets 100 [] = None"
    by (simp_all add: fgets_def numeral_eq_Suc)
  then show ?thesis by (simp add: fgets_chunks_Some fgets_chunks_None)
qed

lemma run_hi:
  "ipc_run 11 (ipc_init mb_shm mb_shm [''hi\<newline>'']) =
     \<lparr>sem_s = 0, sem_r = 0, ch = \<lparr>mq = [], shm = ''EXIT''\<rparr>, s_mb = mb_shm, s_pc = SDone,
      s_in = [], r_mb = mb_shm, r_msg = \<lparr>msg_text = ''EXIT''\<rparr>, r_pc = RDone, r_out = [''hi\<newline>'']\<rparr>"
  by (simp add: numeral_eq_Suc step_defs ipc_init_def mb_shm_def)

lemma run_hi_stuck: "stuck (ipc_run 11 (ipc_init mb_shm mb_shm [''hi\<newline>'']))"
  unfolding run_hi by (simp add: stuck_def sender_step_def receiver_step_def)

theorem ipc_delivers_file_witness:
  "same_transport mb_shm mb_shm \<and> (''hi\<newline>'' = [] \<or> last ''hi\<newline>'' = CHR ''\<newline>'') \<and>
   ipc_reach (ipc_init mb_shm mb_shm (fgets_chunks ''hi\<newline>'')) (ipc_run 11 (ipc_init mb_shm mb_shm [''hi\<newline>''])) \<and>
   stuck (ipc_run 11 (ipc_init mb_shm mb_shm [''hi\<newline>''])) \<and>
   r_out (ipc_run 11 (ipc_init mb_shm mb_shm [''hi\<newline>''])) = [''hi\<newline>'']"
proof -
  have h: "same_transport mb_shm mb_shm" "''hi\<newline>'' = [] \<or> last ''hi\<newline>'' = CHR ''\<newline>''"
    "ipc_reach (ipc_init mb_shm mb_shm (fgets_chunks ''hi\<newline>'')) (ipc_run 11 (ipc_init mb_shm mb_shm [''hi\<newline>'']))"
    "stuck (ipc_run 11 (ipc_init mb_shm mb_shm [''hi\<newline>'']))"
    by (simp add: same_transport_def mb_shm_def, simp, simp add: chunks_hi ipc_reach_of_run,
        rule run_hi_stuck)
  show ?thesis using h ipc_delivers_file [OF h] by (simp add: chunks_hi)
qed

theorem ipc_exit_deadlock_witness:
  "same_transport mb_mq mb_mq \<and> ''EXIT'' \<in> set (fgets_chunks ''a\<newline>EXIT'') \<and>
   ipc_reach (ipc_init mb_mq mb_mq (fgets_chunks ''a\<newline>EXIT''))
     (ipc_run 11 (ipc_init mb_mq mb_mq (fgets_chunks ''a\<newline>EXIT''))) \<and>
   s_pc (ipc_run 11 (ipc_init mb_mq mb_mq (fgets_chunks ''a\<newline>EXIT''))) \<noteq> SDone"
proof -
  have h: "same_transport mb_mq mb_mq" "''EXIT'' \<in> set (fgets_chunks ''a\<newline>EXIT'')"
    "ipc_reach (ipc_init mb_mq mb_mq (fgets_chunks ''a\<newline>EXIT''))
       (ipc_run 11 (ipc_init mb_mq mb_mq (fgets_chunks ''a\<newline>EXIT'')))"
    by (simp_all add: same_transport_def mb_mq_def chunks_exit ipc_reach_of_run)
  show ?thesis using h ipc_exit_deadlock [OF h] by simp
qed

theorem ipc_alternation_witness:
  "ipc_reach (ipc_init mb_mq mb_mq [''x'']) (ipc_run 4 (ipc_init mb_mq mb_mq [''x''])) \<and>
   tokens (ipc_run 4 (ipc_init mb_mq mb_mq [''x''])) = 1 \<and>
   r_pc (ipc_run 4 (ipc_init mb_mq mb_mq [''x''])) = RRecv"
proof -
  have h: "ipc_reach (ipc_init mb_mq mb_mq [''x'']) (ipc_run 4 (ipc_init mb_mq mb_mq [''x'']))"
    by (rule ipc_reach_of_run)
  have "r_pc (ipc_run 4 (ipc_init mb_mq mb_mq [''x''])) = RRecv"
    by (simp add: numeral_eq_Suc step_defs ipc_init_def ipc_scenario_defs)
  then show ?thesis using h ipc_alternation [OF h] by simp
qed

theorem ipc_run_bound_witness:
  "same_transport mb_mq mb_mq \<and> ''EXIT'' \<notin> set [''x''] \<and>
   ipc_reach (ipc_init mb_mq mb_mq [''x'']) (ipc_run 20 (ipc_init mb_mq mb_mq [''x''])) \<and>
   (\<exists>n \<le> 11. ipc_run 20 (ipc_init mb_mq mb_mq [''x'']) = ipc_run n (ipc_init mb_mq mb_mq [''x'']))"
proof -
  have h: "same_transport mb_mq mb_mq" "''EXIT'' \<notin> set [''x'']"
    "ipc_reach (ipc_init mb_mq mb_mq [''x'']) (ipc_run 20 (ipc_init mb_mq mb_mq [''x'']))"
    by (simp_all add: same_transport_def mb_mq_def ipc_reach_of_run)
  show ?thesis using h ipc_run_bound [OF h] by simp
qed

theorem mq_bound_witness:
  "flag mb_mq = 1 \<and> ipc_reach (ipc_init mb_mq mb_mq [''x'']) (ipc_run 2 (ipc_init mb_mq mb_mq [''x''])) \<and>
   length (mq (ch (ipc_run 2 (ipc_init mb_mq mb_mq [''x''])))) \<le> 1 \<and>
   mq (ch (ipc_run 2 (ipc_init mb_mq mb_mq [''x'']))) = [''x'']"
proof -
  have h: "flag mb_mq = 1" "flag mb_mq = 1"
    "ipc_reach (ipc_init mb_mq mb_mq [''x'']) (ipc_run 2 (ipc_init mb_mq mb_mq [''x'']))"
    by (simp_all add: mb_mq_def ipc_reach_of_run)
  have "mq (ch (ipc_run 2 (ipc_init mb_mq mb_mq [''x'']))) = [''x'']"
    by (simp add: numeral_eq_Suc step_defs ipc_init_def ipc_scenario_defs)
  then show ?thesis using h mq_bound [OF h] by simp
qed

section \<open>Sessions\<close>

lemma setup_mq_again:
  "mailbox_setup 1 os_ok \<lparr>mqueues = [], segments = [], sems = [''sem_sender'', ''sem_receiver'']\<rparr> =
     Inr (\<lparr>flag = 1, storage = set_mqd 3 0xDEADBEEF00000000\<rparr>,
          \<lparr>mqueues = [''/mymq''], segments = [], sems = [''sem_sender'', ''sem_receiver'']\<rparr>)"
  by (simp add: mailbox_setup_def Let_def get_set_mqd sem_open_both_def add_name_def ipc_scenario_defs)

lemma start_hi_ok:
  "sender_start 1 os_ok fs_hi ''input.txt'' k_empty =
     Inr (\<lparr>flag = 1, storage = set_mqd 3 0xDEADBEEF00000000\<rparr>, [''hi\<newline>''],
          \<lparr>mqueues = [''/mymq''], segments = [], sems = [''sem_sender'', ''sem_receiver'']\<rparr>)"
  using setup_mq_ok chunks_hi by (simp add: sender_start_def sender_input_def fs_hi_def)

theorem ipc_final_unique_witness:
  "ipc_loops (ipc_init mb_shm mb_shm [''hi\<newline>'']) = Some (ipc_run 11 (ipc_init mb_shm mb_shm [''hi\<newline>'']))"
  by (rule ipc_final_unique [THEN iffD1]) (simp add: ipc_reach_of_run run_hi_stuck)

theorem session_sender_failure_hangs_witness:
  "sender_start 1 os_fail fs_hi ''input.txt'' k_empty =
     Inl (1, \<lparr>mqueues = [], segments = [], sems = [''sem_sender'', ''sem_receiver'']\<rparr>) \<and>
   mailbox_setup 1 os_ok \<lparr>mqueues = [], segments = [], sems = [''sem_sender'', ''sem_receiver'']\<rparr> =
     Inr (\<lparr>flag = 1, storage = set_mqd 3 0xDEADBEEF00000000\<rparr>,
          \<lparr>mqueues = [''/mymq''], segments = [], sems = [''sem_sender'', ''sem_receiver'']\<rparr>) \<and>
   ipc_session 1 os_fail os_ok fs_hi ''input.txt'' k_empty =
     Some \<lparr>s_ret = Some 1, r_ret = None, printed = [],
           kern = \<lparr>mqueues = [''/mymq''], segments = [], sems = [''sem_sender'', ''sem_receiver'']\<rparr>\<rparr>"
proof -
  have a: "sender_start 1 os_fail fs_hi ''input.txt'' k_empty =
     Inl (1, \<lparr>mqueues = [], segments = [], sems = [''sem_sender'', ''sem_receiver'']\<rparr>)"
    by (simp add: sender_start_def mailbox_setup_def Let_def get_set_mqd sem_open_both_def add_name_def
        ipc_scenario_defs)
  show ?thesis using a setup_mq_again session_sender_failure_hangs [OF a setup_mq_again] by simp
qed

theorem session_receiver_failure_hangs_witness:
  "sender_start 1 os_ok fs_hi ''input.txt'' k_empty =
     Inr (\<lparr>flag = 1, storage = set_mqd 3 0xDEADBEEF00000000\<rparr>, ''hi\<newline>'' # [],
          \<lparr>mqueues = [''/mymq''], segments = [], sems = [''sem_sender'', ''sem_receiver'']\<rparr>) \<and>
   mailbox_setup 1 os_fail \<lparr>mqueues = [''/mymq''], segments = [], sems = [''sem_sender'', ''sem_receiver'']\<rparr> =
     Inl (1, \<lparr>mqueues = [''/mymq''], segments = [], sems = [''sem_sender'', ''sem_receiver'']\<rparr>) \<and>
   ipc_session 1 os_ok os_fail fs_hi ''input.txt'' k_empty =
     Some \<lparr>s_ret = None, r_ret = Some 1, printed = [],
           kern = \<lparr>mqueues = [''/mymq''], segments = [], sems = [''sem_sender'', ''sem_receiver'']\<rparr>\<rparr>"
proof -
  have b: "mailbox_setup 1 os_fail \<lparr>mqueues = [''/mymq''], segments = [], sems = [''sem_sender'', ''sem_receiver'']\<rparr> =
     Inl (1, \<lparr>mqueues = [''/mymq''], segments = [], sems = [''sem_sender'', ''sem_receiver'']\<rparr>)"
    by (simp add: mailbox_setup_def Let_def get_set_mqd sem_open_both_def add_name_def ipc_scenario_defs)
  show ?thesis using start_hi_ok b session_receiver_failure_hangs [OF start_hi_ok b] by simp
qed

end
