(* ===== verification/Spec2Isabelle.thy ===== *)
theory Spec2Isabelle
  imports Scenarios IpcScenarios
begin

text \<open>
  \<^bold>\<open>A verification development for NCKU-OS: the shell of lab 2 and the
  sender/receiver pair of lab 1.\<close>

  \<^medskip>
  \<^bold>\<open>The program.\<close> \<open>src/lab2/src/shell.c\<close> is the execution core of a small
  Unix shell. Its loop \<open>shell()\<close> prints a prompt, obtains a parsed pipeline
  (a list of \<open>cmd_node\<close>s) from the line reader and parser, and routes it: a
  single node goes first to the built-in registry and, if the name is unknown,
  to \<open>spawn_proc\<close>; several nodes go to \<open>fork_cmd_node\<close>. \<open>spawn_proc\<close> forks,
  the child applies \<open>redirection\<close> (the \<open><\<close> and \<open>>\<close> of the node) and
  \<open>execvp\<close>s, the parent waits. \<open>fork_cmd_node\<close> creates one pipe per adjacent
  pair of nodes, forks one child per node that rebinds descriptors 0 and 1 to
  the pipes and calls \<open>spawn_proc\<close>, and waits for each child before creating
  the next. Built-ins run inside the shell with their redirections applied to
  the shell's own descriptors, which are saved with \<open>dup\<close> and restored with
  \<open>dup2\<close> afterwards. A status of 0 ends the loop.

  \<open>src/sender.c\<close> and \<open>src/lab1/receiver.c\<close> (with the types of
  \<open>src/lab1/receiver.h\<close>) are two processes that pass the lines of a file
  either through a POSIX message queue (flag 1) or through a shared memory
  segment (flag 2). Both open the named semaphores \<open>sem_sender\<close> (initially 1)
  and \<open>sem_receiver\<close> (initially 0) and keep the queue descriptor or segment id
  and then the attach address in the union \<open>mailbox_t.storage\<close>. The sender
  reads each line with \<open>fgets\<close> into a 100-byte buffer, waits on
  \<open>sem_sender\<close>, sends and posts \<open>sem_receiver\<close>, and ends with the message
  \<open>EXIT\<close>; the receiver waits on \<open>sem_receiver\<close>, receives, stops on \<open>EXIT\<close>,
  otherwise prints and posts \<open>sem_sender\<close>. Both then close and unlink what
  they created.

  \<^medskip>
  \<^bold>\<open>Theories.\<close>
  \<^item> \<open>Prelude\<close>: the C types (\<open>fd\<close>, \<open>status\<close>, \<open>path\<close>), \<open>STDIN_FILENO\<close>,
    \<open>STDOUT_FILENO\<close>, \<open>EXIT_FAILURE\<close>, the theorem collections and list lemmas.
  \<^item> \<open>Posix\<close>: the environment the code calls, after the POSIX manual pages
    (not repository code, so not in the map): descriptor tables
    (\<open>ofile option list\<close>, lowest free descriptor first), \<open>open\<close>, \<open>close\<close>,
    \<open>dup\<close>, \<open>dup2\<close>, \<open>pipe\<close>, limits on descriptors and processes (\<open>env\<close>),
    pipe buffers of capacity \<open>pipe_cap\<close>, end of file only when no live
    process holds a write end, \<open>SIGPIPE\<close> when no reader is left, and external
    programs as functions from arguments and input to output and status.
  \<^item> \<open>Redirect\<close>: \<open>cmd_node\<close> and \<open>redirection\<close> (shell.c 22--41) as
    \<open>redirect_in\<close> and \<open>redirect_out\<close>; a failed \<open>open\<close> is the \<open>Inl\<close> branch
    (the process exits). Its contract \<open>redir_spec\<close> is a function on the
    descriptor view \<open>fd_get\<close>.
  \<^item> \<open>Spawn\<close>: \<open>spawn_proc\<close> (shell.c 55--77) as \<open>spawn_child\<close> and
    \<open>spawn_proc\<close>; results are \<open>(world \<times> status) option\<close>, \<open>None\<close> being a child
    that blocks forever.
  \<^item> \<open>Pipeline\<close>: \<open>fork_cmd_node\<close> (shell.c 90--147) as \<open>pipe_child\<close> (the
    child, lines 107--123) and the recursive \<open>fork_loop\<close> (the while loop);
    results are \<open>sh_res\<close>: \<open>Ret\<close> (return to the shell with its new descriptor
    table), \<open>ShExit\<close> (the shell process called \<open>exit\<close>) or \<open>Hang\<close>. Its
    reference semantics \<open>pipe_spec\<close> composes the stages' outputs.
  \<^item> \<open>Shell\<close>: the built-in registry (from its interface in the spec:
    \<open>builtin\<close>, \<open>searchBuiltInCommand\<close>, \<open>execBuiltInCommand\<close>), the Builtin
    Dispatcher \<open>builtin_dispatch\<close> (shell.c 168--182), \<open>dispatch\<close> (162--192)
    and the loop \<open>shell_step\<close> on a \<open>shell_cfg\<close> record (descriptor table,
    world, remaining input, mode \<open>Prompt | Dispatch | Cleanup | Terminated\<close>
    and the abnormal ends \<open>Died | Blocked | Crashed\<close>), iterated by
    \<open>shell_run\<close>, with \<open>shell_reach\<close> its reachability relation.
  \<^item> \<open>Scenarios\<close>: concrete programs (\<open>echo\<close>, \<open>tr\<close>, \<open>cat\<close>), built-ins
    (\<open>exit\<close>, \<open>pwd\<close>), the session \<open>echo hi | tr h H\<close>; \<open>pwd > out.txt\<close>;
    \<open>exit\<close> evaluated by \<open>simp\<close>, and one witness per property with
    hypotheses.
  \<^item> \<open>Ipc\<close>: the lab 1 data and the code each program runs alone.
    \<open>mailbox_t\<close> keeps the union as one \<open>64 word\<close>: \<open>set_mqd\<close> writes its
    low 32 bits (a store to the \<open>mqd_t\<close> member), \<open>get_mqd\<close> reads them back
    signed, \<open>set_shm_addr\<close> overwrites all 64. \<open>send\<close> and \<open>receive\<close> act on a
    channel \<open>chan\<close> (the queue's messages, the segment's string);
    \<open>mailbox_setup\<close> is lines 18--45 of either \<open>main\<close> (the two are the same
    but for \<open>O_WRONLY\<close>/\<open>O_RDONLY\<close>) on a kernel record of queue, segment and
    semaphore names, with the system calls' answers \<open>os_answers\<close> as input and
    the \<open>return 1\<close> as \<open>Inl\<close>; \<open>mailbox_cleanup\<close> is the end of \<open>main\<close>.
    \<open>fgets_chunks\<close> splits the input file into the strings successive
    \<open>fgets(text, 100, fp)\<close> calls return.
  \<^item> \<open>IpcProtocol\<close>: both loops as program counters (\<open>spc\<close>, \<open>rpc\<close>) in one
    state \<open>ipc_state\<close> with the two semaphore counts; \<open>sender_step\<close> and
    \<open>receiver_step\<close> make one statement each (\<open>None\<close> when blocked on
    \<open>sem_wait\<close> or finished); \<open>ipc_step\<close> is their interleaving and
    \<open>ipc_reach\<close> its reachability; \<open>ipc_run\<close> is the schedule that runs
    whichever program can move.
  \<^item> \<open>IpcSession\<close>: both \<open>main\<close> functions side by side: \<open>sender_start\<close>
    (sender.c 13--53: set-up and \<open>fopen\<close>), the receiver's set-up, the loops
    run by \<open>ipc_loops\<close> (a \<open>while_option\<close> over the scheduler until neither
    program can move) and \<open>main_end\<close> (clean-up and \<open>return 0\<close>, or no
    return when the program is left in \<open>sem_wait\<close>), composed as
    \<open>ipc_session\<close>. A program whose start fails returns its code and takes no
    part in the loops.
  \<^item> \<open>IpcScenarios\<close>: concrete kernels, system-call answers and files, the
    run on the one-line file \<open>hi\<close>, sessions with failing and succeeding
    set-ups, and the witnesses of the lab 1 properties.

  \<^medskip>
  \<^bold>\<open>What is proved.\<close>
  \<^item> Pipelines: functional correctness against \<open>pipe_spec\<close> when every
    intermediate output fits a pipe buffer (C1), blocking forever otherwise
    because of the wait-per-stage order (C3), and, whatever the stages do, no
    descriptor left open in the shell and every child reaped (C9).
  \<^item> Redirection: refinement of \<open>redir_spec\<close> (C4), the error branch (C13),
    and, for every table with descriptor 0 open and 1 closed, the loss of
    \<open>> f\<close>: the file is truncated but descriptor 1 stays closed (C15).
  \<^item> Spawner: terminal I/O of an external command (C14) and the round trip
    \<open>cmd > f\<close> then \<open>cat < f\<close> (C8).
  \<^item> Shell loop: in every live state the shell's descriptors and process count
    are the initial ones (C2, rule induction over \<open>shell_reach\<close>); a
    redirected built-in restores the shell's streams (C5); only a built-in
    returning 0 ends the loop (C6); the exit built-in ends it in three steps
    (C7); end of input makes it spin (C10); and the fatal paths in which the
    shell itself exits (C11, C12).
  \<^item> IPC protocol: a token invariant (the two semaphore counts plus the
    programs inside their critical sections always sum to one) gives strict
    alternation of send and receive and that at most one program can move
    (C17), hence every interleaving is a prefix of the one run \<open>ipc_run\<close>.
    From there: a file ending in a newline is delivered line by line, in
    order, and both programs finish (C16); with no line equal to \<open>EXIT\<close> they
    finish within \<open>6n + 5\<close> steps for \<open>n\<close> lines (C19); the queue never holds
    more than one message, below \<open>mq_maxmsg\<close> (C20); a file whose last line is
    \<open>EXIT\<close> without a newline deadlocks the sender (C18).
  \<^item> IPC set-up and clean-up: the set-up succeeds exactly when \<open>mq_open\<close>
    did not return \<open>-1\<close>, and the descriptor survives the union (C23);
    \<open>shmctl\<close> receives the address's low bits in place of the segment id, so
    the segment survives (C21); the queue is created as \<open>/mymq\<close> and unlinked
    as \<open>/my_mq\<close>, so it survives (C22); the error path leaves the semaphores
    (C24).
  \<^item> Sessions: a state where neither program can move is reachable exactly
    when it is where the scheduled loops end, so the outcome does not depend on
    the interleaving (C26); a message-queue session on a well-formed file
    returns 0 from both programs, prints the file, unlinks the semaphores and
    leaves the queue (C25, in this theory); a failed start of either program
    leaves the other one blocked for ever (C27, C28).

  \<^medskip>
  \<^bold>\<open>Bounds.\<close> Descriptor and process limits are parameters of \<open>env\<close>; each
  property states what it needs (the loop: two free descriptors for the saved
  copies of 0 and 1; a pipeline: two descriptors per stage and one process
  more than the stages). The loop may run forever, so it is a step function and
  \<open>shell_run n\<close> its first \<open>n\<close> steps; the liveness properties give the number
  of steps. The IPC protocol needs no fuel bound: \<open>ipc_run\<close> stops where no
  program can move, and C19 shows \<open>6n + 5\<close> steps suffice (six statements per
  line, five for the \<open>EXIT\<close> message and the end of both loops). The
  session's \<open>while_option\<close> stops because every move lowers
  \<open>ipc_measure\<close> (four times the sender's remaining statements plus three per
  unit of \<open>sem_receiver\<close> plus the receiver's position), so no fuel is needed
  there either (\<open>ipc_loops_terminates\<close>). The message
  queue's capacity \<open>mq_maxmsg = 10\<close> is the code's attribute; a full queue
  is a blocked \<open>send\<close>.

  \<^medskip>
  \<^bold>\<open>Not modelled.\<close> The line reader and parser (\<open>read_line\<close>, \<open>split_line\<close>)
  and the built-in implementations are not in the repository: the loop takes
  parsed pipelines as input and built-ins by their interface. Buffering of
  \<open>printf\<close> is not modelled (the prompt is written when it is printed).
  Freeing the command list has no observable effect and is the \<open>Cleanup\<close>
  step. In lab 1 the \<open>clock_gettime\<close> timing and the \<open>printf\<close> of each
  sent message change no state the programs read and are left out (the
  receiver's printed messages are \<open>r_out\<close>); \<open>ftok\<close> and the key are folded
  into the answer of \<open>shmget\<close>; \<open>mq_close\<close>, \<open>shmdt\<close>, \<open>fclose\<close> and
  \<open>sem_close\<close> release per-process handles only, and the model tracks the
  kernel objects that outlive the processes. \<open>sem_open\<close> with \<open>O_CREAT\<close>
  keeps the value of a semaphore that already exists; the model starts both
  semaphores at 1 and 0, as in a run where no earlier run left them behind.
\<close>

section \<open>The two programs of lab 1 together\<close>

text \<open>C25: a message-queue session delivers the file and leaks the queue. When
  both \<open>mq_open\<close> calls succeed and the input file is empty or ends with a
  newline, both programs return 0, the receiver prints exactly the lines the
  sender read (which make up the whole file), both semaphores are unlinked,
  and the queue \<open>/mymq\<close> is still there afterwards.\<close>

theorem session_mq_delivers:
  assumes "fs p = Some s" "s = [] \<or> last s = CHR ''\<newline>''"
    and "- (2 ^ 31) \<le> mq_ret osS" "mq_ret osS < 2 ^ 31" "mq_ret osS \<noteq> -1"
    and "- (2 ^ 31) \<le> mq_ret osR" "mq_ret osR < 2 ^ 31" "mq_ret osR \<noteq> -1"
  shows "\<exists>k'. ipc_session 1 osS osR fs p k =
            Some \<lparr>s_ret = Some 0, r_ret = Some 0, printed = fgets_chunks s, kern = k'\<rparr> \<and>
          concat (fgets_chunks s) = s \<and> ''/mymq'' \<in> set (mqueues k') \<and>
          ''sem_sender'' \<notin> set (sems k') \<and> ''sem_receiver'' \<notin> set (sems k')"
proof -
  define mbS where "mbS = \<lparr>flag = 1, storage = set_mqd (mq_ret osS) (junk osS)\<rparr>"
  define mbR where "mbR = \<lparr>flag = 1, storage = set_mqd (mq_ret osR) (junk osR)\<rparr>"
  define k1 where "k1 = (sem_open_both k)\<lparr>mqueues := add_name ''/mymq'' (mqueues (sem_open_both k))\<rparr>"
  define k2 where "k2 = (sem_open_both k1)\<lparr>mqueues := add_name ''/mymq'' (mqueues (sem_open_both k1))\<rparr>"
  have S: "sender_start 1 osS fs p k = Inr (mbS, fgets_chunks s, k1)"
    using mq_setup_Inr [OF assms(3-5), of k] assms(1)
    by (simp add: sender_start_def sender_input_def mbS_def k1_def)
  have R: "mailbox_setup 1 osR k1 = Inr (mbR, k2)"
    using mq_setup_Inr [OF assms(6-8), of k1] by (simp add: mbR_def k2_def)
  have "same_transport mbS mbR" by (simp add: same_transport_def mbS_def mbR_def)
  from session_both_ok [OF S R this fgets_chunks_no_exit [OF assms(2)]]
  have run: "ipc_session 1 osS osR fs p k = Some \<lparr>s_ret = Some 0, r_ret = Some 0,
      printed = fgets_chunks s, kern = mailbox_cleanup mbR (mailbox_cleanup mbS k2)\<rparr>" .
  have "''/mymq'' \<in> set (mqueues (mailbox_cleanup mbR (mailbox_cleanup mbS k2)))"
    by (simp add: mailbox_cleanup_def mbS_def mbR_def k2_def add_name_def sem_open_both_def)
  moreover have "''sem_sender'' \<notin> set (sems (mailbox_cleanup mbR (mailbox_cleanup mbS k2)))"
    "''sem_receiver'' \<notin> set (sems (mailbox_cleanup mbR (mailbox_cleanup mbS k2)))"
    by (simp_all add: mailbox_cleanup_def mbS_def mbR_def)
  ultimately show ?thesis using run fgets_chunks_concat by blast
qed

theorem session_mq_delivers_witness:
  "fs_hi ''input.txt'' = Some ''hi\<newline>'' \<and> (''hi\<newline>'' = [] \<or> last ''hi\<newline>'' = CHR ''\<newline>'') \<and>
   - (2 ^ 31) \<le> mq_ret os_ok \<and> mq_ret os_ok < 2 ^ 31 \<and> mq_ret os_ok \<noteq> -1 \<and>
   (\<exists>k'. ipc_session 1 os_ok os_ok fs_hi ''input.txt'' k_empty =
      Some \<lparr>s_ret = Some 0, r_ret = Some 0, printed = [''hi\<newline>''], kern = k'\<rparr> \<and>
      ''/mymq'' \<in> set (mqueues k'))"
proof -
  have f: "fs_hi ''input.txt'' = Some ''hi\<newline>''" "''hi\<newline>'' = [] \<or> last ''hi\<newline>'' = CHR ''\<newline>''"
    by (simp_all add: fs_hi_def)
  have h: "- (2 ^ 31) \<le> mq_ret os_ok" "mq_ret os_ok < 2 ^ 31" "mq_ret os_ok \<noteq> -1"
    by (simp_all add: os_ok_def)
  show ?thesis using f h session_mq_delivers [where fs = fs_hi and p = "''input.txt''" and s = "''hi\<newline>''"
      and osS = os_ok and osR = os_ok and k = k_empty, OF f h h] chunks_hi by auto
qed

end
